theory Spec2Isabelle
  imports Main
begin

section \<open>JavaScript values, strings and thrown errors\<close>

text \<open>
  The handlers of localflare move JSON-like values between a request, a platform binding and
  a response. Values are kept as a datatype; an object keeps its entries in the order
  \<^verbatim>\<open>Object.entries\<close> yields them. Numbers are the integers (no handler modelled here
  computes with a fraction); the builtins that make a number from a text or a text from a
  number are parameters of the functions that call them, so that their rounding and their
  output format stay those of the engine. Strings are lists of characters. \<open>JBuiltin n\<close> is
  the member named \<open>n\<close> of \<^verbatim>\<open>Object.prototype\<close>, which every plain object inherits.
\<close>

datatype jsval =
    JUndefined
  | JNull
  | JBool bool
  | JNum int
  | JStr string
  | JArr "jsval list"
  | JObj "(string \<times> jsval) list"
  | JBuiltin string

text \<open>A thrown \<^verbatim>\<open>Error\<close> object: its name and its message.\<close>

datatype exn = Exn string string

text \<open>
  \<^verbatim>\<open>String(error)\<close> of an error object: \<^verbatim>\<open>name + ": " + message\<close>, or the one of the two
  that is not empty.
\<close>

fun String_exn :: "exn \<Rightarrow> string" where
  "String_exn (Exn name msg) =
     (if msg = [] then name else if name = [] then msg else name @ '': '' @ msg)"

abbreviation DQ :: char where
  "DQ \<equiv> CHR 0x22"

text \<open>
  \<^verbatim>\<open>obj[key]\<close> on a plain object (one made by \<^verbatim>\<open>JSON.parse\<close> or an object literal): the own
  property if there is one; otherwise the lookup goes on in \<^verbatim>\<open>Object.prototype\<close>, whose
  members are listed here, and yields \<^verbatim>\<open>undefined\<close> for any other key.
\<close>

definition objectPrototypeMembers :: "string list" where
  "objectPrototypeMembers =
     [''constructor'', ''__defineGetter__'', ''__defineSetter__'', ''hasOwnProperty'',
      ''__lookupGetter__'', ''__lookupSetter__'', ''isPrototypeOf'', ''propertyIsEnumerable'',
      ''toString'', ''valueOf'', ''__proto__'', ''toLocaleString'']"

definition getProp :: "(string \<times> jsval) list \<Rightarrow> string \<Rightarrow> jsval" where
  "getProp obj key =
     (case map_of obj key of
        Some v \<Rightarrow> v
      | None \<Rightarrow> if key \<in> set objectPrototypeMembers then JBuiltin key else JUndefined)"

text \<open>\<^verbatim>\<open>s.startsWith(p)\<close> and \<^verbatim>\<open>s.endsWith(p)\<close>.\<close>

definition startsWith :: "string \<Rightarrow> string \<Rightarrow> bool" where
  "startsWith s p = (take (length p) s = p)"

definition endsWith :: "string \<Rightarrow> string \<Rightarrow> bool" where
  "endsWith s p = (length p \<le> length s \<and> drop (length s - length p) s = p)"

text \<open>\<^verbatim>\<open>xs.join(sep)\<close> on an array of strings.\<close>

fun join :: "string \<Rightarrow> string list \<Rightarrow> string" where
  "join sep [] = []"
| "join sep [x] = x"
| "join sep (x # y # ys) = x @ sep @ join sep (y # ys)"

text \<open>
  \<^verbatim>\<open>s.replace(/c/g, r)\<close> for a pattern that is one literal character: every occurrence,
  left to right, is replaced by \<open>r\<close>.
\<close>

fun replaceAll :: "char \<Rightarrow> string \<Rightarrow> string \<Rightarrow> string" where
  "replaceAll c r [] = []"
| "replaceAll c r (x # xs) = (if x = c then r @ replaceAll c r xs else x # replaceAll c r xs)"

section \<open>SQL helpers of the API worker's D1 routes\<close>

text \<open>
  \<^verbatim>\<open>function escapeIdentifier(name) { return `"${name.replace(/"/g, '""')}"` }\<close>
\<close>

definition escapeIdentifier :: "string \<Rightarrow> string" where
  "escapeIdentifier name = [DQ] @ replaceAll DQ [DQ, DQ] name @ [DQ]"

text \<open>
  How SQLite reads a double-quoted identifier, given the text after the opening quote: two
  adjacent quotes stand for one quote character of the name, a single quote closes the
  identifier. The result is the name read and the text left after the closing quote;
  \<open>None\<close> when the identifier is never closed. This reader is the yardstick for
  "correctly quoted"; it is not part of the repository.
\<close>

fun scan_quoted :: "string \<Rightarrow> (string \<times> string) option" where
  "scan_quoted [] = None"
| "scan_quoted [c] = (if c = DQ then Some ([], []) else None)"
| "scan_quoted (c # d # xs) =
     (if c = DQ then
        (if d = DQ then map_option (\<lambda>(n, r). (DQ # n, r)) (scan_quoted xs)
         else Some ([], d # xs))
      else map_option (\<lambda>(n, r). (c # n, r)) (scan_quoted (d # xs)))"

text \<open>Every double quote of the text stands in a pair of two adjacent quotes.\<close>

fun quotes_doubled :: "string \<Rightarrow> bool" where
  "quotes_doubled [] = True"
| "quotes_doubled [c] = (c \<noteq> DQ)"
| "quotes_doubled (c # d # xs) =
     (if c = DQ then d = DQ \<and> quotes_doubled xs else quotes_doubled (d # xs))"

text \<open>
  The row identifier of a request: the \<^verbatim>\<open>:rowId\<close> path parameter (a string) or an entry of
  \<^verbatim>\<open>rowIds\<close> in a bulk request body (\<^verbatim>\<open>string | Record<string, unknown>\<close>).
\<close>

datatype row_id = RowStr string | RowObj "(string \<times> jsval) list"

record pk_where =
  clause :: string
  values_list :: "jsval list"

text \<open>
  \<^verbatim>\<open>buildPrimaryKeyWhere(primaryKeys, rowId)\<close>. The builtin \<^verbatim>\<open>JSON.parse\<close> is a parameter:
  the function calls it only on a text that begins with \<^verbatim>\<open>[\<close>, where it either yields an
  array (\<open>Some\<close> of its elements) or throws (\<open>None\<close>). A parse error falls through to the
  later branches, as the empty \<^verbatim>\<open>catch\<close> does.
\<close>

definition pkCondition :: "string \<Rightarrow> string" where
  "pkCondition pk = escapeIdentifier pk @ '' = ?''"

definition buildPrimaryKeyWhere ::
  "(string \<Rightarrow> jsval list option) \<Rightarrow> string list \<Rightarrow> row_id \<Rightarrow> exn + pk_where" where
  "buildPrimaryKeyWhere JSON_parse primaryKeys rowId =
     (let parsed = (case rowId of
                      RowStr s \<Rightarrow> if startsWith s ''['' then JSON_parse s else None
                    | RowObj obj \<Rightarrow> None)
      in case parsed of
           Some keyValues \<Rightarrow>
             Inr \<lparr>clause = join '' AND '' (map pkCondition primaryKeys), values_list = keyValues\<rparr>
         | None \<Rightarrow>
             (case rowId of
                RowObj obj \<Rightarrow>
                  Inr \<lparr>clause = join '' AND '' (map pkCondition primaryKeys),
                       values_list = map (\<lambda>pk. getProp obj pk) primaryKeys\<rparr>
              | RowStr s \<Rightarrow>
                  (case primaryKeys of
                     [pk] \<Rightarrow> Inr \<lparr>clause = pkCondition pk, values_list = [JStr s]\<rparr>
                   | _ \<Rightarrow> Inl (Exn ''Error''
                               ''Invalid row identifier for composite primary key''))))"

section \<open>String functions of the dashboard's row editor\<close>

text \<open>
  \<^verbatim>\<open>String(v)\<close>. The text of a number is made by the engine (\<^verbatim>\<open>Number.prototype.toString\<close>,
  the parameter \<open>numberToString\<close>): it switches to exponent form for large numbers. An
  array is its elements joined by commas, with \<^verbatim>\<open>null\<close> and \<^verbatim>\<open>undefined\<close> elements left
  empty; a plain object is \<^verbatim>\<open>[object Object]\<close>; an inherited member is a native function,
  except \<^verbatim>\<open>__proto__\<close>, which is the prototype object itself.
\<close>

fun String_js :: "(int \<Rightarrow> string) \<Rightarrow> jsval \<Rightarrow> string" where
  "String_js numberToString JUndefined = ''undefined''"
| "String_js numberToString JNull = ''null''"
| "String_js numberToString (JBool b) = (if b then ''true'' else ''false'')"
| "String_js numberToString (JNum n) = numberToString n"
| "String_js numberToString (JStr s) = s"
| "String_js numberToString (JArr xs) =
     join '',''
       (map (\<lambda>x. if x = JNull \<or> x = JUndefined then [] else String_js numberToString x) xs)"
| "String_js numberToString (JObj kvs) = ''[object Object]''"
| "String_js numberToString (JBuiltin n) =
     (if n = ''__proto__'' then ''[object Object]''
      else ''function '' @ (if n = ''constructor'' then ''Object'' else n) @
           ''() { [native code] }'')"

text \<open>
  The white space \<^verbatim>\<open>trim\<close> and \<^verbatim>\<open>parseInt\<close> skip, among the characters a \<open>char\<close> can
  hold: tab, line feed, vertical tab, form feed, carriage return, space, no-break space.
\<close>

definition isWhiteSpace :: "char \<Rightarrow> bool" where
  "isWhiteSpace c =
     (c \<in> set [CHR 0x09, CHR 0x0A, CHR 0x0B, CHR 0x0C, CHR 0x0D, CHR 0x20, CHR 0xA0])"

definition trim :: "string \<Rightarrow> string" where
  "trim s = rev (dropWhile isWhiteSpace (rev (dropWhile isWhiteSpace s)))"

text \<open>
  \<^verbatim>\<open>s.toUpperCase()\<close> on the letters a to z; every other character is kept (the model does
  not follow the case mappings of characters outside ASCII).
\<close>

definition lowerLetters :: string where
  "lowerLetters = ''abcdefghijklmnopqrstuvwxyz''"

definition upperLetters :: string where
  "upperLetters = ''ABCDEFGHIJKLMNOPQRSTUVWXYZ''"

definition upperChar :: "char \<Rightarrow> char" where
  "upperChar c = (case map_of (zip lowerLetters upperLetters) c of None \<Rightarrow> c | Some u \<Rightarrow> u)"

definition toUpperCase :: "string \<Rightarrow> string" where
  "toUpperCase s = map upperChar s"

text \<open>\<^verbatim>\<open>s.includes(sub)\<close>.\<close>

fun includes_str :: "string \<Rightarrow> string \<Rightarrow> bool" where
  "includes_str [] sub = (sub = [])"
| "includes_str (x # xs) sub = (startsWith (x # xs) sub \<or> includes_str xs sub)"

text \<open>\<^verbatim>\<open>s.slice(b, e)\<close>: a negative index counts from the end, both are clamped to the string.\<close>

definition slice :: "string \<Rightarrow> int \<Rightarrow> int \<Rightarrow> string" where
  "slice s b e =
     (let n = int (length s);
          from = (if b < 0 then max (n + b) 0 else min b n);
          to = (if e < 0 then max (n + e) 0 else min e n)
      in take (nat (to - from)) (drop (nat from) s))"

text \<open>
  \<^verbatim>\<open>sqlExpressionDefaults\<close>, \<^verbatim>\<open>isSqlExpression\<close> and \<^verbatim>\<open>parseDefaultValue\<close> of
  \<^verbatim>\<open>RowEditorDialog.tsx\<close>. The builtins \<^verbatim>\<open>parseInt(s, 10)\<close> and \<^verbatim>\<open>parseFloat(s)\<close> are
  parameters: \<open>None\<close> when the result is \<^verbatim>\<open>NaN\<close>, otherwise the number the engine makes of
  the text, as a value (a double: a long run of digits is rounded).
\<close>

definition sqlExpressionDefaults :: "string list" where
  "sqlExpressionDefaults =
     [''CURRENT_TIMESTAMP'', ''CURRENT_DATE'', ''CURRENT_TIME'',
      ''DATETIME'', ''DATE'', ''TIME'', ''STRFTIME'',
      ''('']"

definition isSqlExpression :: "(int \<Rightarrow> string) \<Rightarrow> jsval \<Rightarrow> bool" where
  "isSqlExpression numberToString defaultValue =
     (if defaultValue = JNull \<or> defaultValue = JUndefined then False
      else let strValue = trim (toUpperCase (String_js numberToString defaultValue))
           in list_ex (\<lambda>expr. startsWith strValue expr) sqlExpressionDefaults)"

definition parseDefaultValue ::
  "(int \<Rightarrow> string) \<Rightarrow> (string \<Rightarrow> jsval option) \<Rightarrow> (string \<Rightarrow> jsval option)
     \<Rightarrow> jsval \<Rightarrow> string \<Rightarrow> jsval" where
  "parseDefaultValue numberToString parseInt parseFloat defaultValue columnType =
     (if defaultValue = JNull \<or> defaultValue = JUndefined then JNull
      else
        let strValue = trim (String_js numberToString defaultValue);
            upperType = toUpperCase columnType
        in if isSqlExpression numberToString defaultValue then JNull
           else if (startsWith strValue [CHR 0x27] \<and> endsWith strValue [CHR 0x27]) \<or>
                   (startsWith strValue [DQ] \<and> endsWith strValue [DQ])
             then JStr (slice strValue 1 (- 1))
           else if toUpperCase strValue = ''NULL'' then JNull
           else if includes_str upperType ''INT'' then
             (case parseInt strValue of None \<Rightarrow> JStr strValue | Some num \<Rightarrow> num)
           else if includes_str upperType ''REAL'' \<or> includes_str upperType ''FLOAT'' \<or>
                   includes_str upperType ''DOUBLE'' then
             (case parseFloat strValue of None \<Rightarrow> JStr strValue | Some num \<Rightarrow> num)
           else JStr strValue)"

section \<open>The command-line interface\<close>

text \<open>
  The CLI is declared with the \<^verbatim>\<open>cac\<close> library: one \<^verbatim>\<open>cli.command(rawName, description)\<close>
  followed by \<^verbatim>\<open>.option(rawName, description, { default })\<close> calls. The declarations are
  kept as data, with the raw strings of the source.
\<close>

record cli_option =
  opt_rawName :: string
  opt_description :: string
  opt_default :: jsval

record cli_command =
  cmd_rawName :: string
  cmd_description :: string
  cmd_options :: "cli_option list"

definition cli_commands :: "cli_command list" where
  "cli_commands =
     [\<lparr>cmd_rawName = ''[configPath]'',
       cmd_description = ''Start LocalFlare development server'',
       cmd_options =
         [\<lparr>opt_rawName = ''-p, --port <port>'', opt_description = ''Worker port'',
            opt_default = JNum 8787\<rparr>,
          \<lparr>opt_rawName = ''-d, --dashboard-port <port>'', opt_description = ''Dashboard port'',
            opt_default = JNum 8788\<rparr>,
          \<lparr>opt_rawName = ''--persist <path>'', opt_description = ''Persistence directory'',
            opt_default = JStr ''.localflare''\<rparr>,
          \<lparr>opt_rawName = ''-v, --verbose'', opt_description = ''Verbose output'',
            opt_default = JUndefined\<rparr>]\<rparr>]"

text \<open>
  How \<^verbatim>\<open>cac\<close> reads a raw name: the text from the first \<^verbatim>\<open><\<close> or \<^verbatim>\<open>[\<close> on is the
  argument part and is dropped, the rest is trimmed. What is left of a command's raw name is
  the command's name (empty for the default command, which runs when no sub-command is
  named); what is left of an option's raw name is split at commas, and each piece, trimmed
  and without its leading dashes, is a spelling of the flag.
\<close>

definition removeBrackets :: "string \<Rightarrow> string" where
  "removeBrackets v = trim (takeWhile (\<lambda>c. c \<noteq> CHR ''<'' \<and> c \<noteq> CHR ''['') v)"

fun splitOn :: "char \<Rightarrow> string \<Rightarrow> string list" where
  "splitOn c [] = [[]]"
| "splitOn c (x # xs) =
     (if x = c then [] # splitOn c xs
      else (case splitOn c xs of [] \<Rightarrow> [[x]] | w # ws \<Rightarrow> (x # w) # ws))"

definition stripDashes :: "string \<Rightarrow> string" where
  "stripDashes v =
     (if startsWith v ''--'' then drop 2 v else if startsWith v ''-'' then drop 1 v else v)"

definition commandName :: "cli_command \<Rightarrow> string" where
  "commandName c = removeBrackets (cmd_rawName c)"

definition flagNames :: "cli_option \<Rightarrow> string list" where
  "flagNames opt = map (\<lambda>v. stripDashes (trim v)) (splitOn (CHR '','') (removeBrackets (opt_rawName opt)))"

definition commandFlags :: "cli_command \<Rightarrow> string list" where
  "commandFlags c = concat (map flagNames (cmd_options c))"

text \<open>
  The action of the command takes the configuration file from the positional argument:
  \<^verbatim>\<open>const config = configPath ?? './wrangler.toml'\<close>.
\<close>

definition configOf :: "string option \<Rightarrow> string" where
  "configOf configPath = (case configPath of None \<Rightarrow> ''./wrangler.toml'' | Some p \<Rightarrow> p)"

section \<open>Bindings, requests and responses\<close>

text \<open>
  A prepared statement with its bound parameters: \<^verbatim>\<open>db.prepare(sql).bind(...params)\<close>.
  Preparing and binding only build the statement; the database is reached when the
  statement is executed with \<^verbatim>\<open>all\<close>, \<^verbatim>\<open>run\<close>, \<^verbatim>\<open>first\<close> or \<^verbatim>\<open>db.batch\<close>.
\<close>

record stmt =
  stmt_sql :: string
  stmt_params :: "jsval list"

text \<open>
  A response that is not made with \<^verbatim>\<open>c.json\<close>: \<^verbatim>\<open>new Response(body, { headers })\<close>, or the
  response of a Durable Object passed on as it is. The request forwarded to a Durable
  Object: \<^verbatim>\<open>new Request(url, { method, headers, body })\<close>.
\<close>

record raw_response =
  raw_status :: nat
  raw_headers :: "(string \<times> string) list"
  raw_body :: string

record do_request =
  rq_url :: string
  rq_method :: string
  rq_headers :: "(string \<times> string) list"
  rq_body :: "string option"

text \<open>
  The calls a handler makes on a binding: the methods of a D1 database, of a KV namespace
  (\<^verbatim>\<open>get\<close> and \<^verbatim>\<open>getWithMetadata\<close> with the key and the type asked for, \<^verbatim>\<open>list\<close> with its
  options, \<^verbatim>\<open>put\<close> with key, value and options, \<^verbatim>\<open>delete\<close>), of an R2 bucket (\<^verbatim>\<open>delete\<close>
  takes one key or an array of keys), of a queue, and of a Durable Object namespace and the
  stub got from it.
\<close>

datatype call =
    D1All stmt
  | D1Run stmt
  | D1First stmt
  | D1Batch "stmt list"
  | KVGet string string
  | KVGetWithMetadata string string
  | KVList jsval
  | KVPut string jsval jsval
  | KVDelete string
  | R2List jsval
  | R2Head string
  | R2Get string
  | R2Put string "string option" jsval
  | R2Delete string
  | R2DeleteMany "string list"
  | QueueSend jsval
  | QueueSendBatch "jsval list"
  | DOIdFromString string
  | DOIdFromName string
  | DONewUniqueId
  | DOGet string
  | DOFetch string do_request

text \<open>
  The result of a D1 call. \<^verbatim>\<open>meta\<close> and its \<^verbatim>\<open>changes\<close> may be missing: the handlers read
  them as \<^verbatim>\<open>result.meta?.changes ?? 0\<close>.
\<close>

record d1meta =
  meta_changes :: "int option"
  meta_last_row_id :: jsval
  meta_duration :: jsval

record d1result =
  res_success :: bool
  res_results :: "jsval list"
  res_meta :: "d1meta option"

text \<open>
  A D1 database binding over a database state \<open>'s\<close>: each method takes the state and returns
  a result or a thrown error (\<open>Inl\<close>), with the new state.
\<close>

record 's d1database =
  d1_all :: "stmt \<Rightarrow> 's \<Rightarrow> (exn + d1result) \<times> 's"
  d1_run :: "stmt \<Rightarrow> 's \<Rightarrow> (exn + d1result) \<times> 's"
  d1_first :: "stmt \<Rightarrow> 's \<Rightarrow> (exn + jsval) \<times> 's"
  d1_batch :: "stmt list \<Rightarrow> 's \<Rightarrow> (exn + d1result list) \<times> 's"

text \<open>
  The world a handler runs in: the state behind the binding, and the log of the calls made
  on it, each with the error it threw, if any.
\<close>

type_synonym 's world = "'s \<times> (call \<times> exn option) list"

definition invoke :: "call \<Rightarrow> ('s \<Rightarrow> (exn + 'a) \<times> 's) \<Rightarrow> 's world \<Rightarrow> (exn + 'a) \<times> 's world" where
  "invoke c f w =
     (case f (fst w) of
        (Inl e, s') \<Rightarrow> (Inl e, (s', snd w @ [(c, Some e)]))
      | (Inr a, s') \<Rightarrow> (Inr a, (s', snd w @ [(c, None)])))"

definition call_all :: "'s d1database \<Rightarrow> stmt \<Rightarrow> 's world \<Rightarrow> (exn + d1result) \<times> 's world" where
  "call_all db q = invoke (D1All q) (d1_all db q)"

definition call_run :: "'s d1database \<Rightarrow> stmt \<Rightarrow> 's world \<Rightarrow> (exn + d1result) \<times> 's world" where
  "call_run db q = invoke (D1Run q) (d1_run db q)"

definition call_first :: "'s d1database \<Rightarrow> stmt \<Rightarrow> 's world \<Rightarrow> (exn + jsval) \<times> 's world" where
  "call_first db q = invoke (D1First q) (d1_first db q)"

definition call_batch ::
  "'s d1database \<Rightarrow> stmt list \<Rightarrow> 's world \<Rightarrow> (exn + d1result list) \<times> 's world" where
  "call_batch db qs = invoke (D1Batch qs) (d1_batch db qs)"

text \<open>
  Sequencing inside a \<^verbatim>\<open>try\<close> block: a thrown error skips the rest of the block.
\<close>

definition bindE ::
  "(exn + 'a) \<times> 'w \<Rightarrow> ('a \<Rightarrow> 'w \<Rightarrow> (exn + 'b) \<times> 'w) \<Rightarrow> (exn + 'b) \<times> 'w" where
  "bindE r f = (case r of (Inl e, w) \<Rightarrow> (Inl e, w) | (Inr a, w) \<Rightarrow> f a w)"

text \<open>A response: \<^verbatim>\<open>c.json(body, status)\<close>; the status is 200 when it is left out.\<close>

record response =
  status :: nat
  body :: jsval

definition json :: "(string \<times> jsval) list \<Rightarrow> nat \<Rightarrow> response" where
  "json obj st = \<lparr>status = st, body = JObj obj\<rparr>"

text \<open>
  The two \<^verbatim>\<open>catch\<close> blocks of the handlers:
  \<^verbatim>\<open>catch (error) { return c.json({ error: String(error) }, 500) }\<close> and
  \<^verbatim>\<open>catch (error) { return c.json({ error: String(error), success: false }, 500) }\<close>.
\<close>

definition catch500 :: "(exn + response) \<times> 'w \<Rightarrow> response \<times> 'w" where
  "catch500 r =
     (case r of
        (Inl error, w) \<Rightarrow> (json [(''error'', JStr (String_exn error))] 500, w)
      | (Inr resp, w) \<Rightarrow> (resp, w))"

definition catch500s :: "(exn + response) \<times> 'w \<Rightarrow> response \<times> 'w" where
  "catch500s r =
     (case r of
        (Inl error, w) \<Rightarrow>
          (json [(''error'', JStr (String_exn error)), (''success'', JBool False)] 500, w)
      | (Inr resp, w) \<Rightarrow> (resp, w))"

text \<open>\<^verbatim>\<open>result.meta?.changes ?? 0\<close>, \<^verbatim>\<open>result.meta?.last_row_id\<close>, \<^verbatim>\<open>result.meta?.duration\<close>.\<close>

definition changesOf :: "d1result \<Rightarrow> int" where
  "changesOf result =
     (case res_meta result of
        None \<Rightarrow> 0
      | Some m \<Rightarrow> (case meta_changes m of None \<Rightarrow> 0 | Some n \<Rightarrow> n))"

definition lastRowIdOf :: "d1result \<Rightarrow> jsval" where
  "lastRowIdOf result = (case res_meta result of None \<Rightarrow> JUndefined | Some m \<Rightarrow> meta_last_row_id m)"

definition durationOf :: "d1result \<Rightarrow> jsval" where
  "durationOf result = (case res_meta result of None \<Rightarrow> JUndefined | Some m \<Rightarrow> meta_duration m)"

text \<open>
  Reading request parameters and binding results. \<^verbatim>\<open>c.req.query(name) || undefined\<close>: a
  missing or empty parameter is \<^verbatim>\<open>undefined\<close>. \<^verbatim>\<open>Number(c.req.query(name)) || d\<close>: the
  parameter as a number (\<open>None\<close> for \<^verbatim>\<open>NaN\<close>; the model keeps to whole numbers), or \<open>d\<close> when
  it is \<^verbatim>\<open>NaN\<close> or zero. \<^verbatim>\<open>v || undefined\<close> on a value, \<^verbatim>\<open>a ?? b\<close>, and \<^verbatim>\<open>v.name\<close> or
  \<^verbatim>\<open>v?.name\<close> on a value typed as an object or \<^verbatim>\<open>undefined\<close>.
\<close>

definition orUndefined :: "string option \<Rightarrow> jsval" where
  "orUndefined q = (case q of None \<Rightarrow> JUndefined | Some v \<Rightarrow> if v = [] then JUndefined else JStr v)"

definition orDefault :: "int option \<Rightarrow> int \<Rightarrow> int" where
  "orDefault n d = (case n of None \<Rightarrow> d | Some v \<Rightarrow> if v = 0 then d else v)"

definition truthy :: "jsval \<Rightarrow> bool" where
  "truthy v =
     (case v of
        JUndefined \<Rightarrow> False
      | JNull \<Rightarrow> False
      | JBool b \<Rightarrow> b
      | JNum n \<Rightarrow> n \<noteq> 0
      | JStr s \<Rightarrow> s \<noteq> []
      | _ \<Rightarrow> True)"

definition valueOrUndefined :: "jsval \<Rightarrow> jsval" where
  "valueOrUndefined v = (if truthy v then v else JUndefined)"

definition nullish :: "jsval \<Rightarrow> jsval \<Rightarrow> jsval" where
  "nullish a b = (if a = JNull \<or> a = JUndefined then b else a)"

definition field :: "jsval \<Rightarrow> string \<Rightarrow> jsval" where
  "field v name = (case v of JObj kvs \<Rightarrow> getProp kvs name | _ \<Rightarrow> JUndefined)"

section \<open>D1 routes of the API worker\<close>

text \<open>
  The rows of \<^verbatim>\<open>PRAGMA table_info\<close> are read as \<^verbatim>\<open>Array<{ name: string; pk: number }>\<close>.
  A row without a numeric \<^verbatim>\<open>pk\<close> counts as not part of the key (\<^verbatim>\<open>undefined > 0\<close> is
  false); the name of a row is its \<^verbatim>\<open>name\<close> string (rows that break the cast are outside
  the model and read as the empty name).
\<close>

definition col_pk :: "jsval \<Rightarrow> int" where
  "col_pk col = (case col of JObj kvs \<Rightarrow> (case getProp kvs ''pk'' of JNum n \<Rightarrow> n | _ \<Rightarrow> 0) | _ \<Rightarrow> 0)"

definition col_name :: "jsval \<Rightarrow> string" where
  "col_name col = (case col of JObj kvs \<Rightarrow> (case getProp kvs ''name'' of JStr s \<Rightarrow> s | _ \<Rightarrow> []) | _ \<Rightarrow> [])"

text \<open>
  \<^verbatim>\<open>columns.filter(col => col.pk > 0).sort((a, b) => a.pk - b.pk).map(col => col.name)\<close>;
  the sort is stable, as \<^verbatim>\<open>Array.prototype.sort\<close> is.
\<close>

definition primaryKeysOf :: "jsval list \<Rightarrow> string list" where
  "primaryKeysOf columns = map col_name (sort_key col_pk (filter (\<lambda>col. col_pk col > 0) columns))"

definition tableInfoSql :: "string \<Rightarrow> string" where
  "tableInfoSql tableName = ''PRAGMA table_info('' @ escapeIdentifier tableName @ '')''"

definition getPrimaryKeys ::
  "'s d1database \<Rightarrow> string \<Rightarrow> 's world \<Rightarrow> (exn + string list) \<times> 's world" where
  "getPrimaryKeys db tableName w =
     bindE (call_all db \<lparr>stmt_sql = tableInfoSql tableName, stmt_params = []\<rparr> w)
       (\<lambda>result w1. (Inr (primaryKeysOf (res_results result)), w1))"

text \<open>
  Every handler starts with
  \<^verbatim>\<open>const db = getDatabase(c.env, binding); if (!db) return c.json({ error: 'Database not found' }, 404)\<close>.
  The binding looked up is an argument: \<open>None\<close> when the environment has no D1 database
  under that name.
\<close>

definition notFound :: "string \<Rightarrow> response" where
  "notFound msg = json [(''error'', JStr msg)] 404"

abbreviation SQ :: char where
  "SQ \<equiv> CHR 0x27"

abbreviation NL :: char where
  "NL \<equiv> CHR 0x0A"

text \<open>\<^verbatim>\<open>GET /:binding/schema\<close>\<close>

definition schemaSql :: string where
  "schemaSql =
     ''SELECT name, sql FROM sqlite_master'' @ [NL] @
     ''         WHERE type='' @ [SQ] @ ''table'' @ [SQ] @
     '' AND name NOT LIKE '' @ [SQ] @ ''sqlite_%'' @ [SQ] @
     '' AND name NOT LIKE '' @ [SQ] @ ''_cf_%'' @ [SQ] @
     '' AND name NOT LIKE '' @ [SQ] @ ''_mf_%'' @ [SQ] @ [NL] @
     ''         ORDER BY name''"

definition getSchema :: "'s d1database option \<Rightarrow> 's world \<Rightarrow> response \<times> 's world" where
  "getSchema dbo w =
     (case dbo of
        None \<Rightarrow> (notFound ''Database not found'', w)
      | Some db \<Rightarrow>
          catch500
            (bindE (call_all db \<lparr>stmt_sql = schemaSql, stmt_params = []\<rparr> w)
               (\<lambda>result w1. (Inr (json [(''tables'', JArr (res_results result))] 200), w1))))"

text \<open>
  \<^verbatim>\<open>GET /:binding/tables/:table\<close>. The four statements are started together
  (\<^verbatim>\<open>Promise.all\<close>): all four calls are made, in the order of the array, and the handler
  goes on only when none has thrown. When several throw, \<^verbatim>\<open>Promise.all\<close> rejects with the
  error that arrives first; the model takes the first one in the order of the array.
\<close>

definition rowCountOf :: "jsval \<Rightarrow> jsval" where
  "rowCountOf countResult =
     (case countResult of
        JObj kvs \<Rightarrow>
          (case getProp kvs ''count'' of JUndefined \<Rightarrow> JNum 0 | JNull \<Rightarrow> JNum 0 | v \<Rightarrow> v)
      | _ \<Rightarrow> JNum 0)"

definition getTable :: "'s d1database option \<Rightarrow> string \<Rightarrow> 's world \<Rightarrow> response \<times> 's world" where
  "getTable dbo tableName w =
     (case dbo of
        None \<Rightarrow> (notFound ''Database not found'', w)
      | Some db \<Rightarrow>
          (let escapedTable = escapeIdentifier tableName;
               (columnsResult, w1) =
                  call_all db \<lparr>stmt_sql = ''PRAGMA table_info('' @ escapedTable @ '')'',
                               stmt_params = []\<rparr> w;
               (countResult, w2) =
                  call_first db \<lparr>stmt_sql = ''SELECT COUNT(*) as count FROM '' @ escapedTable,
                                 stmt_params = []\<rparr> w1;
               (indexesResult, w3) =
                  call_all db \<lparr>stmt_sql = ''PRAGMA index_list('' @ escapedTable @ '')'',
                               stmt_params = []\<rparr> w2;
               (foreignKeysResult, w4) =
                  call_all db \<lparr>stmt_sql = ''PRAGMA foreign_key_list('' @ escapedTable @ '')'',
                               stmt_params = []\<rparr> w3
           in catch500
                (bindE (columnsResult, w4) (\<lambda>columns w. bindE (countResult, w) (\<lambda>count w.
                 bindE (indexesResult, w) (\<lambda>indexes w. bindE (foreignKeysResult, w) (\<lambda>foreignKeys w.
                   (Inr (json [(''table'', JStr tableName),
                               (''columns'', JArr (res_results columns)),
                               (''primaryKeys'', JArr (map JStr (primaryKeysOf (res_results columns)))),
                               (''indexes'', JArr (res_results indexes)),
                               (''foreignKeys'', JArr (res_results foreignKeys)),
                               (''rowCount'', rowCountOf count)] 200), w))))))))"

text \<open>
  \<^verbatim>\<open>GET /:binding/tables/:table/rows\<close>. \<open>limitN\<close> and \<open>offsetN\<close> are
  \<^verbatim>\<open>Number(c.req.query('limit'))\<close> and \<^verbatim>\<open>Number(c.req.query('offset'))\<close>, \<open>None\<close> for
  \<^verbatim>\<open>NaN\<close> (the model keeps to whole numbers); \<open>sortQ\<close> and \<open>dirQ\<close> are the query
  parameters \<^verbatim>\<open>sort\<close> and \<^verbatim>\<open>dir\<close>, \<open>None\<close> when absent.
\<close>

definition getRows ::
  "'s d1database option \<Rightarrow> string \<Rightarrow> int option \<Rightarrow> int option \<Rightarrow> string option \<Rightarrow> string option
     \<Rightarrow> 's world \<Rightarrow> response \<times> 's world" where
  "getRows dbo tableName limitN offsetN sortQ dirQ w =
     (case dbo of
        None \<Rightarrow> (notFound ''Database not found'', w)
      | Some db \<Rightarrow>
          (let escapedTable = escapeIdentifier tableName;
               limit = min (orDefault limitN 50) 1000;
               offset = orDefault offsetN 0;
               sortDirection = (if map_option toUpperCase dirQ = Some ''DESC'' then ''DESC'' else ''ASC'');
               sql0 = ''SELECT * FROM '' @ escapedTable;
               sql1 = (case sortQ of
                         None \<Rightarrow> sql0
                       | Some sortColumn \<Rightarrow>
                           if sortColumn = [] then sql0
                           else sql0 @ '' ORDER BY '' @ escapeIdentifier sortColumn @ '' '' @ sortDirection);
               sql = sql1 @ '' LIMIT ? OFFSET ?''
           in catch500
                (bindE (call_all db \<lparr>stmt_sql = sql, stmt_params = [JNum limit, JNum offset]\<rparr> w)
                   (\<lambda>result w1.
                      (Inr (json [(''rows'', JArr (res_results result)),
                                  (''meta'', JObj [(''limit'', JNum limit),
                                                   (''offset'', JNum offset),
                                                   (''duration'', durationOf result)])] 200), w1)))))"

text \<open>
  \<^verbatim>\<open>POST /:binding/query\<close>. The body is \<^verbatim>\<open>{ sql: string; params?: unknown[] }\<close>; reading it
  (\<^verbatim>\<open>await c.req.json()\<close>) may throw. \<^verbatim>\<open>!sql\<close> holds for a missing and for an empty
  \<^verbatim>\<open>sql\<close>; \<^verbatim>\<open>params\<close> is \<^verbatim>\<open>[]\<close> when left out.
\<close>

record query_body =
  qb_sql :: "string option"
  qb_params :: "jsval list option"

definition isReadQuery :: "string \<Rightarrow> bool" where
  "isReadQuery sql =
     (let trimmedSql = toUpperCase (trim sql)
      in startsWith trimmedSql ''SELECT'' \<or> startsWith trimmedSql ''PRAGMA'' \<or>
         startsWith trimmedSql ''EXPLAIN'')"

definition postQuery ::
  "'s d1database option \<Rightarrow> exn + query_body \<Rightarrow> 's world \<Rightarrow> response \<times> 's world" where
  "postQuery dbo reqJson w =
     (case dbo of
        None \<Rightarrow> (notFound ''Database not found'', w)
      | Some db \<Rightarrow>
          catch500s
            (bindE (reqJson, w) (\<lambda>b w.
               (case qb_sql b of
                  None \<Rightarrow> (Inr (json [(''error'', JStr ''SQL query is required'')] 400), w)
                | Some sql \<Rightarrow>
                    if sql = [] then (Inr (json [(''error'', JStr ''SQL query is required'')] 400), w)
                    else
                      (let params = (case qb_params b of None \<Rightarrow> [] | Some ps \<Rightarrow> ps);
                           boundStmt = \<lparr>stmt_sql = sql, stmt_params = params\<rparr>
                       in if isReadQuery sql then
                            bindE (call_all db boundStmt w) (\<lambda>result w1.
                              (Inr (json [(''success'', JBool True),
                                          (''results'', JArr (res_results result)),
                                          (''rowCount'', JNum (int (length (res_results result)))),
                                          (''meta'', JObj [(''changes'', JNum 0),
                                                           (''duration'', durationOf result)])] 200),
                               w1))
                          else
                            bindE (call_run db boundStmt w) (\<lambda>result w1.
                              (Inr (json [(''success'', JBool True),
                                          (''meta'', JObj [(''changes'', JNum (changesOf result)),
                                                           (''last_row_id'', lastRowIdOf result),
                                                           (''duration'', durationOf result)])] 200),
                               w1)))))))"

text \<open>
  \<^verbatim>\<open>POST /:binding/tables/:table/rows\<close>. The body is a \<^verbatim>\<open>Record<string, unknown>\<close>, given
  by its entries.
\<close>

definition metaRun :: "d1result \<Rightarrow> jsval" where
  "metaRun result =
     JObj [(''changes'', JNum (changesOf result)),
           (''last_row_id'', lastRowIdOf result),
           (''duration'', durationOf result)]"

definition metaChanged :: "d1result \<Rightarrow> jsval" where
  "metaChanged result =
     JObj [(''changes'', JNum (changesOf result)), (''duration'', durationOf result)]"

definition insertRow ::
  "'s d1database option \<Rightarrow> string \<Rightarrow> exn + (string \<times> jsval) list \<Rightarrow> 's world
     \<Rightarrow> response \<times> 's world" where
  "insertRow dbo tableName reqJson w =
     (case dbo of
        None \<Rightarrow> (notFound ''Database not found'', w)
      | Some db \<Rightarrow>
          catch500s
            (bindE (reqJson, w) (\<lambda>data w.
               (let entries = filter (\<lambda>(k, v). v \<noteq> JUndefined) data;
                    columns = map (\<lambda>(k, v). escapeIdentifier k) entries;
                    vals = map (\<lambda>(k, v). v) entries;
                    placeholders = join '', '' (map (\<lambda>c. ''?'') columns)
                in if length columns = 0 then
                     (Inr (json [(''error'', JStr ''No data provided'')] 400), w)
                   else
                     (let sql = ''INSERT INTO '' @ escapeIdentifier tableName @ '' ('' @
                                join '', '' columns @ '') VALUES ('' @ placeholders @ '')''
                      in bindE (call_run db \<lparr>stmt_sql = sql, stmt_params = vals\<rparr> w)
                           (\<lambda>result w1.
                              (Inr (json [(''success'', JBool True), (''meta'', metaRun result)] 200),
                               w1)))))))"

text \<open>
  \<^verbatim>\<open>PUT /:binding/tables/:table/rows/:rowId\<close>. The entries of the body whose key is a
  primary-key column are dropped before the \<^verbatim>\<open>SET\<close> clause is built.
\<close>

definition updateEntriesOf :: "string list \<Rightarrow> (string \<times> jsval) list \<Rightarrow> (string \<times> jsval) list" where
  "updateEntriesOf primaryKeys data = filter (\<lambda>(k, v). k \<notin> set primaryKeys) data"

definition setClauseOf :: "(string \<times> jsval) list \<Rightarrow> string" where
  "setClauseOf updateEntries = join '', '' (map (\<lambda>(k, v). escapeIdentifier k @ '' = ?'') updateEntries)"

definition updateSql :: "string \<Rightarrow> string \<Rightarrow> string \<Rightarrow> string" where
  "updateSql tableName setClause whereClause =
     ''UPDATE '' @ escapeIdentifier tableName @ '' SET '' @ setClause @ '' WHERE '' @ whereClause"

definition deleteSql :: "string \<Rightarrow> string \<Rightarrow> string" where
  "deleteSql tableName whereClause =
     ''DELETE FROM '' @ escapeIdentifier tableName @ '' WHERE '' @ whereClause"

definition putRow ::
  "(string \<Rightarrow> jsval list option) \<Rightarrow> 's d1database option \<Rightarrow> string \<Rightarrow> string
     \<Rightarrow> exn + (string \<times> jsval) list \<Rightarrow> 's world \<Rightarrow> response \<times> 's world" where
  "putRow JSON_parse dbo tableName rowId reqJson w =
     (case dbo of
        None \<Rightarrow> (notFound ''Database not found'', w)
      | Some db \<Rightarrow>
          catch500s
            (bindE (reqJson, w) (\<lambda>data w.
             bindE (getPrimaryKeys db tableName w) (\<lambda>primaryKeys w1.
               if length primaryKeys = 0 then
                 (Inr (json [(''error'', JStr ''Table has no primary key'')] 400), w1)
               else
                 bindE (buildPrimaryKeyWhere JSON_parse primaryKeys (RowStr rowId), w1) (\<lambda>wh w1.
                   (let updateEntries = updateEntriesOf primaryKeys data
                    in if length updateEntries = 0 then
                         (Inr (json [(''error'', JStr ''No data to update'')] 400), w1)
                       else
                         (let setClause = setClauseOf updateEntries;
                              updateValues = map (\<lambda>(k, v). v) updateEntries;
                              sql = updateSql tableName setClause (clause wh)
                          in bindE (call_run db \<lparr>stmt_sql = sql,
                                                  stmt_params = updateValues @ values_list wh\<rparr> w1)
                               (\<lambda>result w2.
                                  (Inr (json [(''success'', JBool True),
                                              (''meta'', metaChanged result)] 200), w2)))))))))"

text \<open>
  \<^verbatim>\<open>PATCH /:binding/tables/:table/rows/:rowId\<close>, body \<^verbatim>\<open>{ column: string; value: unknown }\<close>.
\<close>

record patch_body =
  pb_column :: "string option"
  pb_value :: jsval

definition patchRow ::
  "(string \<Rightarrow> jsval list option) \<Rightarrow> 's d1database option \<Rightarrow> string \<Rightarrow> string
     \<Rightarrow> exn + patch_body \<Rightarrow> 's world \<Rightarrow> response \<times> 's world" where
  "patchRow JSON_parse dbo tableName rowId reqJson w =
     (case dbo of
        None \<Rightarrow> (notFound ''Database not found'', w)
      | Some db \<Rightarrow>
          catch500s
            (bindE (reqJson, w) (\<lambda>b w.
               (case pb_column b of
                  None \<Rightarrow> (Inr (json [(''error'', JStr ''Column name is required'')] 400), w)
                | Some column \<Rightarrow>
                    if column = [] then
                      (Inr (json [(''error'', JStr ''Column name is required'')] 400), w)
                    else
                      bindE (getPrimaryKeys db tableName w) (\<lambda>primaryKeys w1.
                        if length primaryKeys = 0 then
                          (Inr (json [(''error'', JStr ''Table has no primary key'')] 400), w1)
                        else
                          bindE (buildPrimaryKeyWhere JSON_parse primaryKeys (RowStr rowId), w1)
                            (\<lambda>wh w1.
                               (let sql = updateSql tableName (escapeIdentifier column @ '' = ?'')
                                            (clause wh)
                                in bindE (call_run db \<lparr>stmt_sql = sql,
                                            stmt_params = pb_value b # values_list wh\<rparr> w1)
                                     (\<lambda>result w2.
                                        (Inr (json [(''success'', JBool True),
                                                    (''meta'', metaChanged result)] 200),
                                         w2)))))))))"

text \<open>\<^verbatim>\<open>DELETE /:binding/tables/:table/rows/:rowId\<close>\<close>

definition deleteRow ::
  "(string \<Rightarrow> jsval list option) \<Rightarrow> 's d1database option \<Rightarrow> string \<Rightarrow> string
     \<Rightarrow> 's world \<Rightarrow> response \<times> 's world" where
  "deleteRow JSON_parse dbo tableName rowId w =
     (case dbo of
        None \<Rightarrow> (notFound ''Database not found'', w)
      | Some db \<Rightarrow>
          catch500s
            (bindE (getPrimaryKeys db tableName w) (\<lambda>primaryKeys w1.
               if length primaryKeys = 0 then
                 (Inr (json [(''error'', JStr ''Table has no primary key'')] 400), w1)
               else
                 bindE (buildPrimaryKeyWhere JSON_parse primaryKeys (RowStr rowId), w1) (\<lambda>wh w1.
                   bindE (call_run db \<lparr>stmt_sql = deleteSql tableName (clause wh),
                                       stmt_params = values_list wh\<rparr> w1)
                     (\<lambda>result w2.
                        (Inr (json [(''success'', JBool True),
                                    (''meta'', metaChanged result)] 200), w2))))))"

text \<open>
  The loop of the bulk routes,
  \<^verbatim>\<open>for (const rowId of rowIds) { ...buildPrimaryKeyWhere...; statements.push(...) }\<close>:
  one statement per row identifier, in order; the first identifier that
  \<open>buildPrimaryKeyWhere\<close> rejects throws out of the loop.
\<close>

fun collectStatements :: "(row_id \<Rightarrow> exn + stmt) \<Rightarrow> row_id list \<Rightarrow> exn + stmt list" where
  "collectStatements mk [] = Inr []"
| "collectStatements mk (rowId # rowIds) =
     (case mk rowId of
        Inl e \<Rightarrow> Inl e
      | Inr st \<Rightarrow>
          (case collectStatements mk rowIds of Inl e \<Rightarrow> Inl e | Inr sts \<Rightarrow> Inr (st # sts)))"

text \<open>
  \<^verbatim>\<open>let totalChanges = 0; for (const r of results) totalChanges += r.meta?.changes ?? 0\<close>
\<close>

definition totalChangesOf :: "d1result list \<Rightarrow> int" where
  "totalChangesOf results = foldl (\<lambda>totalChanges r. totalChanges + changesOf r) 0 results"

definition bulkMeta :: "d1result list \<Rightarrow> row_id list \<Rightarrow> jsval" where
  "bulkMeta results rowIds =
     JObj [(''changes'', JNum (totalChangesOf results)),
           (''rowsProcessed'', JNum (int (length rowIds)))]"

text \<open>
  \<^verbatim>\<open>POST /:binding/tables/:table/bulk-delete\<close>, body
  \<^verbatim>\<open>{ rowIds: (string | Record<string, unknown>)[] }\<close>.
\<close>

definition deleteStatement ::
  "(string \<Rightarrow> jsval list option) \<Rightarrow> string \<Rightarrow> string list \<Rightarrow> row_id \<Rightarrow> exn + stmt" where
  "deleteStatement JSON_parse tableName primaryKeys rowId =
     (case buildPrimaryKeyWhere JSON_parse primaryKeys rowId of
        Inl e \<Rightarrow> Inl e
      | Inr wh \<Rightarrow> Inr \<lparr>stmt_sql = deleteSql tableName (clause wh), stmt_params = values_list wh\<rparr>)"

definition bulkDelete ::
  "(string \<Rightarrow> jsval list option) \<Rightarrow> 's d1database option \<Rightarrow> string
     \<Rightarrow> exn + row_id list option \<Rightarrow> 's world \<Rightarrow> response \<times> 's world" where
  "bulkDelete JSON_parse dbo tableName reqJson w =
     (case dbo of
        None \<Rightarrow> (notFound ''Database not found'', w)
      | Some db \<Rightarrow>
          catch500s
            (bindE (reqJson, w) (\<lambda>rowIdsOpt w.
               (case rowIdsOpt of
                  None \<Rightarrow> (Inr (json [(''error'', JStr ''No row IDs provided'')] 400), w)
                | Some rowIds \<Rightarrow>
                    if length rowIds = 0 then
                      (Inr (json [(''error'', JStr ''No row IDs provided'')] 400), w)
                    else
                      bindE (getPrimaryKeys db tableName w) (\<lambda>primaryKeys w1.
                        if length primaryKeys = 0 then
                          (Inr (json [(''error'', JStr ''Table has no primary key'')] 400), w1)
                        else
                          bindE (collectStatements
                                   (deleteStatement JSON_parse tableName primaryKeys) rowIds, w1)
                            (\<lambda>statements w1.
                               bindE (call_batch db statements w1) (\<lambda>results w2.
                                 (Inr (json [(''success'', JBool True),
                                             (''meta'', bulkMeta results rowIds)] 200), w2))))))))"

text \<open>
  \<^verbatim>\<open>POST /:binding/tables/:table/bulk-update\<close>, body
  \<^verbatim>\<open>{ rowIds: (string | Record<string, unknown>)[]; data: Record<string, unknown> }\<close>.
\<close>

record bulk_update_body =
  bu_rowIds :: "row_id list option"
  bu_data :: "(string \<times> jsval) list option"

definition updateStatement ::
  "(string \<Rightarrow> jsval list option) \<Rightarrow> string \<Rightarrow> string list \<Rightarrow> string \<Rightarrow> jsval list \<Rightarrow> row_id
     \<Rightarrow> exn + stmt" where
  "updateStatement JSON_parse tableName primaryKeys setClause updateValues rowId =
     (case buildPrimaryKeyWhere JSON_parse primaryKeys rowId of
        Inl e \<Rightarrow> Inl e
      | Inr wh \<Rightarrow> Inr \<lparr>stmt_sql = updateSql tableName setClause (clause wh),
                        stmt_params = updateValues @ values_list wh\<rparr>)"

definition bulkUpdate ::
  "(string \<Rightarrow> jsval list option) \<Rightarrow> 's d1database option \<Rightarrow> string
     \<Rightarrow> exn + bulk_update_body \<Rightarrow> 's world \<Rightarrow> response \<times> 's world" where
  "bulkUpdate JSON_parse dbo tableName reqJson w =
     (case dbo of
        None \<Rightarrow> (notFound ''Database not found'', w)
      | Some db \<Rightarrow>
          catch500s
            (bindE (reqJson, w) (\<lambda>b w.
               if (case bu_rowIds b of None \<Rightarrow> True | Some rowIds \<Rightarrow> length rowIds = 0) then
                 (Inr (json [(''error'', JStr ''No row IDs provided'')] 400), w)
               else if (case bu_data b of None \<Rightarrow> True | Some data \<Rightarrow> length data = 0) then
                 (Inr (json [(''error'', JStr ''No data provided'')] 400), w)
               else
                 (let rowIds = (case bu_rowIds b of None \<Rightarrow> [] | Some rowIds \<Rightarrow> rowIds);
                      data = (case bu_data b of None \<Rightarrow> [] | Some data \<Rightarrow> data)
                  in bindE (getPrimaryKeys db tableName w) (\<lambda>primaryKeys w1.
                       if length primaryKeys = 0 then
                         (Inr (json [(''error'', JStr ''Table has no primary key'')] 400), w1)
                       else
                         (let updateEntries = updateEntriesOf primaryKeys data
                          in if length updateEntries = 0 then
                               (Inr (json [(''error'',
                                   JStr ''No data to update (only primary key columns provided)'')] 400),
                                w1)
                             else
                               (let setClause = setClauseOf updateEntries;
                                    updateValues = map (\<lambda>(k, v). v) updateEntries
                                in bindE (collectStatements
                                            (updateStatement JSON_parse tableName primaryKeys
                                               setClause updateValues) rowIds, w1)
                                     (\<lambda>statements w1.
                                        bindE (call_batch db statements w1) (\<lambda>results w2.
                                          (Inr (json [(''success'', JBool True),
                                                      (''meta'', bulkMeta results rowIds)] 200),
                                           w2))))))))))"

text \<open>
  \<^verbatim>\<open>GET /\<close>: the databases of the manifest (\<^verbatim>\<open>getManifest(c.env).d1\<close>, an argument), each
  with its \<^verbatim>\<open>binding\<close> and \<^verbatim>\<open>database_name\<close>.
\<close>

definition listDatabases :: "(string \<times> jsval) list list \<Rightarrow> response" where
  "listDatabases manifest_d1 =
     json [(''databases'',
            JArr (map (\<lambda>db. JObj [(''binding'', getProp db ''binding''),
                                   (''database_name'', getProp db ''database_name'')])
                      manifest_d1))] 200"

text \<open>
  The D1 router of the API worker: a request is the route it matches with its path, query
  and body; \<open>dbo\<close> is the database that \<^verbatim>\<open>getDatabase(c.env, binding)\<close> finds.
\<close>

datatype d1_request =
    ListDatabases "(string \<times> jsval) list list"
  | GetSchema
  | GetTable string
  | GetRows string "int option" "int option" "string option" "string option"
  | PostQuery "exn + query_body"
  | InsertRow string "exn + (string \<times> jsval) list"
  | PutRow string string "exn + (string \<times> jsval) list"
  | PatchRow string string "exn + patch_body"
  | DeleteRow string string
  | BulkDelete string "exn + row_id list option"
  | BulkUpdate string "exn + bulk_update_body"

fun createD1Routes ::
  "(string \<Rightarrow> jsval list option) \<Rightarrow> 's d1database option \<Rightarrow> d1_request \<Rightarrow> 's world
     \<Rightarrow> response \<times> 's world" where
  "createD1Routes P dbo (ListDatabases manifest_d1) w = (listDatabases manifest_d1, w)"
| "createD1Routes P dbo GetSchema w = getSchema dbo w"
| "createD1Routes P dbo (GetTable t) w = getTable dbo t w"
| "createD1Routes P dbo (GetRows t l off s d) w = getRows dbo t l off s d w"
| "createD1Routes P dbo (PostQuery b) w = postQuery dbo b w"
| "createD1Routes P dbo (InsertRow t b) w = insertRow dbo t b w"
| "createD1Routes P dbo (PutRow t r b) w = putRow P dbo t r b w"
| "createD1Routes P dbo (PatchRow t r b) w = patchRow P dbo t r b w"
| "createD1Routes P dbo (DeleteRow t r) w = deleteRow P dbo t r w"
| "createD1Routes P dbo (BulkDelete t b) w = bulkDelete P dbo t b w"
| "createD1Routes P dbo (BulkUpdate t b) w = bulkUpdate P dbo t b w"

section \<open>KV routes of the API worker\<close>

text \<open>
  A KV namespace binding, by the type asked for: \<^verbatim>\<open>get(key, { type })\<close> yields a string or
  \<^verbatim>\<open>null\<close> for \<^verbatim>\<open>text\<close>, the parsed value (or \<^verbatim>\<open>null\<close>) for \<^verbatim>\<open>json\<close>, the bytes or
  \<^verbatim>\<open>null\<close> for \<^verbatim>\<open>arrayBuffer\<close>; \<^verbatim>\<open>getWithMetadata\<close> yields the same value together with the
  metadata stored with the key. \<open>None\<close> is \<^verbatim>\<open>null\<close>. \<^verbatim>\<open>list(options)\<close> yields the keys (each
  an object with \<^verbatim>\<open>name\<close> and, if set, \<^verbatim>\<open>expiration\<close> and \<^verbatim>\<open>metadata\<close>), the cursor and
  \<^verbatim>\<open>list_complete\<close>; \<^verbatim>\<open>put(key, value, options)\<close> and \<^verbatim>\<open>delete(key)\<close> yield nothing.
\<close>

record kv_list_result =
  kl_keys :: "jsval list"
  kl_cursor :: jsval
  kl_list_complete :: jsval

record 's kvnamespace =
  kv_get_text :: "string \<Rightarrow> 's \<Rightarrow> (exn + string option) \<times> 's"
  kv_get_json :: "string \<Rightarrow> 's \<Rightarrow> (exn + jsval) \<times> 's"
  kv_get_arrayBuffer :: "string \<Rightarrow> 's \<Rightarrow> (exn + string option) \<times> 's"
  kv_meta_text :: "string \<Rightarrow> 's \<Rightarrow> (exn + string option \<times> jsval) \<times> 's"
  kv_meta_json :: "string \<Rightarrow> 's \<Rightarrow> (exn + jsval \<times> jsval) \<times> 's"
  kv_meta_arrayBuffer :: "string \<Rightarrow> 's \<Rightarrow> (exn + string option \<times> jsval) \<times> 's"
  kv_list :: "jsval \<Rightarrow> 's \<Rightarrow> (exn + kv_list_result) \<times> 's"
  kv_put :: "string \<Rightarrow> jsval \<Rightarrow> jsval \<Rightarrow> 's \<Rightarrow> (exn + unit) \<times> 's"
  kv_delete :: "string \<Rightarrow> 's \<Rightarrow> (exn + unit) \<times> 's"

text \<open>
  \<^verbatim>\<open>GET /\<close>: the namespaces of the manifest (\<^verbatim>\<open>getManifest(c.env).kv\<close>, an argument), each
  with its \<^verbatim>\<open>binding\<close>, which is also given as \<^verbatim>\<open>id\<close>.
\<close>

definition kvListNamespaces :: "(string \<times> jsval) list list \<Rightarrow> response" where
  "kvListNamespaces manifest_kv =
     json [(''namespaces'',
            JArr (map (\<lambda>kv. JObj [(''binding'', getProp kv ''binding''),
                                   (''id'', getProp kv ''binding'')])
                      manifest_kv))] 200"

text \<open>\<^verbatim>\<open>GET /:binding/keys\<close>\<close>

definition kvListKeys ::
  "'s kvnamespace option \<Rightarrow> string option \<Rightarrow> int option \<Rightarrow> string option \<Rightarrow> 's world
     \<Rightarrow> response \<times> 's world" where
  "kvListKeys kvo prefixQ limitN cursorQ w =
     (case kvo of
        None \<Rightarrow> (notFound ''Namespace not found'', w)
      | Some kv \<Rightarrow>
          (let prefix = orUndefined prefixQ;
               limit = orDefault limitN 100;
               cursor = orUndefined cursorQ;
               options = JObj [(''prefix'', prefix), (''limit'', JNum limit), (''cursor'', cursor)]
           in catch500
                (bindE (invoke (KVList options) (kv_list kv options) w) (\<lambda>result w1.
                   (Inr (json [(''keys'',
                                JArr (map (\<lambda>key. JObj [(''name'', field key ''name''),
                                                        (''expiration'', field key ''expiration''),
                                                        (''metadata'', field key ''metadata'')])
                                          (kl_keys result))),
                               (''cursor'', valueOrUndefined (kl_cursor result)),
                               (''list_complete'', kl_list_complete result)] 200), w1)))))"

definition keyNotFound :: response where
  "keyNotFound = json [(''error'', JStr ''Key not found'')] 404"

definition keyFound :: "string \<Rightarrow> jsval \<Rightarrow> jsval \<Rightarrow> response" where
  "keyFound key v metadata = json [(''key'', JStr key), (''value'', v), (''metadata'', metadata)] 200"

text \<open>\<^verbatim>\<open>c.req.query('type') || 'text'\<close>\<close>

definition typeOf :: "string option \<Rightarrow> string" where
  "typeOf typeQ = (case typeQ of None \<Rightarrow> ''text'' | Some t \<Rightarrow> if t = [] then ''text'' else t)"

text \<open>
  \<^verbatim>\<open>String.fromCharCode(...new Uint8Array(value))\<close>: the bytes are spread into the arguments of
  one call. An engine takes only so many arguments in a call (\<open>maxArguments\<close>, which depends
  on the stack space left; on the order of \<open>10\<^sup>5\<close> in V8) and throws a \<^verbatim>\<open>RangeError\<close> for
  more. The result is the string whose characters are the bytes.
\<close>

definition fromCharCodeSpread :: "nat \<Rightarrow> string \<Rightarrow> exn + string" where
  "fromCharCodeSpread maxArguments bytes =
     (if maxArguments < length bytes
      then Inl (Exn ''RangeError'' ''Maximum call stack size exceeded'')
      else Inr bytes)"

text \<open>
  \<^verbatim>\<open>GET /:binding/keys/:key\<close> of the API worker. One \<^verbatim>\<open>getWithMetadata\<close> call; a
  \<^verbatim>\<open>null\<close> value is answered with 404. The bytes of an \<^verbatim>\<open>arrayBuffer\<close> value are sent in
  base 64: \<^verbatim>\<open>btoa(String.fromCharCode(...new Uint8Array(value)))\<close>, inside the \<^verbatim>\<open>try\<close> block
  (\<^verbatim>\<open>btoa\<close> is a parameter).
\<close>

definition kvGetKey ::
  "nat \<Rightarrow> (string \<Rightarrow> string) \<Rightarrow> 's kvnamespace option \<Rightarrow> string \<Rightarrow> string option \<Rightarrow> 's world
     \<Rightarrow> response \<times> 's world" where
  "kvGetKey maxArguments btoa kvo key typeQ w =
     (case kvo of
        None \<Rightarrow> (notFound ''Namespace not found'', w)
      | Some kv \<Rightarrow>
          catch500
            (if typeOf typeQ = ''json'' then
               bindE (invoke (KVGetWithMetadata key ''json'') (kv_meta_json kv key) w)
                 (\<lambda>(v, metadata) w1.
                    if v = JNull then (Inr keyNotFound, w1)
                    else (Inr (keyFound key v metadata), w1))
             else if typeOf typeQ = ''arrayBuffer'' then
               bindE (invoke (KVGetWithMetadata key ''arrayBuffer'') (kv_meta_arrayBuffer kv key) w)
                 (\<lambda>(v, metadata) w1.
                    (case v of
                       None \<Rightarrow> (Inr keyNotFound, w1)
                     | Some bytes \<Rightarrow>
                         bindE (fromCharCodeSpread maxArguments bytes, w1) (\<lambda>binary w1.
                           (Inr (keyFound key (JStr (btoa binary)) metadata), w1))))
             else
               bindE (invoke (KVGetWithMetadata key ''text'') (kv_meta_text kv key) w)
                 (\<lambda>(v, metadata) w1.
                    (case v of
                       None \<Rightarrow> (Inr keyNotFound, w1)
                     | Some text \<Rightarrow> (Inr (keyFound key (JStr text) metadata), w1)))))"

text \<open>
  \<^verbatim>\<open>PUT /:binding/keys/:key\<close>. The body is
  \<^verbatim>\<open>{ value: string; metadata?: ...; expirationTtl?: number; expiration?: number }\<close>, given by
  its four properties (\<^verbatim>\<open>undefined\<close> for one left out); reading it may throw.
\<close>

record kv_put_body =
  kpb_value :: jsval
  kpb_metadata :: jsval
  kpb_expirationTtl :: jsval
  kpb_expiration :: jsval

definition putOptions :: "kv_put_body \<Rightarrow> jsval" where
  "putOptions b =
     JObj [(''metadata'', kpb_metadata b),
           (''expirationTtl'', kpb_expirationTtl b),
           (''expiration'', kpb_expiration b)]"

definition kvPutKey ::
  "'s kvnamespace option \<Rightarrow> string \<Rightarrow> exn + kv_put_body \<Rightarrow> 's world \<Rightarrow> response \<times> 's world" where
  "kvPutKey kvo key reqJson w =
     (case kvo of
        None \<Rightarrow> (notFound ''Namespace not found'', w)
      | Some kv \<Rightarrow>
          catch500
            (bindE (reqJson, w) (\<lambda>b w.
             bindE (invoke (KVPut key (kpb_value b) (putOptions b))
                      (kv_put kv key (kpb_value b) (putOptions b)) w) (\<lambda>u w1.
               (Inr (json [(''success'', JBool True)] 200), w1)))))"

text \<open>\<^verbatim>\<open>DELETE /:binding/keys/:key\<close>\<close>

definition kvDeleteKey ::
  "'s kvnamespace option \<Rightarrow> string \<Rightarrow> 's world \<Rightarrow> response \<times> 's world" where
  "kvDeleteKey kvo key w =
     (case kvo of
        None \<Rightarrow> (notFound ''Namespace not found'', w)
      | Some kv \<Rightarrow>
          catch500
            (bindE (invoke (KVDelete key) (kv_delete kv key) w) (\<lambda>u w1.
               (Inr (json [(''success'', JBool True)] 200), w1))))"

text \<open>
  \<^verbatim>\<open>await Promise.all(keys.map((key) => kv.delete(key)))\<close>: one \<^verbatim>\<open>delete\<close> call per key, in
  order; all of them are made, and the whole succeeds only when none has thrown. When several
  throw, \<^verbatim>\<open>Promise.all\<close> rejects with the error that arrives first; the model takes the
  first one in the order of the keys.
\<close>

fun deleteAll :: "'s kvnamespace \<Rightarrow> string list \<Rightarrow> 's world \<Rightarrow> (exn + unit) \<times> 's world" where
  "deleteAll kv [] w = (Inr (), w)"
| "deleteAll kv (key # keys) w =
     (let (r, w1) = invoke (KVDelete key) (kv_delete kv key) w;
          (rs, w2) = deleteAll kv keys w1
      in (case r of Inl e \<Rightarrow> (Inl e, w2) | Inr u \<Rightarrow> (rs, w2)))"

text \<open>\<^verbatim>\<open>POST /:binding/bulk-delete\<close>, body \<^verbatim>\<open>{ keys: string[] }\<close>.\<close>

definition kvBulkDelete ::
  "'s kvnamespace option \<Rightarrow> exn + string list \<Rightarrow> 's world \<Rightarrow> response \<times> 's world" where
  "kvBulkDelete kvo reqJson w =
     (case kvo of
        None \<Rightarrow> (notFound ''Namespace not found'', w)
      | Some kv \<Rightarrow>
          catch500
            (bindE (reqJson, w) (\<lambda>keys w.
             bindE (deleteAll kv keys w) (\<lambda>u w1.
               (Inr (json [(''success'', JBool True),
                           (''deleted'', JNum (int (length keys)))] 200), w1)))))"

text \<open>
  The KV router of the API worker; \<open>kvo\<close> is the namespace that \<^verbatim>\<open>getKV(c.env, binding)\<close>
  finds.
\<close>

datatype kv_request =
    ListNamespaces "(string \<times> jsval) list list"
  | ListKeys "string option" "int option" "string option"
  | GetKey string "string option"
  | PutKey string "exn + kv_put_body"
  | DeleteKey string
  | KvBulkDelete "exn + string list"

fun createKVRoutes ::
  "nat \<Rightarrow> (string \<Rightarrow> string) \<Rightarrow> 's kvnamespace option \<Rightarrow> kv_request \<Rightarrow> 's world
     \<Rightarrow> response \<times> 's world" where
  "createKVRoutes maxArguments btoa kvo (ListNamespaces manifest_kv) w =
     (kvListNamespaces manifest_kv, w)"
| "createKVRoutes maxArguments btoa kvo (ListKeys prefixQ limitN cursorQ) w =
     kvListKeys kvo prefixQ limitN cursorQ w"
| "createKVRoutes maxArguments btoa kvo (GetKey key typeQ) w =
     kvGetKey maxArguments btoa kvo key typeQ w"
| "createKVRoutes maxArguments btoa kvo (PutKey key b) w = kvPutKey kvo key b w"
| "createKVRoutes maxArguments btoa kvo (DeleteKey key) w = kvDeleteKey kvo key w"
| "createKVRoutes maxArguments btoa kvo (KvBulkDelete b) w = kvBulkDelete kvo b w"

section \<open>KV routes of the dashboard server\<close>

text \<open>
  The server's routes get their binding from \<^verbatim>\<open>localflare\<close> inside the \<^verbatim>\<open>try\<close> block
  (\<^verbatim>\<open>await localflare.getKVNamespace(binding)\<close>, which may throw), and list the bindings
  that \<^verbatim>\<open>localflare.getDiscoveredBindings()\<close> reports: \<^verbatim>\<open>bindings?.kv ?? []\<close>, where \<open>None\<close>
  stands for a missing \<^verbatim>\<open>bindings\<close> or a missing list.
\<close>

definition discoveredList :: "jsval list option \<Rightarrow> jsval" where
  "discoveredList found = (case found of None \<Rightarrow> JArr [] | Some bs \<Rightarrow> JArr bs)"

definition serverKvListNamespaces :: "jsval list option \<Rightarrow> response" where
  "serverKvListNamespaces found = json [(''namespaces'', discoveredList found)] 200"

text \<open>\<^verbatim>\<open>GET /:binding/keys\<close> of the server: the keys are passed on as the binding gives them.\<close>

definition serverKvListKeys ::
  "exn + 's kvnamespace \<Rightarrow> string option \<Rightarrow> string option \<Rightarrow> int option \<Rightarrow> 's world
     \<Rightarrow> response \<times> 's world" where
  "serverKvListKeys getKVNamespace prefixQ cursorQ limitN w =
     catch500
       (bindE (getKVNamespace, w) (\<lambda>kv w.
          (let prefix = orUndefined prefixQ;
               cursor = orUndefined cursorQ;
               limit = orDefault limitN 100;
               options = JObj [(''prefix'', prefix), (''cursor'', cursor), (''limit'', JNum limit)]
           in bindE (invoke (KVList options) (kv_list kv options) w) (\<lambda>list w1.
                (Inr (json [(''keys'', JArr (kl_keys list)),
                            (''cursor'', kl_cursor list),
                            (''list_complete'', kl_list_complete list)] 200), w1)))))"

text \<open>
  \<^verbatim>\<open>GET /:binding/keys/:key\<close> of the dashboard server. The metadata is read first
  (\<^verbatim>\<open>getWithMetadata\<close> as text), then the value with \<^verbatim>\<open>get\<close> in the type asked for; the bytes
  of an \<^verbatim>\<open>arrayBuffer\<close> are encoded with \<^verbatim>\<open>Buffer.from(buffer).toString('base64')\<close> (a
  parameter).
\<close>

definition serverKvGetKey ::
  "(string \<Rightarrow> string) \<Rightarrow> exn + 's kvnamespace \<Rightarrow> string \<Rightarrow> string option \<Rightarrow> 's world
     \<Rightarrow> response \<times> 's world" where
  "serverKvGetKey base64 getKVNamespace key typeQ w =
     catch500
       (bindE (getKVNamespace, w) (\<lambda>kv w.
        bindE (invoke (KVGetWithMetadata key ''text'') (kv_meta_text kv key) w)
          (\<lambda>(v0, metadata) w1.
             if typeOf typeQ = ''json'' then
               bindE (invoke (KVGet key ''json'') (kv_get_json kv key) w1)
                 (\<lambda>v w2.
                    if v = JNull then (Inr keyNotFound, w2)
                    else (Inr (keyFound key v metadata), w2))
             else if typeOf typeQ = ''arrayBuffer'' then
               bindE (invoke (KVGet key ''arrayBuffer'') (kv_get_arrayBuffer kv key) w1)
                 (\<lambda>buffer w2.
                    (case buffer of
                       None \<Rightarrow> (Inr keyNotFound, w2)
                     | Some bytes \<Rightarrow> (Inr (keyFound key (JStr (base64 bytes)) metadata), w2)))
             else
               bindE (invoke (KVGet key ''text'') (kv_get_text kv key) w1)
                 (\<lambda>v w2.
                    (case v of
                       None \<Rightarrow> (Inr keyNotFound, w2)
                     | Some text \<Rightarrow> (Inr (keyFound key (JStr text) metadata), w2))))))"

text \<open>\<^verbatim>\<open>PUT /:binding/keys/:key\<close>, \<^verbatim>\<open>DELETE /:binding/keys/:key\<close> and
  \<^verbatim>\<open>POST /:binding/bulk-delete\<close> of the server.\<close>

definition serverKvPutKey ::
  "exn + 's kvnamespace \<Rightarrow> string \<Rightarrow> exn + kv_put_body \<Rightarrow> 's world \<Rightarrow> response \<times> 's world" where
  "serverKvPutKey getKVNamespace key reqJson w =
     catch500
       (bindE (getKVNamespace, w) (\<lambda>kv w.
        bindE (reqJson, w) (\<lambda>b w.
        bindE (invoke (KVPut key (kpb_value b) (putOptions b))
                 (kv_put kv key (kpb_value b) (putOptions b)) w) (\<lambda>u w1.
          (Inr (json [(''success'', JBool True)] 200), w1)))))"

definition serverKvDeleteKey ::
  "exn + 's kvnamespace \<Rightarrow> string \<Rightarrow> 's world \<Rightarrow> response \<times> 's world" where
  "serverKvDeleteKey getKVNamespace key w =
     catch500
       (bindE (getKVNamespace, w) (\<lambda>kv w.
        bindE (invoke (KVDelete key) (kv_delete kv key) w) (\<lambda>u w1.
          (Inr (json [(''success'', JBool True)] 200), w1))))"

definition serverKvBulkDelete ::
  "exn + 's kvnamespace \<Rightarrow> exn + string list \<Rightarrow> 's world \<Rightarrow> response \<times> 's world" where
  "serverKvBulkDelete getKVNamespace reqJson w =
     catch500
       (bindE (getKVNamespace, w) (\<lambda>kv w.
        bindE (reqJson, w) (\<lambda>keys w.
        bindE (deleteAll kv keys w) (\<lambda>u w1.
          (Inr (json [(''success'', JBool True),
                      (''deleted'', JNum (int (length keys)))] 200), w1)))))"

text \<open>The KV router of the dashboard server.\<close>

datatype server_kv_request =
    ServerListNamespaces "jsval list option"
  | ServerListKeys "string option" "string option" "int option"
  | ServerGetKey string "string option"
  | ServerPutKey string "exn + kv_put_body"
  | ServerDeleteKey string
  | ServerKvBulkDelete "exn + string list"

fun server_createKVRoutes ::
  "(string \<Rightarrow> string) \<Rightarrow> exn + 's kvnamespace \<Rightarrow> server_kv_request \<Rightarrow> 's world
     \<Rightarrow> response \<times> 's world" where
  "server_createKVRoutes base64 getKVNamespace (ServerListNamespaces found) w =
     (serverKvListNamespaces found, w)"
| "server_createKVRoutes base64 getKVNamespace (ServerListKeys prefixQ cursorQ limitN) w =
     serverKvListKeys getKVNamespace prefixQ cursorQ limitN w"
| "server_createKVRoutes base64 getKVNamespace (ServerGetKey key typeQ) w =
     serverKvGetKey base64 getKVNamespace key typeQ w"
| "server_createKVRoutes base64 getKVNamespace (ServerPutKey key b) w =
     serverKvPutKey getKVNamespace key b w"
| "server_createKVRoutes base64 getKVNamespace (ServerDeleteKey key) w =
     serverKvDeleteKey getKVNamespace key w"
| "server_createKVRoutes base64 getKVNamespace (ServerKvBulkDelete b) w =
     serverKvBulkDelete getKVNamespace b w"

section \<open>D1 routes of the dashboard server\<close>

text \<open>
  The server's routes get the database from \<^verbatim>\<open>await localflare.getD1Database(binding)\<close>
  inside the \<^verbatim>\<open>try\<close> block, and quote table and column names without escaping them. The
  \<^verbatim>\<open>meta\<close> of a result is passed on as it is.
\<close>

definition metaJson :: "d1result \<Rightarrow> jsval" where
  "metaJson result =
     (case res_meta result of
        None \<Rightarrow> JUndefined
      | Some m \<Rightarrow>
          JObj [(''changes'', (case meta_changes m of None \<Rightarrow> JUndefined | Some n \<Rightarrow> JNum n)),
                (''last_row_id'', meta_last_row_id m),
                (''duration'', meta_duration m)])"

text \<open>\<^verbatim>\<open>GET /\<close>: \<^verbatim>\<open>bindings?.d1 ?? []\<close>.\<close>

definition serverListDatabases :: "jsval list option \<Rightarrow> response" where
  "serverListDatabases found = json [(''databases'', discoveredList found)] 200"

text \<open>\<^verbatim>\<open>GET /:binding/schema\<close> of the server; the statement is a template literal over five lines.\<close>

definition serverSchemaSql :: string where
  "serverSchemaSql =
     [NL] @ ''          SELECT name, sql FROM sqlite_master'' @ [NL] @
     ''          WHERE type='' @ [SQ] @ ''table'' @ [SQ] @
     '' AND name NOT LIKE '' @ [SQ] @ ''sqlite_%'' @ [SQ] @
     '' AND name NOT LIKE '' @ [SQ] @ ''_cf_%'' @ [SQ] @ [NL] @
     ''          ORDER BY name'' @ [NL] @
     ''        ''"

definition serverGetSchema :: "exn + 's d1database \<Rightarrow> 's world \<Rightarrow> response \<times> 's world" where
  "serverGetSchema getD1Database w =
     catch500
       (bindE (getD1Database, w) (\<lambda>db w.
        bindE (call_all db \<lparr>stmt_sql = serverSchemaSql, stmt_params = []\<rparr> w) (\<lambda>tables w1.
          (Inr (json [(''tables'', JArr (res_results tables))] 200), w1))))"

text \<open>\<^verbatim>\<open>GET /:binding/tables/:table\<close> of the server.\<close>

definition serverGetTable ::
  "exn + 's d1database \<Rightarrow> string \<Rightarrow> 's world \<Rightarrow> response \<times> 's world" where
  "serverGetTable getD1Database tableName w =
     catch500
       (bindE (getD1Database, w) (\<lambda>db w.
        bindE (call_all db \<lparr>stmt_sql = ''PRAGMA table_info('' @ [DQ] @ tableName @ [DQ] @ '')'',
                            stmt_params = []\<rparr> w) (\<lambda>columns w1.
        bindE (call_first db \<lparr>stmt_sql = ''SELECT COUNT(*) as count FROM '' @ [DQ] @ tableName @ [DQ],
                              stmt_params = []\<rparr> w1) (\<lambda>count w2.
          (Inr (json [(''table'', JStr tableName),
                      (''columns'', JArr (res_results columns)),
                      (''rowCount'', rowCountOf count)] 200), w2)))))"

text \<open>\<^verbatim>\<open>GET /:binding/tables/:table/rows\<close> of the server.\<close>

definition serverGetRows ::
  "exn + 's d1database \<Rightarrow> string \<Rightarrow> int option \<Rightarrow> int option \<Rightarrow> 's world
     \<Rightarrow> response \<times> 's world" where
  "serverGetRows getD1Database tableName limitN offsetN w =
     catch500
       (bindE (getD1Database, w) (\<lambda>db w.
          (let limit = orDefault limitN 100;
               offset = orDefault offsetN 0
           in bindE (call_all db \<lparr>stmt_sql = ''SELECT * FROM '' @ [DQ] @ tableName @ [DQ] @
                                               '' LIMIT ? OFFSET ?'',
                                   stmt_params = [JNum limit, JNum offset]\<rparr> w) (\<lambda>rows w1.
                (Inr (json [(''rows'', JArr (res_results rows)),
                            (''meta'', metaJson rows)] 200), w1)))))"

text \<open>\<^verbatim>\<open>POST /:binding/query\<close> of the server: only \<^verbatim>\<open>SELECT\<close> is read with \<^verbatim>\<open>all\<close>.\<close>

definition serverPostQuery ::
  "exn + 's d1database \<Rightarrow> exn + query_body \<Rightarrow> 's world \<Rightarrow> response \<times> 's world" where
  "serverPostQuery getD1Database reqJson w =
     catch500
       (bindE (getD1Database, w) (\<lambda>db w.
        bindE (reqJson, w) (\<lambda>b w.
          (case qb_sql b of
             None \<Rightarrow> (Inr (json [(''error'', JStr ''SQL query is required'')] 400), w)
           | Some sql \<Rightarrow>
               if sql = [] then (Inr (json [(''error'', JStr ''SQL query is required'')] 400), w)
               else
                 (let params = (case qb_params b of None \<Rightarrow> [] | Some ps \<Rightarrow> ps);
                      isRead = startsWith (toUpperCase (trim sql)) ''SELECT''
                  in if isRead then
                       bindE (call_all db \<lparr>stmt_sql = sql, stmt_params = params\<rparr> w) (\<lambda>result w1.
                         (Inr (json [(''success'', JBool True),
                                     (''results'', JArr (res_results result)),
                                     (''meta'', metaJson result)] 200), w1))
                     else
                       bindE (call_run db \<lparr>stmt_sql = sql, stmt_params = params\<rparr> w) (\<lambda>result w1.
                         (Inr (json [(''success'', JBool (res_success result)),
                                     (''meta'', metaJson result)] 200), w1)))))))"

text \<open>
  \<^verbatim>\<open>POST /:binding/tables/:table/rows\<close> of the server: every key of the body is a column,
  and there is no guard for an empty body.
\<close>

definition quoted :: "string \<Rightarrow> string" where
  "quoted name = [DQ] @ name @ [DQ]"

definition serverInsertRow ::
  "exn + 's d1database \<Rightarrow> string \<Rightarrow> exn + (string \<times> jsval) list \<Rightarrow> 's world
     \<Rightarrow> response \<times> 's world" where
  "serverInsertRow getD1Database tableName reqJson w =
     catch500
       (bindE (getD1Database, w) (\<lambda>db w.
        bindE (reqJson, w) (\<lambda>data w.
          (let columns = map fst data;
               vals = map snd data;
               placeholders = join '', '' (map (\<lambda>c. ''?'') columns);
               sql = ''INSERT INTO '' @ quoted tableName @ '' ('' @
                     join '', '' (map quoted columns) @ '') VALUES ('' @ placeholders @ '')''
           in bindE (call_run db \<lparr>stmt_sql = sql, stmt_params = vals\<rparr> w) (\<lambda>result w1.
                (Inr (json [(''success'', JBool (res_success result)),
                            (''meta'', metaJson result)] 200), w1))))))"

text \<open>
  \<^verbatim>\<open>PUT /:binding/tables/:table/rows/:id\<close> and \<^verbatim>\<open>DELETE /:binding/tables/:table/rows/:id\<close>
  of the server: the row is found by the column \<^verbatim>\<open>id\<close>.
\<close>

definition serverPutRow ::
  "exn + 's d1database \<Rightarrow> string \<Rightarrow> string \<Rightarrow> exn + (string \<times> jsval) list \<Rightarrow> 's world
     \<Rightarrow> response \<times> 's world" where
  "serverPutRow getD1Database tableName rowId reqJson w =
     catch500
       (bindE (getD1Database, w) (\<lambda>db w.
        bindE (reqJson, w) (\<lambda>data w.
          (let setClause = join '', '' (map (\<lambda>col. quoted col @ '' = ?'') (map fst data));
               vals = map snd data @ [JStr rowId];
               sql = ''UPDATE '' @ quoted tableName @ '' SET '' @ setClause @ '' WHERE id = ?''
           in bindE (call_run db \<lparr>stmt_sql = sql, stmt_params = vals\<rparr> w) (\<lambda>result w1.
                (Inr (json [(''success'', JBool (res_success result)),
                            (''meta'', metaJson result)] 200), w1))))))"

definition serverDeleteRow ::
  "exn + 's d1database \<Rightarrow> string \<Rightarrow> string \<Rightarrow> 's world \<Rightarrow> response \<times> 's world" where
  "serverDeleteRow getD1Database tableName rowId w =
     catch500
       (bindE (getD1Database, w) (\<lambda>db w.
        bindE (call_run db \<lparr>stmt_sql = ''DELETE FROM '' @ quoted tableName @ '' WHERE id = ?'',
                            stmt_params = [JStr rowId]\<rparr> w) (\<lambda>result w1.
          (Inr (json [(''success'', JBool (res_success result)),
                      (''meta'', metaJson result)] 200), w1))))"

text \<open>The D1 router of the dashboard server.\<close>

datatype server_d1_request =
    ServerListDatabases "jsval list option"
  | ServerGetSchema
  | ServerGetTable string
  | ServerGetRows string "int option" "int option"
  | ServerPostQuery "exn + query_body"
  | ServerInsertRow string "exn + (string \<times> jsval) list"
  | ServerPutRow string string "exn + (string \<times> jsval) list"
  | ServerDeleteRow string string

fun server_createD1Routes ::
  "exn + 's d1database \<Rightarrow> server_d1_request \<Rightarrow> 's world \<Rightarrow> response \<times> 's world" where
  "server_createD1Routes getD1Database (ServerListDatabases found) w =
     (serverListDatabases found, w)"
| "server_createD1Routes getD1Database ServerGetSchema w = serverGetSchema getD1Database w"
| "server_createD1Routes getD1Database (ServerGetTable t) w = serverGetTable getD1Database t w"
| "server_createD1Routes getD1Database (ServerGetRows t limitN offsetN) w =
     serverGetRows getD1Database t limitN offsetN w"
| "server_createD1Routes getD1Database (ServerPostQuery b) w = serverPostQuery getD1Database b w"
| "server_createD1Routes getD1Database (ServerInsertRow t b) w =
     serverInsertRow getD1Database t b w"
| "server_createD1Routes getD1Database (ServerPutRow t r b) w =
     serverPutRow getD1Database t r b w"
| "server_createD1Routes getD1Database (ServerDeleteRow t r) w =
     serverDeleteRow getD1Database t r w"

section \<open>R2 routes of the API worker\<close>

text \<open>
  An R2 object as the binding describes it. \<^verbatim>\<open>uploaded\<close> is a \<^verbatim>\<open>Date\<close>; it is kept as its
  ISO text, which is what \<^verbatim>\<open>toISOString()\<close> gives and what the JSON of a response carries
  for a \<^verbatim>\<open>Date\<close>. \<^verbatim>\<open>checksums\<close>, \<^verbatim>\<open>httpMetadata\<close> and \<^verbatim>\<open>customMetadata\<close> are objects or
  \<^verbatim>\<open>undefined\<close>.
\<close>

record r2object =
  ro_key :: string
  ro_size :: int
  ro_etag :: string
  ro_httpEtag :: string
  ro_uploaded :: string
  ro_checksums :: jsval
  ro_httpMetadata :: jsval
  ro_customMetadata :: jsval

record r2_list_result =
  rl_objects :: "r2object list"
  rl_truncated :: jsval
  rl_cursor :: jsval
  rl_delimitedPrefixes :: jsval

text \<open>
  An R2 bucket binding: \<^verbatim>\<open>list(options)\<close>; \<^verbatim>\<open>head(key)\<close>, the object or \<^verbatim>\<open>null\<close>;
  \<^verbatim>\<open>get(key)\<close>, the object with the bytes of its body, or \<^verbatim>\<open>null\<close>;
  \<^verbatim>\<open>put(key, body, options)\<close>, the object stored; \<^verbatim>\<open>delete\<close> with one key or with an array
  of keys.
\<close>

record 's r2bucket =
  r2_list :: "jsval \<Rightarrow> 's \<Rightarrow> (exn + r2_list_result) \<times> 's"
  r2_head :: "string \<Rightarrow> 's \<Rightarrow> (exn + r2object option) \<times> 's"
  r2_get :: "string \<Rightarrow> 's \<Rightarrow> (exn + (r2object \<times> string) option) \<times> 's"
  r2_put :: "string \<Rightarrow> string option \<Rightarrow> jsval \<Rightarrow> 's \<Rightarrow> (exn + r2object) \<times> 's"
  r2_delete :: "string \<Rightarrow> 's \<Rightarrow> (exn + unit) \<times> 's"
  r2_deleteMany :: "string list \<Rightarrow> 's \<Rightarrow> (exn + unit) \<times> 's"

text \<open>
  \<^verbatim>\<open>GET /\<close>: the buckets of the manifest (\<^verbatim>\<open>getManifest(c.env).r2\<close>, an argument), each
  with its \<^verbatim>\<open>binding\<close> and \<^verbatim>\<open>bucket_name\<close>.
\<close>

definition r2ListBuckets :: "(string \<times> jsval) list list \<Rightarrow> response" where
  "r2ListBuckets manifest_r2 =
     json [(''buckets'',
            JArr (map (\<lambda>r2. JObj [(''binding'', getProp r2 ''binding''),
                                   (''bucket_name'', getProp r2 ''bucket_name'')])
                      manifest_r2))] 200"

text \<open>\<^verbatim>\<open>GET /:binding/objects\<close>\<close>

definition objectEntry :: "r2object \<Rightarrow> jsval" where
  "objectEntry obj =
     JObj [(''key'', JStr (ro_key obj)),
           (''size'', JNum (ro_size obj)),
           (''etag'', JStr (ro_etag obj)),
           (''httpEtag'', JStr (ro_httpEtag obj)),
           (''uploaded'', JStr (ro_uploaded obj)),
           (''checksums'', ro_checksums obj),
           (''customMetadata'', ro_customMetadata obj)]"

definition r2ListObjects ::
  "'s r2bucket option \<Rightarrow> string option \<Rightarrow> int option \<Rightarrow> string option \<Rightarrow> string option
     \<Rightarrow> 's world \<Rightarrow> response \<times> 's world" where
  "r2ListObjects r2o prefixQ limitN cursorQ delimiterQ w =
     (case r2o of
        None \<Rightarrow> (notFound ''Bucket not found'', w)
      | Some r2 \<Rightarrow>
          (let prefix = orUndefined prefixQ;
               limit = orDefault limitN 100;
               cursor = orUndefined cursorQ;
               delimiter = orUndefined delimiterQ;
               options = JObj [(''prefix'', prefix), (''limit'', JNum limit), (''cursor'', cursor),
                               (''delimiter'', delimiter)]
           in catch500
                (bindE (invoke (R2List options) (r2_list r2 options) w) (\<lambda>result w1.
                   (Inr (json [(''objects'', JArr (map objectEntry (rl_objects result))),
                               (''truncated'', rl_truncated result),
                               (''cursor'', valueOrUndefined (rl_cursor result)),
                               (''delimitedPrefixes'', rl_delimitedPrefixes result)] 200), w1)))))"

text \<open>\<^verbatim>\<open>GET /:binding/objects/:key/meta\<close>\<close>

definition objectMeta :: "r2object \<Rightarrow> response" where
  "objectMeta head =
     json [(''key'', JStr (ro_key head)),
           (''size'', JNum (ro_size head)),
           (''etag'', JStr (ro_etag head)),
           (''httpEtag'', JStr (ro_httpEtag head)),
           (''uploaded'', JStr (ro_uploaded head)),
           (''checksums'', ro_checksums head),
           (''httpMetadata'', ro_httpMetadata head),
           (''customMetadata'', ro_customMetadata head)] 200"

definition r2GetMeta ::
  "'s r2bucket option \<Rightarrow> string \<Rightarrow> 's world \<Rightarrow> response \<times> 's world" where
  "r2GetMeta r2o key w =
     (case r2o of
        None \<Rightarrow> (notFound ''Bucket not found'', w)
      | Some r2 \<Rightarrow>
          catch500
            (bindE (invoke (R2Head key) (r2_head r2 key) w) (\<lambda>head w1.
               (case head of
                  None \<Rightarrow> (Inr (notFound ''Object not found''), w1)
                | Some h \<Rightarrow> (Inr (objectMeta h), w1)))))"

text \<open>
  \<^verbatim>\<open>GET /:binding/objects/:key\<close>. A stored object is sent with \<^verbatim>\<open>new Response(object.body,
  { headers })\<close>, not as JSON. The headers are set one by one; \<^verbatim>\<open>headers.set(name, value)\<close>
  is the engine's (the parameter \<open>Headers_set\<close>: the headers with the value set, or the
  \<^verbatim>\<open>TypeError\<close> it throws for a value that is no header text).
  \<^verbatim>\<open>object.httpMetadata?.contentType\<close> and \<^verbatim>\<open>contentDisposition\<close> are strings or
  \<^verbatim>\<open>undefined\<close>.
\<close>

datatype reply = JsonReply response | RawReply raw_response

definition jsonReply :: "response \<times> 'w \<Rightarrow> reply \<times> 'w" where
  "jsonReply r = (JsonReply (fst r), snd r)"

definition catch500r :: "(exn + reply) \<times> 'w \<Rightarrow> reply \<times> 'w" where
  "catch500r r =
     (case r of
        (Inl error, w) \<Rightarrow> (JsonReply (json [(''error'', JStr (String_exn error))] 500), w)
      | (Inr rep, w) \<Rightarrow> (rep, w))"

definition stringField :: "jsval \<Rightarrow> string \<Rightarrow> string option" where
  "stringField v name =
     (case field v name of JStr s \<Rightarrow> if s = [] then None else Some s | _ \<Rightarrow> None)"

definition objectHeaders ::
  "((string \<times> string) list \<Rightarrow> string \<Rightarrow> string \<Rightarrow> exn + (string \<times> string) list)
     \<Rightarrow> (int \<Rightarrow> string) \<Rightarrow> r2object \<Rightarrow> exn + (string \<times> string) list" where
  "objectHeaders Headers_set numberToString object =
     (case Headers_set [] ''Content-Type''
             (case stringField (ro_httpMetadata object) ''contentType'' of
                None \<Rightarrow> ''application/octet-stream''
              | Some contentType \<Rightarrow> contentType) of
        Inl e \<Rightarrow> Inl e
      | Inr h1 \<Rightarrow>
     (case Headers_set h1 ''ETag'' (ro_httpEtag object) of
        Inl e \<Rightarrow> Inl e
      | Inr h2 \<Rightarrow>
     (case Headers_set h2 ''Content-Length'' (numberToString (ro_size object)) of
        Inl e \<Rightarrow> Inl e
      | Inr h3 \<Rightarrow>
     (case stringField (ro_httpMetadata object) ''contentDisposition'' of
        None \<Rightarrow> Inr h3
      | Some contentDisposition \<Rightarrow> Headers_set h3 ''Content-Disposition'' contentDisposition))))"

definition r2GetObject ::
  "((string \<times> string) list \<Rightarrow> string \<Rightarrow> string \<Rightarrow> exn + (string \<times> string) list)
     \<Rightarrow> (int \<Rightarrow> string) \<Rightarrow> 's r2bucket option \<Rightarrow> string \<Rightarrow> 's world \<Rightarrow> reply \<times> 's world" where
  "r2GetObject Headers_set numberToString r2o key w =
     (case r2o of
        None \<Rightarrow> (JsonReply (notFound ''Bucket not found''), w)
      | Some r2 \<Rightarrow>
          catch500r
            (bindE (invoke (R2Get key) (r2_get r2 key) w) (\<lambda>object w1.
               (case object of
                  None \<Rightarrow> (Inr (JsonReply (notFound ''Object not found'')), w1)
                | Some (obj, bytes) \<Rightarrow>
                    bindE (objectHeaders Headers_set numberToString obj, w1) (\<lambda>headers w1.
                      (Inr (RawReply \<lparr>raw_status = 200, raw_headers = headers,
                                       raw_body = bytes\<rparr>), w1))))))"

text \<open>
  \<^verbatim>\<open>PUT /:binding/objects/:key\<close>. \<open>contentTypeH\<close> is \<^verbatim>\<open>c.req.header('Content-Type')\<close>,
  \<open>headers\<close> the request headers as \<^verbatim>\<open>forEach\<close> visits them, \<open>rawBody\<close> the body stream
  (\<open>None\<close> for \<^verbatim>\<open>null\<close>). A header whose name, in lower case, starts with \<^verbatim>\<open>x-amz-meta-\<close>
  gives an entry of the custom metadata under the rest of its name; a later header of the
  same name replaces the earlier value, and assigning a text to \<^verbatim>\<open>__proto__\<close> makes no entry.
\<close>

definition lowerChar :: "char \<Rightarrow> char" where
  "lowerChar c = (case map_of (zip upperLetters lowerLetters) c of None \<Rightarrow> c | Some u \<Rightarrow> u)"

definition toLowerCase :: "string \<Rightarrow> string" where
  "toLowerCase s = map lowerChar s"

fun assign :: "(string \<times> jsval) list \<Rightarrow> string \<Rightarrow> jsval \<Rightarrow> (string \<times> jsval) list" where
  "assign [] k v = (if k = ''__proto__'' then [] else [(k, v)])"
| "assign ((k', v') # kvs) k v = (if k' = k then (k, v) # kvs else (k', v') # assign kvs k v)"

definition customMetadataOf :: "(string \<times> string) list \<Rightarrow> (string \<times> jsval) list" where
  "customMetadataOf headers =
     foldl (\<lambda>customMetadata (headerKey, v).
              if startsWith (toLowerCase headerKey) ''x-amz-meta-''
              then assign customMetadata (drop 11 headerKey) (JStr v)
              else customMetadata) [] headers"

definition putObjectOptions :: "string option \<Rightarrow> (string \<times> string) list \<Rightarrow> jsval" where
  "putObjectOptions contentTypeH headers =
     (let contentType = (case contentTypeH of
                           None \<Rightarrow> ''application/octet-stream''
                         | Some t \<Rightarrow> if t = [] then ''application/octet-stream'' else t);
          customMetadata = customMetadataOf headers
      in JObj [(''httpMetadata'', JObj [(''contentType'', JStr contentType)]),
               (''customMetadata'',
                if length customMetadata > 0 then JObj customMetadata else JUndefined)])"

definition objectStored :: "r2object \<Rightarrow> response" where
  "objectStored result =
     json [(''success'', JBool True),
           (''key'', JStr (ro_key result)),
           (''size'', JNum (ro_size result)),
           (''etag'', JStr (ro_etag result))] 200"

definition r2PutObject ::
  "'s r2bucket option \<Rightarrow> string \<Rightarrow> string option \<Rightarrow> (string \<times> string) list \<Rightarrow> string option
     \<Rightarrow> 's world \<Rightarrow> response \<times> 's world" where
  "r2PutObject r2o key contentTypeH headers rawBody w =
     (case r2o of
        None \<Rightarrow> (notFound ''Bucket not found'', w)
      | Some r2 \<Rightarrow>
          (let options = putObjectOptions contentTypeH headers
           in catch500
                (bindE (invoke (R2Put key rawBody options) (r2_put r2 key rawBody options) w)
                   (\<lambda>result w1. (Inr (objectStored result), w1)))))"

text \<open>\<^verbatim>\<open>DELETE /:binding/objects/:key\<close>\<close>

definition r2DeleteObject ::
  "'s r2bucket option \<Rightarrow> string \<Rightarrow> 's world \<Rightarrow> response \<times> 's world" where
  "r2DeleteObject r2o key w =
     (case r2o of
        None \<Rightarrow> (notFound ''Bucket not found'', w)
      | Some r2 \<Rightarrow>
          catch500
            (bindE (invoke (R2Delete key) (r2_delete r2 key) w) (\<lambda>u w1.
               (Inr (json [(''success'', JBool True)] 200), w1))))"

text \<open>
  \<^verbatim>\<open>POST /:binding/bulk-delete\<close>, body \<^verbatim>\<open>{ keys: string[] }\<close>: one \<^verbatim>\<open>delete\<close> call with the
  array of keys.
\<close>

definition r2BulkDelete ::
  "'s r2bucket option \<Rightarrow> exn + string list \<Rightarrow> 's world \<Rightarrow> response \<times> 's world" where
  "r2BulkDelete r2o reqJson w =
     (case r2o of
        None \<Rightarrow> (notFound ''Bucket not found'', w)
      | Some r2 \<Rightarrow>
          catch500
            (bindE (reqJson, w) (\<lambda>keys w.
             bindE (invoke (R2DeleteMany keys) (r2_deleteMany r2 keys) w) (\<lambda>u w1.
               (Inr (json [(''success'', JBool True),
                           (''deleted'', JNum (int (length keys)))] 200), w1)))))"

text \<open>
  The R2 router of the API worker; \<open>r2o\<close> is the bucket that \<^verbatim>\<open>getR2(c.env, binding)\<close>
  finds.
\<close>

datatype r2_request =
    ListBuckets "(string \<times> jsval) list list"
  | ListObjects "string option" "int option" "string option" "string option"
  | GetObjectMeta string
  | GetObject string
  | PutObject string "string option" "(string \<times> string) list" "string option"
  | DeleteObject string
  | R2BulkDelete "exn + string list"

fun createR2Routes ::
  "((string \<times> string) list \<Rightarrow> string \<Rightarrow> string \<Rightarrow> exn + (string \<times> string) list)
     \<Rightarrow> (int \<Rightarrow> string) \<Rightarrow> 's r2bucket option \<Rightarrow> r2_request \<Rightarrow> 's world \<Rightarrow> reply \<times> 's world" where
  "createR2Routes Headers_set numberToString r2o (ListBuckets manifest_r2) w =
     (JsonReply (r2ListBuckets manifest_r2), w)"
| "createR2Routes Headers_set numberToString r2o (ListObjects prefixQ limitN cursorQ delimiterQ) w =
     jsonReply (r2ListObjects r2o prefixQ limitN cursorQ delimiterQ w)"
| "createR2Routes Headers_set numberToString r2o (GetObjectMeta key) w =
     jsonReply (r2GetMeta r2o key w)"
| "createR2Routes Headers_set numberToString r2o (GetObject key) w =
     r2GetObject Headers_set numberToString r2o key w"
| "createR2Routes Headers_set numberToString r2o (PutObject key contentTypeH headers rawBody) w =
     jsonReply (r2PutObject r2o key contentTypeH headers rawBody w)"
| "createR2Routes Headers_set numberToString r2o (DeleteObject key) w =
     jsonReply (r2DeleteObject r2o key w)"
| "createR2Routes Headers_set numberToString r2o (R2BulkDelete b) w =
     jsonReply (r2BulkDelete r2o b w)"

section \<open>R2 routes of the dashboard server\<close>

text \<open>
  The server's R2 routes get the bucket from \<^verbatim>\<open>await localflare.getR2Bucket(binding)\<close>
  inside the \<^verbatim>\<open>try\<close> block. The list passes \<^verbatim>\<open>uploaded\<close> and the cursor on as they are.
\<close>

definition serverR2ListBuckets :: "jsval list option \<Rightarrow> response" where
  "serverR2ListBuckets found = json [(''buckets'', discoveredList found)] 200"

definition serverR2ListObjects ::
  "exn + 's r2bucket \<Rightarrow> string option \<Rightarrow> string option \<Rightarrow> int option \<Rightarrow> string option
     \<Rightarrow> 's world \<Rightarrow> response \<times> 's world" where
  "serverR2ListObjects getR2Bucket prefixQ cursorQ limitN delimiterQ w =
     catch500
       (bindE (getR2Bucket, w) (\<lambda>r2 w.
          (let prefix = orUndefined prefixQ;
               cursor = orUndefined cursorQ;
               limit = orDefault limitN 100;
               delimiter = orUndefined delimiterQ;
               options = JObj [(''prefix'', prefix), (''cursor'', cursor), (''limit'', JNum limit),
                               (''delimiter'', delimiter)]
           in bindE (invoke (R2List options) (r2_list r2 options) w) (\<lambda>list w1.
                (Inr (json [(''objects'', JArr (map objectEntry (rl_objects list))),
                            (''truncated'', rl_truncated list),
                            (''cursor'', rl_cursor list),
                            (''delimitedPrefixes'', rl_delimitedPrefixes list)] 200), w1)))))"

definition serverR2GetMeta ::
  "exn + 's r2bucket \<Rightarrow> string \<Rightarrow> 's world \<Rightarrow> response \<times> 's world" where
  "serverR2GetMeta getR2Bucket key w =
     catch500
       (bindE (getR2Bucket, w) (\<lambda>r2 w.
        bindE (invoke (R2Head key) (r2_head r2 key) w) (\<lambda>head w1.
          (case head of
             None \<Rightarrow> (Inr (notFound ''Object not found''), w1)
           | Some h \<Rightarrow> (Inr (objectMeta h), w1)))))"

definition serverR2GetObject ::
  "((string \<times> string) list \<Rightarrow> string \<Rightarrow> string \<Rightarrow> exn + (string \<times> string) list)
     \<Rightarrow> (int \<Rightarrow> string) \<Rightarrow> exn + 's r2bucket \<Rightarrow> string \<Rightarrow> 's world \<Rightarrow> reply \<times> 's world" where
  "serverR2GetObject Headers_set numberToString getR2Bucket key w =
     catch500r
       (bindE (getR2Bucket, w) (\<lambda>r2 w.
        bindE (invoke (R2Get key) (r2_get r2 key) w) (\<lambda>object w1.
          (case object of
             None \<Rightarrow> (Inr (JsonReply (notFound ''Object not found'')), w1)
           | Some (obj, bytes) \<Rightarrow>
               bindE (objectHeaders Headers_set numberToString obj, w1) (\<lambda>headers w1.
                 (Inr (RawReply \<lparr>raw_status = 200, raw_headers = headers,
                                  raw_body = bytes\<rparr>), w1))))))"

text \<open>
  \<^verbatim>\<open>PUT /:binding/objects/:key\<close> of the server: the body is read whole
  (\<^verbatim>\<open>await c.req.arrayBuffer()\<close>, which may throw) before the metadata is collected from
  \<^verbatim>\<open>Object.entries(c.req.header())\<close>.
\<close>

definition serverR2PutObject ::
  "exn + 's r2bucket \<Rightarrow> string \<Rightarrow> string option \<Rightarrow> exn + string \<Rightarrow> (string \<times> string) list
     \<Rightarrow> 's world \<Rightarrow> response \<times> 's world" where
  "serverR2PutObject getR2Bucket key contentTypeH reqArrayBuffer headers w =
     catch500
       (bindE (getR2Bucket, w) (\<lambda>r2 w.
        bindE (reqArrayBuffer, w) (\<lambda>body w.
          (let options = putObjectOptions contentTypeH headers
           in bindE (invoke (R2Put key (Some body) options) (r2_put r2 key (Some body) options) w)
                (\<lambda>result w1. (Inr (objectStored result), w1))))))"

definition serverR2DeleteObject ::
  "exn + 's r2bucket \<Rightarrow> string \<Rightarrow> 's world \<Rightarrow> response \<times> 's world" where
  "serverR2DeleteObject getR2Bucket key w =
     catch500
       (bindE (getR2Bucket, w) (\<lambda>r2 w.
        bindE (invoke (R2Delete key) (r2_delete r2 key) w) (\<lambda>u w1.
          (Inr (json [(''success'', JBool True)] 200), w1))))"

definition serverR2BulkDelete ::
  "exn + 's r2bucket \<Rightarrow> exn + string list \<Rightarrow> 's world \<Rightarrow> response \<times> 's world" where
  "serverR2BulkDelete getR2Bucket reqJson w =
     catch500
       (bindE (getR2Bucket, w) (\<lambda>r2 w.
        bindE (reqJson, w) (\<lambda>keys w.
        bindE (invoke (R2DeleteMany keys) (r2_deleteMany r2 keys) w) (\<lambda>u w1.
          (Inr (json [(''success'', JBool True),
                      (''deleted'', JNum (int (length keys)))] 200), w1)))))"

text \<open>The R2 router of the dashboard server.\<close>

datatype server_r2_request =
    ServerListBuckets "jsval list option"
  | ServerListObjects "string option" "string option" "int option" "string option"
  | ServerGetObjectMeta string
  | ServerGetObject string
  | ServerPutObject string "string option" "exn + string" "(string \<times> string) list"
  | ServerDeleteObject string
  | ServerR2BulkDelete "exn + string list"

fun server_createR2Routes ::
  "((string \<times> string) list \<Rightarrow> string \<Rightarrow> string \<Rightarrow> exn + (string \<times> string) list)
     \<Rightarrow> (int \<Rightarrow> string) \<Rightarrow> exn + 's r2bucket \<Rightarrow> server_r2_request \<Rightarrow> 's world
     \<Rightarrow> reply \<times> 's world" where
  "server_createR2Routes Headers_set numberToString getR2Bucket (ServerListBuckets found) w =
     (JsonReply (serverR2ListBuckets found), w)"
| "server_createR2Routes Headers_set numberToString getR2Bucket
       (ServerListObjects prefixQ cursorQ limitN delimiterQ) w =
     jsonReply (serverR2ListObjects getR2Bucket prefixQ cursorQ limitN delimiterQ w)"
| "server_createR2Routes Headers_set numberToString getR2Bucket (ServerGetObjectMeta key) w =
     jsonReply (serverR2GetMeta getR2Bucket key w)"
| "server_createR2Routes Headers_set numberToString getR2Bucket (ServerGetObject key) w =
     serverR2GetObject Headers_set numberToString getR2Bucket key w"
| "server_createR2Routes Headers_set numberToString getR2Bucket
       (ServerPutObject key contentTypeH reqArrayBuffer headers) w =
     jsonReply (serverR2PutObject getR2Bucket key contentTypeH reqArrayBuffer headers w)"
| "server_createR2Routes Headers_set numberToString getR2Bucket (ServerDeleteObject key) w =
     jsonReply (serverR2DeleteObject getR2Bucket key w)"
| "server_createR2Routes Headers_set numberToString getR2Bucket (ServerR2BulkDelete b) w =
     jsonReply (serverR2BulkDelete getR2Bucket b w)"

section \<open>Queue routes of the API worker\<close>

text \<open>A queue binding: \<^verbatim>\<open>send(message)\<close> and \<^verbatim>\<open>sendBatch(batch)\<close>.\<close>

record 's queue =
  q_send :: "jsval \<Rightarrow> 's \<Rightarrow> (exn + unit) \<times> 's"
  q_sendBatch :: "jsval list \<Rightarrow> 's \<Rightarrow> (exn + unit) \<times> 's"

text \<open>
  \<^verbatim>\<open>GET /\<close>: the producers and consumers of the manifest
  (\<^verbatim>\<open>getManifest(c.env).queues\<close>, an argument), with the defaults of a consumer filled in.
\<close>

definition queuesList ::
  "(string \<times> jsval) list list \<Rightarrow> (string \<times> jsval) list list \<Rightarrow> response" where
  "queuesList producers consumers =
     json [(''producers'',
            JArr (map (\<lambda>p. JObj [(''binding'', getProp p ''binding''),
                                  (''queue'', getProp p ''queue'')]) producers)),
           (''consumers'',
            JArr (map (\<lambda>consumer.
                         JObj [(''queue'', getProp consumer ''queue''),
                               (''max_batch_size'',
                                nullish (getProp consumer ''max_batch_size'') (JNum 10)),
                               (''max_batch_timeout'',
                                nullish (getProp consumer ''max_batch_timeout'') (JNum 5)),
                               (''max_retries'',
                                nullish (getProp consumer ''max_retries'') (JNum 3)),
                               (''dead_letter_queue'', getProp consumer ''dead_letter_queue'')])
                      consumers))] 200"

text \<open>
  \<^verbatim>\<open>POST /:binding/send\<close>. The body is \<^verbatim>\<open>{ message: unknown }\<close>, given by its \<^verbatim>\<open>message\<close>
  (\<^verbatim>\<open>undefined\<close> when left out); reading it may throw.
\<close>

definition queueSend ::
  "'s queue option \<Rightarrow> exn + jsval \<Rightarrow> 's world \<Rightarrow> response \<times> 's world" where
  "queueSend qo reqJson w =
     (case qo of
        None \<Rightarrow> (notFound ''Queue not found'', w)
      | Some queue \<Rightarrow>
          catch500
            (bindE (reqJson, w) (\<lambda>message w.
               if message = JUndefined then
                 (Inr (json [(''error'', JStr ''Message is required'')] 400), w)
               else
                 bindE (invoke (QueueSend message) (q_send queue message) w) (\<lambda>u w1.
                   (Inr (json [(''success'', JBool True),
                               (''message'',
                                JStr ''Message sent! Check your terminal for consumer output.'')]
                           200), w1)))))"

text \<open>
  \<^verbatim>\<open>POST /:binding/send-batch\<close>. The body is \<^verbatim>\<open>{ messages: unknown[] }\<close>, given by its
  \<^verbatim>\<open>messages\<close>; the handler checks that it is a non-empty array. The count in the text of
  the answer is written by the engine (\<open>numberToString\<close>).
\<close>

definition queueSendBatch ::
  "(int \<Rightarrow> string) \<Rightarrow> 's queue option \<Rightarrow> exn + jsval \<Rightarrow> 's world \<Rightarrow> response \<times> 's world" where
  "queueSendBatch numberToString qo reqJson w =
     (case qo of
        None \<Rightarrow> (notFound ''Queue not found'', w)
      | Some queue \<Rightarrow>
          catch500
            (bindE (reqJson, w) (\<lambda>messages w.
               (case messages of
                  JArr msgs \<Rightarrow>
                    if length msgs = 0 then
                      (Inr (json [(''error'',
                              JStr ''Messages array is required and must not be empty'')] 400), w)
                    else
                      (let batch = map (\<lambda>msg. JObj [(''body'', msg)]) msgs
                       in bindE (invoke (QueueSendBatch batch) (q_sendBatch queue batch) w)
                            (\<lambda>u w1.
                               (Inr (json [(''success'', JBool True),
                                           (''count'', JNum (int (length msgs))),
                                           (''message'',
                                            JStr (numberToString (int (length msgs)) @
                                              '' message(s) sent! Check your terminal for consumer output.''))]
                                       200), w1)))
                | _ \<Rightarrow>
                    (Inr (json [(''error'',
                            JStr ''Messages array is required and must not be empty'')] 400), w)))))"

text \<open>
  The queue router of the API worker; \<open>qo\<close> is the queue that \<^verbatim>\<open>getQueue(c.env, binding)\<close>
  finds.
\<close>

datatype queue_request =
    ListQueues "(string \<times> jsval) list list" "(string \<times> jsval) list list"
  | Send "exn + jsval"
  | SendBatch "exn + jsval"

fun createQueuesRoutes ::
  "(int \<Rightarrow> string) \<Rightarrow> 's queue option \<Rightarrow> queue_request \<Rightarrow> 's world \<Rightarrow> response \<times> 's world" where
  "createQueuesRoutes numberToString qo (ListQueues producers consumers) w =
     (queuesList producers consumers, w)"
| "createQueuesRoutes numberToString qo (Send b) w = queueSend qo b w"
| "createQueuesRoutes numberToString qo (SendBatch b) w = queueSendBatch numberToString qo b w"

section \<open>Log routes of the API worker\<close>

text \<open>
  \<^verbatim>\<open>GET /\<close> and \<^verbatim>\<open>DELETE /\<close> answer with fixed JSON; \<^verbatim>\<open>GET /stream\<close> answers with an event
  stream that carries one comment and closes.
\<close>

definition logsGet :: response where
  "logsGet =
     json [(''logs'', JArr []),
           (''message'',
            JStr ''In sidecar mode, logs are displayed in your terminal where localflare is running.'')]
       200"

definition logsClear :: response where
  "logsClear = json [(''success'', JBool True)] 200"

definition logsStream :: raw_response where
  "logsStream =
     \<lparr>raw_status = 200,
      raw_headers = [(''Content-Type'', ''text/event-stream''), (''Cache-Control'', ''no-cache''),
                     (''Connection'', ''keep-alive'')],
      raw_body = '': Logs are displayed in your terminal in sidecar mode'' @ [NL, NL]\<rparr>"

datatype logs_request = GetLogs | ClearLogs | StreamLogs

fun createLogsRoutes :: "logs_request \<Rightarrow> 's world \<Rightarrow> reply \<times> 's world" where
  "createLogsRoutes GetLogs w = (JsonReply logsGet, w)"
| "createLogsRoutes ClearLogs w = (JsonReply logsClear, w)"
| "createLogsRoutes StreamLogs w = (RawReply logsStream, w)"

section \<open>Durable Object routes of the dashboard server\<close>

text \<open>
  A Durable Object namespace binding. An id is kept as the text \<^verbatim>\<open>toString()\<close> gives for it.
  \<^verbatim>\<open>idFromString\<close>, \<^verbatim>\<open>idFromName\<close> and \<^verbatim>\<open>newUniqueId\<close> make an id (\<^verbatim>\<open>idFromString\<close> throws
  for a text that is no id); \<^verbatim>\<open>get(id)\<close> makes the stub, and \<^verbatim>\<open>stub.fetch(request)\<close> yields
  the response of the object.
\<close>

record 's do_namespace =
  do_idFromString :: "string \<Rightarrow> 's \<Rightarrow> (exn + string) \<times> 's"
  do_idFromName :: "string \<Rightarrow> 's \<Rightarrow> (exn + string) \<times> 's"
  do_newUniqueId :: "'s \<Rightarrow> (exn + string) \<times> 's"
  do_get :: "string \<Rightarrow> 's \<Rightarrow> (exn + unit) \<times> 's"
  do_fetch :: "string \<Rightarrow> do_request \<Rightarrow> 's \<Rightarrow> (exn + raw_response) \<times> 's"

text \<open>\<^verbatim>\<open>GET /\<close>: \<^verbatim>\<open>bindings?.durableObjects ?? []\<close>.\<close>

definition doList :: "jsval list option \<Rightarrow> response" where
  "doList found = json [(''durableObjects'', discoveredList found)] 200"

text \<open>
  \<^verbatim>\<open>POST /:binding/id\<close>, body \<^verbatim>\<open>{ name?: string; id?: string }\<close>: a non-empty \<^verbatim>\<open>id\<close> is
  parsed, otherwise a non-empty \<^verbatim>\<open>name\<close> is hashed, otherwise a new id is made.
\<close>

record do_id_body =
  dib_name :: "string option"
  dib_id :: "string option"

definition given :: "string option \<Rightarrow> bool" where
  "given v = (case v of None \<Rightarrow> False | Some t \<Rightarrow> t \<noteq> [])"

definition doCreateId ::
  "exn + 's do_namespace \<Rightarrow> exn + do_id_body \<Rightarrow> 's world \<Rightarrow> response \<times> 's world" where
  "doCreateId getDurableObjectNamespace reqJson w =
     catch500
       (bindE (getDurableObjectNamespace, w) (\<lambda>namespace w.
        bindE (reqJson, w) (\<lambda>b w.
        bindE (if given (dib_id b) then
                 invoke (DOIdFromString (the (dib_id b)))
                   (do_idFromString namespace (the (dib_id b))) w
               else if given (dib_name b) then
                 invoke (DOIdFromName (the (dib_name b)))
                   (do_idFromName namespace (the (dib_name b))) w
               else invoke DONewUniqueId (do_newUniqueId namespace) w) (\<lambda>doId w1.
          (Inr (json [(''id'', JStr doId)] 200), w1)))))"

text \<open>
  \<^verbatim>\<open>s.split(sep)\<close> for a non-empty separator, and
  \<^verbatim>\<open>c.req.path.split('/fetch')[1] || '/'\<close>: the text between the first and the second
  \<^verbatim>\<open>/fetch\<close> of the path, or \<^verbatim>\<open>/\<close> when there is none or it is empty.
\<close>

function splitStr :: "string \<Rightarrow> string \<Rightarrow> string list" where
  "splitStr sep [] = [[]]"
| "splitStr sep (c # cs) =
     (if sep \<noteq> [] \<and> startsWith (c # cs) sep then [] # splitStr sep (drop (length sep) (c # cs))
      else (case splitStr sep cs of [] \<Rightarrow> [[c]] | piece # pieces \<Rightarrow> (c # piece) # pieces))"
  by pat_completeness auto

termination
  by (relation "measure (\<lambda>(sep, s). length s)") auto

definition pathAfterFetch :: "string \<Rightarrow> string" where
  "pathAfterFetch reqPath =
     (case splitStr ''/fetch'' reqPath of
        first # second # pieces \<Rightarrow> if second = [] then ''/'' else second
      | _ \<Rightarrow> ''/'')"

text \<open>
  \<^verbatim>\<open>ALL /:binding/:id/fetch/*\<close>: the request is rebuilt for the host \<^verbatim>\<open>do.internal\<close>
  and sent to the Durable Object; what the object responds is returned as it is, whatever
  its status. \<^verbatim>\<open>new URL(path, base)\<close> and \<^verbatim>\<open>new Request(url, init)\<close> are the engine's
  (parameters: the address, and the request, or the error thrown). The body is passed on
  unless the method is \<^verbatim>\<open>GET\<close> or \<^verbatim>\<open>HEAD\<close>.
\<close>

definition doFetch ::
  "(string \<Rightarrow> string \<Rightarrow> exn + string) \<Rightarrow> (do_request \<Rightarrow> exn + do_request)
     \<Rightarrow> exn + 's do_namespace \<Rightarrow> string \<Rightarrow> string \<Rightarrow> string \<Rightarrow> (string \<times> string) list
     \<Rightarrow> string option \<Rightarrow> 's world \<Rightarrow> reply \<times> 's world" where
  "doFetch URL_new Request_new getDurableObjectNamespace idStr reqPath reqMethod headers rawBody w =
     catch500r
       (bindE (getDurableObjectNamespace, w) (\<lambda>namespace w.
          (let path = pathAfterFetch reqPath
           in bindE (invoke (DOIdFromString idStr) (do_idFromString namespace idStr) w) (\<lambda>doId w1.
              bindE (invoke (DOGet doId) (do_get namespace doId) w1) (\<lambda>stub w2.
              bindE (URL_new path ''http://do.internal'', w2) (\<lambda>url w2.
              bindE (Request_new
                       \<lparr>rq_url = url, rq_method = reqMethod, rq_headers = headers,
                        rq_body = (if reqMethod \<noteq> ''GET'' \<and> reqMethod \<noteq> ''HEAD''
                                   then rawBody else None)\<rparr>, w2) (\<lambda>request w2.
              bindE (invoke (DOFetch doId request) (do_fetch namespace doId request) w2)
                (\<lambda>response w3. (Inr (RawReply response), w3)))))))))"

text \<open>The Durable Object router of the dashboard server.\<close>

datatype do_route_request =
    ListDurableObjects "jsval list option"
  | CreateId "exn + do_id_body"
  | Fetch string string string "(string \<times> string) list" "string option"

fun createDurableObjectRoutes ::
  "(string \<Rightarrow> string \<Rightarrow> exn + string) \<Rightarrow> (do_request \<Rightarrow> exn + do_request)
     \<Rightarrow> exn + 's do_namespace \<Rightarrow> do_route_request \<Rightarrow> 's world \<Rightarrow> reply \<times> 's world" where
  "createDurableObjectRoutes URL_new Request_new getDurableObjectNamespace
       (ListDurableObjects found) w =
     (JsonReply (doList found), w)"
| "createDurableObjectRoutes URL_new Request_new getDurableObjectNamespace (CreateId b) w =
     jsonReply (doCreateId getDurableObjectNamespace b w)"
| "createDurableObjectRoutes URL_new Request_new getDurableObjectNamespace
       (Fetch idStr reqPath reqMethod headers rawBody) w =
     doFetch URL_new Request_new getDurableObjectNamespace idStr reqPath reqMethod headers rawBody w"

section \<open>Health routes\<close>

text \<open>
  \<^verbatim>\<open>GET /api/health\<close> of the dashboard server (\<open>running\<close> is \<^verbatim>\<open>localflare.isRunning()\<close>) and
  of the worker of the web site.
\<close>

definition serverHealth :: "bool \<Rightarrow> response" where
  "serverHealth running = json [(''status'', JStr ''ok''), (''running'', JBool running)] 200"

definition wwwHealth :: response where
  "wwwHealth = json [(''status'', JStr ''ok''), (''service'', JStr ''localflare-www'')] 200"

section \<open>Number builtins for examples\<close>

text \<open>
  Decimal printing and reading of whole numbers, used to run the functions above on
  concrete inputs. They agree with \<^verbatim>\<open>String(n)\<close> and \<^verbatim>\<open>parseInt(s, 10)\<close> of the engine on
  whole numbers below \<open>2\<^sup>5\<^sup>3\<close> in magnitude: leading white space is skipped, then an optional
  sign, then the longest run of decimal digits is read; \<open>None\<close> is \<^verbatim>\<open>NaN\<close> (no digit found).
\<close>

fun digitsOfNat :: "nat \<Rightarrow> string" where
  "digitsOfNat n =
     (if n < 10 then [''0123456789'' ! n]
      else digitsOfNat (n div 10) @ [''0123456789'' ! (n mod 10)])"

declare digitsOfNat.simps [simp del]

definition exampleNumberToString :: "int \<Rightarrow> string" where
  "exampleNumberToString n =
     (if n < 0 then ''-'' @ digitsOfNat (nat (- n)) else digitsOfNat (nat n))"

definition isDigit :: "char \<Rightarrow> bool" where
  "isDigit c = (c \<in> set ''0123456789'')"

definition digitVal :: "char \<Rightarrow> int" where
  "digitVal c = int (length (takeWhile (\<lambda>d. d \<noteq> c) ''0123456789''))"

definition exampleParseInt :: "string \<Rightarrow> jsval option" where
  "exampleParseInt s =
     (let s1 = dropWhile isWhiteSpace s;
          sign = (if startsWith s1 ''-'' then - 1 else 1);
          s2 = (if startsWith s1 ''-'' \<or> startsWith s1 ''+'' then tl s1 else s1);
          z = takeWhile isDigit s2
      in if z = [] then None
         else Some (JNum (sign * foldl (\<lambda>acc c. 10 * acc + digitVal c) 0 z)))"

section \<open>A database for examples\<close>

text \<open>
  A small database binding used to run the handlers on concrete requests: every \<^verbatim>\<open>all\<close>
  yields the given rows, every statement run changes one row, and the state counts the
  statements executed.
\<close>

definition exampleResult :: "jsval list \<Rightarrow> d1result" where
  "exampleResult rows =
     \<lparr>res_success = True, res_results = rows,
      res_meta = Some \<lparr>meta_changes = Some 1, meta_last_row_id = JNum 7, meta_duration = JNum 2\<rparr>\<rparr>"

definition exampleDb :: "jsval list \<Rightarrow> nat d1database" where
  "exampleDb rows =
     \<lparr>d1_all = (\<lambda>q n. (Inr (exampleResult rows), Suc n)),
      d1_run = (\<lambda>q n. (Inr (exampleResult []), Suc n)),
      d1_first = (\<lambda>q n. (Inr (JObj [(''count'', JNum (int (length rows)))]), Suc n)),
      d1_batch = (\<lambda>qs n. (Inr (map (\<lambda>q. exampleResult []) qs), n + length qs))\<rparr>"

text \<open>
  A small KV namespace for examples: the state is the list of stored keys with their text
  and metadata; reading does not change it, \<^verbatim>\<open>put\<close> stores the text of the value in front
  and \<^verbatim>\<open>delete\<close> removes the key.
\<close>

definition exampleKv :: "(string \<times> string \<times> jsval) list kvnamespace" where
  "exampleKv =
     \<lparr>kv_get_text = (\<lambda>k s. (Inr (map_option fst (map_of s k)), s)),
      kv_get_json = (\<lambda>k s. (Inr (case map_of s k of None \<Rightarrow> JNull | Some (t, m) \<Rightarrow> JStr t), s)),
      kv_get_arrayBuffer = (\<lambda>k s. (Inr (map_option fst (map_of s k)), s)),
      kv_meta_text = (\<lambda>k s. (Inr (case map_of s k of None \<Rightarrow> (None, JNull)
                                                    | Some (t, m) \<Rightarrow> (Some t, m)), s)),
      kv_meta_json = (\<lambda>k s. (Inr (case map_of s k of None \<Rightarrow> (JNull, JNull)
                                                    | Some (t, m) \<Rightarrow> (JStr t, m)), s)),
      kv_meta_arrayBuffer = (\<lambda>k s. (Inr (case map_of s k of None \<Rightarrow> (None, JNull)
                                                           | Some (t, m) \<Rightarrow> (Some t, m)), s)),
      kv_list = (\<lambda>options s.
                   (Inr \<lparr>kl_keys = map (\<lambda>(k, t, m). JObj [(''name'', JStr k), (''metadata'', m)]) s,
                         kl_cursor = JStr [], kl_list_complete = JBool True\<rparr>, s)),
      kv_put = (\<lambda>k v options s. (Inr (), (k, String_js exampleNumberToString v, JNull) # s)),
      kv_delete = (\<lambda>k s. (Inr (), filter (\<lambda>(k', t, m). k' \<noteq> k) s))\<rparr>"

section \<open>Statements issued, and example tables\<close>

text \<open>
  The statements a log of calls carries to the database, and the test for an \<^verbatim>\<open>UPDATE\<close>
  statement (the handlers write the keyword in upper case, followed by a space).
\<close>

fun statementsOf :: "call \<Rightarrow> stmt list" where
  "statementsOf (D1All q) = [q]"
| "statementsOf (D1Run q) = [q]"
| "statementsOf (D1First q) = [q]"
| "statementsOf (D1Batch qs) = qs"
| "statementsOf c = []"

definition issuedStatements :: "(call \<times> exn option) list \<Rightarrow> stmt list" where
  "issuedStatements log = concat (map (\<lambda>(c, outcome). statementsOf c) log)"

definition isUpdate :: "stmt \<Rightarrow> bool" where
  "isUpdate q = startsWith (stmt_sql q) ''UPDATE ''"

text \<open>
  How SQLite matches a column name written in a statement against the columns of the table:
  without regard to the case of the letters a to z, also inside double quotes. This test is
  the yardstick for "the statement assigns the column"; it is not part of the repository.
\<close>

definition sameColumn :: "string \<Rightarrow> string \<Rightarrow> bool" where
  "sameColumn a b = (toUpperCase a = toUpperCase b)"

text \<open>
  Rows of \<^verbatim>\<open>PRAGMA table_info\<close> for three example tables: a table with the single key
  \<^verbatim>\<open>id\<close>, a table with the composite key \<^verbatim>\<open>(a, b)\<close>, and a table without a primary key.
\<close>

definition exampleColumns :: "jsval list" where
  "exampleColumns =
     [JObj [(''cid'', JNum 0), (''name'', JStr ''id''), (''type'', JStr ''INTEGER''), (''pk'', JNum 1)],
      JObj [(''cid'', JNum 1), (''name'', JStr ''title''), (''type'', JStr ''TEXT''), (''pk'', JNum 0)]]"

definition compositeColumns :: "jsval list" where
  "compositeColumns =
     [JObj [(''name'', JStr ''b''), (''pk'', JNum 2)],
      JObj [(''name'', JStr ''a''), (''pk'', JNum 1)],
      JObj [(''name'', JStr ''c''), (''pk'', JNum 0)]]"

definition keylessColumns :: "jsval list" where
  "keylessColumns = [JObj [(''name'', JStr ''title''), (''pk'', JNum 0)]]"

section \<open>Vocabulary for the properties of the handlers\<close>

text \<open>The errors thrown by the calls of a log, in order.\<close>

fun thrownErrors :: "(call \<times> exn option) list \<Rightarrow> exn list" where
  "thrownErrors [] = []"
| "thrownErrors ((c, None) # log) = thrownErrors log"
| "thrownErrors ((c, Some e) # log) = e # thrownErrors log"

text \<open>
  What the log records of the calls a handler made: \<open>extends w r\<close> says that the log of the
  result \<open>r\<close> begins with the log of the world \<open>w\<close> the handler started in, and
  \<open>newCalls w r\<close> are the calls added to it.
\<close>

definition newCalls :: "'s world \<Rightarrow> 'r \<times> 's world \<Rightarrow> (call \<times> exn option) list" where
  "newCalls w r = drop (length (snd w)) (snd (snd r))"

definition extends :: "'s world \<Rightarrow> 'r \<times> 's world \<Rightarrow> bool" where
  "extends w r = (take (length (snd w)) (snd (snd r)) = snd w)"

text \<open>
  The responses of the two \<^verbatim>\<open>catch\<close> blocks for a caught error \<open>e\<close>; the messages of the
  validation guards (answered with 400) and of the not-found answers (404); and the errors
  the handlers throw themselves.
\<close>

definition errorResponses :: "exn \<Rightarrow> response list" where
  "errorResponses e =
     [json [(''error'', JStr (String_exn e))] 500,
      json [(''error'', JStr (String_exn e)), (''success'', JBool False)] 500]"

definition validationMessages :: "string list" where
  "validationMessages =
     [''SQL query is required'', ''No data provided'', ''Table has no primary key'',
      ''No data to update'', ''Column name is required'', ''No row IDs provided'',
      ''No data to update (only primary key columns provided)'', ''Message is required'',
      ''Messages array is required and must not be empty'']"

definition notFoundMessages :: "string list" where
  "notFoundMessages =
     [''Database not found'', ''Namespace not found'', ''Key not found'', ''Bucket not found'',
      ''Object not found'', ''Queue not found'']"

definition invalidRowIdentifier :: exn where
  "invalidRowIdentifier = Exn ''Error'' ''Invalid row identifier for composite primary key''"

definition tooManyArguments :: exn where
  "tooManyArguments = Exn ''RangeError'' ''Maximum call stack size exceeded''"

fun isObject :: "jsval \<Rightarrow> bool" where
  "isObject (JObj kvs) = True"
| "isObject v = False"

text \<open>
  A response that reports no caught error: 200 with a JSON object, 400 with the message of a
  validation guard, or 404 with a not-found message.
\<close>

definition answered :: "response \<Rightarrow> bool" where
  "answered resp =
     ((status resp = 200 \<and> isObject (body resp))
      \<or> resp \<in> set (map (\<lambda>m. json [(''error'', JStr m)] 400) validationMessages)
      \<or> resp \<in> set (map (\<lambda>m. json [(''error'', JStr m)] 404) notFoundMessages))"

text \<open>
  The error handling of a handler, given the calls \<open>new\<close> it made and the set \<open>R\<close> of the
  errors that may be thrown in its \<^verbatim>\<open>try\<close> block by something other than a call on the
  binding (reading the request, resolving the binding, the handler's own \<^verbatim>\<open>throw\<close>, a
  builtin). If a call threw, the response is the 500 response for an error a call threw.
  If no call threw, the response either reports no error (200, 400 of a validation guard,
  404 not found) or is the 500 response for an error of \<open>R\<close>.
\<close>

definition caught :: "exn set \<Rightarrow> (call \<times> exn option) list \<Rightarrow> response \<Rightarrow> bool" where
  "caught R new resp =
     (if thrownErrors new \<noteq> []
      then \<exists>e \<in> set (thrownErrors new). resp \<in> set (errorResponses e)
      else answered resp \<or> (\<exists>e \<in> R. resp \<in> set (errorResponses e)))"

definition errorsCaught :: "exn set \<Rightarrow> 's world \<Rightarrow> response \<times> 's world \<Rightarrow> bool" where
  "errorsCaught R w r = (extends w r \<and> caught R (newCalls w r) (fst r))"

text \<open>
  The same for a handler that may answer without \<^verbatim>\<open>c.json\<close>: such a response is given only
  when no call threw, and \<open>Raw\<close> holds of it.
\<close>

definition errorsCaughtR ::
  "exn set \<Rightarrow> (raw_response \<Rightarrow> bool) \<Rightarrow> 's world \<Rightarrow> reply \<times> 's world \<Rightarrow> bool" where
  "errorsCaughtR R Raw w r =
     (extends w r \<and>
      (case fst r of
         JsonReply resp \<Rightarrow> caught R (newCalls w r) resp
       | RawReply raw \<Rightarrow> thrownErrors (newCalls w r) = [] \<and> Raw raw))"

text \<open>The same with a bound on the number of calls.\<close>

definition handled :: "nat \<Rightarrow> exn set \<Rightarrow> 's world \<Rightarrow> response \<times> 's world \<Rightarrow> bool" where
  "handled n R w r = (errorsCaught R w r \<and> length (newCalls w r) \<le> n)"

definition handledR ::
  "nat \<Rightarrow> exn set \<Rightarrow> (raw_response \<Rightarrow> bool) \<Rightarrow> 's world \<Rightarrow> reply \<times> 's world \<Rightarrow> bool" where
  "handledR n R Raw w r = (errorsCaughtR R Raw w r \<and> length (newCalls w r) \<le> n)"

text \<open>
  What running a \<^verbatim>\<open>try\<close> block from the world \<open>w\<close> comes to: the log grows by at most
  \<open>n\<close> calls; if the block throws \<open>e\<close>, then \<open>e\<close> was thrown by one of the calls, or no
  call threw and \<open>e\<close> is in \<open>R\<close>; if it returns \<open>a\<close>, no call threw and \<open>Q a\<close> holds.
\<close>

definition ran ::
  "nat \<Rightarrow> exn set \<Rightarrow> ('a \<Rightarrow> bool) \<Rightarrow> 's world \<Rightarrow> (exn + 'a) \<times> 's world \<Rightarrow> bool" where
  "ran n R Q w r =
     (\<exists>new. snd (snd r) = snd w @ new \<and> length new \<le> n \<and>
        (case fst r of
           Inl e \<Rightarrow> e \<in> set (thrownErrors new) \<or> (thrownErrors new = [] \<and> e \<in> R)
         | Inr a \<Rightarrow> thrownErrors new = [] \<and> Q a))"

definition answeredR :: "(raw_response \<Rightarrow> bool) \<Rightarrow> reply \<Rightarrow> bool" where
  "answeredR Raw rep = (case rep of JsonReply resp \<Rightarrow> answered resp | RawReply raw \<Rightarrow> Raw raw)"

text \<open>
  The errors a request may raise in the \<^verbatim>\<open>try\<close> block of its handler other than by a call
  on the binding: the error thrown by reading the request body or by resolving the binding
  (\<open>thrownBy\<close> of that input), the handler's own errors, and the errors of the builtins.
\<close>

definition thrownBy :: "exn + 'a \<Rightarrow> exn set" where
  "thrownBy x = (case x of Inl e \<Rightarrow> {e} | Inr a \<Rightarrow> {})"

fun ownErrors :: "d1_request \<Rightarrow> exn set" where
  "ownErrors (PostQuery b) = thrownBy b"
| "ownErrors (InsertRow t b) = thrownBy b"
| "ownErrors (PutRow t r b) = thrownBy b \<union> {invalidRowIdentifier}"
| "ownErrors (PatchRow t r b) = thrownBy b \<union> {invalidRowIdentifier}"
| "ownErrors (DeleteRow t r) = {invalidRowIdentifier}"
| "ownErrors (BulkDelete t b) = thrownBy b \<union> {invalidRowIdentifier}"
| "ownErrors (BulkUpdate t b) = thrownBy b \<union> {invalidRowIdentifier}"
| "ownErrors req = {}"

fun kvOwnErrors :: "kv_request \<Rightarrow> exn set" where
  "kvOwnErrors (GetKey key typeQ) = {tooManyArguments}"
| "kvOwnErrors (PutKey key b) = thrownBy b"
| "kvOwnErrors (KvBulkDelete b) = thrownBy b"
| "kvOwnErrors req = {}"

definition headerErrors ::
  "((string \<times> string) list \<Rightarrow> string \<Rightarrow> string \<Rightarrow> exn + (string \<times> string) list) \<Rightarrow> exn set" where
  "headerErrors Headers_set = {e. \<exists>h n v. Headers_set h n v = Inl e}"

fun r2OwnErrors ::
  "((string \<times> string) list \<Rightarrow> string \<Rightarrow> string \<Rightarrow> exn + (string \<times> string) list)
     \<Rightarrow> r2_request \<Rightarrow> exn set" where
  "r2OwnErrors Headers_set (GetObject key) = headerErrors Headers_set"
| "r2OwnErrors Headers_set (R2BulkDelete b) = thrownBy b"
| "r2OwnErrors Headers_set req = {}"

fun queueOwnErrors :: "queue_request \<Rightarrow> exn set" where
  "queueOwnErrors (Send b) = thrownBy b"
| "queueOwnErrors (SendBatch b) = thrownBy b"
| "queueOwnErrors req = {}"

fun serverD1OwnErrors :: "server_d1_request \<Rightarrow> exn set" where
  "serverD1OwnErrors (ServerPostQuery b) = thrownBy b"
| "serverD1OwnErrors (ServerInsertRow t b) = thrownBy b"
| "serverD1OwnErrors (ServerPutRow t r b) = thrownBy b"
| "serverD1OwnErrors req = {}"

fun serverKvOwnErrors :: "server_kv_request \<Rightarrow> exn set" where
  "serverKvOwnErrors (ServerPutKey key b) = thrownBy b"
| "serverKvOwnErrors (ServerKvBulkDelete b) = thrownBy b"
| "serverKvOwnErrors req = {}"

fun serverR2OwnErrors ::
  "((string \<times> string) list \<Rightarrow> string \<Rightarrow> string \<Rightarrow> exn + (string \<times> string) list)
     \<Rightarrow> server_r2_request \<Rightarrow> exn set" where
  "serverR2OwnErrors Headers_set (ServerGetObject key) = headerErrors Headers_set"
| "serverR2OwnErrors Headers_set (ServerPutObject key contentTypeH reqArrayBuffer headers) =
     thrownBy reqArrayBuffer"
| "serverR2OwnErrors Headers_set (ServerR2BulkDelete b) = thrownBy b"
| "serverR2OwnErrors Headers_set req = {}"

fun doOwnErrors ::
  "(string \<Rightarrow> string \<Rightarrow> exn + string) \<Rightarrow> (do_request \<Rightarrow> exn + do_request)
     \<Rightarrow> do_route_request \<Rightarrow> exn set" where
  "doOwnErrors URL_new Request_new (CreateId b) = thrownBy b"
| "doOwnErrors URL_new Request_new (Fetch idStr reqPath reqMethod headers rawBody) =
     {e. \<exists>path base. URL_new path base = Inl e} \<union> {e. \<exists>init. Request_new init = Inl e}"
| "doOwnErrors URL_new Request_new req = {}"

text \<open>Whether a reply was made with \<^verbatim>\<open>c.json\<close> of an object.\<close>

fun isJson :: "reply \<Rightarrow> bool" where
  "isJson (JsonReply resp) = isObject (body resp)"
| "isJson (RawReply raw) = False"

text \<open>
  Bindings for examples. A Durable Object namespace whose objects answer every request with
  status 418; the state counts the requests. An R2 bucket that holds the one object
  \<^verbatim>\<open>a.txt\<close>.
\<close>

definition teapot :: raw_response where
  "teapot = \<lparr>raw_status = 418, raw_headers = [], raw_body = ''short and stout''\<rparr>"

definition exampleNamespace :: "nat do_namespace" where
  "exampleNamespace =
     \<lparr>do_idFromString = (\<lambda>i n. (Inr i, n)),
      do_idFromName = (\<lambda>name n. (Inr (''id-of-'' @ name), n)),
      do_newUniqueId = (\<lambda>n. (Inr ''unique'', n)),
      do_get = (\<lambda>i n. (Inr (), n)),
      do_fetch = (\<lambda>i request n. (Inr teapot, Suc n))\<rparr>"

definition exampleObject :: r2object where
  "exampleObject =
     \<lparr>ro_key = ''a.txt'', ro_size = 5, ro_etag = ''e1'', ro_httpEtag = [DQ] @ ''e1'' @ [DQ],
      ro_uploaded = ''2024-01-01T00:00:00.000Z'', ro_checksums = JObj [],
      ro_httpMetadata = JObj [(''contentType'', JStr ''text/plain'')],
      ro_customMetadata = JUndefined\<rparr>"

definition exampleBucket :: "unit r2bucket" where
  "exampleBucket =
     \<lparr>r2_list = (\<lambda>options u.
                   (Inr \<lparr>rl_objects = [exampleObject], rl_truncated = JBool False,
                         rl_cursor = JUndefined, rl_delimitedPrefixes = JArr []\<rparr>, u)),
      r2_head = (\<lambda>key u. (Inr (if key = ''a.txt'' then Some exampleObject else None), u)),
      r2_get = (\<lambda>key u.
                  (Inr (if key = ''a.txt'' then Some (exampleObject, ''hello'') else None), u)),
      r2_put = (\<lambda>key b options u. (Inr exampleObject, u)),
      r2_delete = (\<lambda>key u. (Inr (), u)),
      r2_deleteMany = (\<lambda>keys u. (Inr (), u))\<rparr>"

definition exampleHeadersSet ::
  "(string \<times> string) list \<Rightarrow> string \<Rightarrow> string \<Rightarrow> exn + (string \<times> string) list" where
  "exampleHeadersSet headers name v = Inr (headers @ [(name, v)])"


text \<open>What the log records of a call's result.\<close>

definition outcomeOf :: "exn + 'a \<Rightarrow> exn option" where
  "outcomeOf r = (case r of Inl e \<Rightarrow> Some e | Inr a \<Rightarrow> None)"

text \<open>A database on which every call throws.\<close>

definition failingDb :: "unit d1database" where
  "failingDb =
     \<lparr>d1_all = (\<lambda>q u. (Inl (Exn ''Error'' ''D1_ERROR: no such table''), u)),
      d1_run = (\<lambda>q u. (Inl (Exn ''Error'' ''D1_ERROR: no such table''), u)),
      d1_first = (\<lambda>q u. (Inl (Exn ''Error'' ''D1_ERROR: no such table''), u)),
      d1_batch = (\<lambda>qs u. (Inl (Exn ''Error'' ''D1_ERROR: no such table''), u))\<rparr>"

section \<open>Properties of the SQL helpers\<close>

lemma pkCondition_fun: "pkCondition = (\<lambda>pk. escapeIdentifier pk @ '' = ?'')"
  by (rule ext) (simp add: pkCondition_def)

lemma replaceAll_concat:
  "replaceAll c r xs = concat (map (\<lambda>x. if x = c then r else [x]) xs)"
  by (induction xs) simp_all

lemma scan_quoted_replaceAll:
  "rest = [] \<or> hd rest \<noteq> DQ \<Longrightarrow>
   scan_quoted (replaceAll DQ [DQ, DQ] name @ DQ # rest) = Some (name, rest)"
proof (induction name)
  case Nil
  then show ?case by (cases rest) auto
next
  case (Cons a name)
  show ?case
  proof (cases "a = DQ")
    case True
    with Cons show ?thesis by simp
  next
    case False
    obtain d ds where "replaceAll DQ [DQ, DQ] name @ DQ # rest = d # ds"
      by (cases "replaceAll DQ [DQ, DQ] name @ DQ # rest") auto
    with False Cons show ?thesis by simp
  qed
qed

lemma quotes_doubled_replaceAll: "quotes_doubled (replaceAll DQ [DQ, DQ] name)"
proof (induction name)
  case Nil
  show ?case by simp
next
  case (Cons a name)
  show ?case
  proof (cases "a = DQ")
    case True
    with Cons show ?thesis by simp
  next
    case False
    with Cons show ?thesis by (cases "replaceAll DQ [DQ, DQ] name") auto
  qed
qed

text \<open>
  C4. For every name, \<open>escapeIdentifier name\<close> is a double quote, the name with each double
  quote replaced by two, and a closing double quote. In the text between the two outer
  quotes every double quote stands in a doubled pair, and reading the result as a quoted
  SQLite identifier consumes it whole and gives back the name: no name closes the
  identifier early.
\<close>

theorem escapeIdentifier_quotes:
  "escapeIdentifier name
     = [DQ] @ concat (map (\<lambda>c. if c = DQ then [DQ, DQ] else [c]) name) @ [DQ]
   \<and> quotes_doubled (butlast (tl (escapeIdentifier name)))
   \<and> hd (escapeIdentifier name) = DQ
   \<and> scan_quoted (tl (escapeIdentifier name)) = Some (name, [])"
proof -
  have "scan_quoted (replaceAll DQ [DQ, DQ] name @ DQ # []) = Some (name, [])"
    by (rule scan_quoted_replaceAll) simp
  moreover have "butlast (replaceAll DQ [DQ, DQ] name @ [DQ]) = replaceAll DQ [DQ, DQ] name"
    by simp
  ultimately show ?thesis
    by (simp add: escapeIdentifier_def replaceAll_concat [symmetric] quotes_doubled_replaceAll
        del: butlast_append)
qed

text \<open>
  C1. (a) For a non-empty list of primary keys and a row identifier that is an object, the
  clause is the \<^verbatim>\<open>' AND '\<close>-join of one equality \<^verbatim>\<open>"<escaped pk>" = ?\<close> per key, in list
  order, and the values are the object's values for the keys (\<^verbatim>\<open>rowId[pk]\<close>: the own
  property where the object has one), in the same order. (b) For a
  single primary key and a string identifier that does not start with \<^verbatim>\<open>[\<close>, the clause is
  that one equality and the values are the identifier alone. (c) For two or more primary
  keys and a string identifier that does not start with \<^verbatim>\<open>[\<close> or does not parse as a JSON
  array, the function throws
  \<^verbatim>\<open>Error('Invalid row identifier for composite primary key')\<close>.
\<close>

theorem buildPrimaryKeyWhere_cases:
  "(primaryKeys \<noteq> [] \<longrightarrow>
      buildPrimaryKeyWhere JSON_parse primaryKeys (RowObj obj)
        = Inr \<lparr>clause = join '' AND '' (map (\<lambda>pk. escapeIdentifier pk @ '' = ?'') primaryKeys),
               values_list = map (\<lambda>pk. getProp obj pk) primaryKeys\<rparr>
      \<and> (\<forall>r. buildPrimaryKeyWhere JSON_parse primaryKeys (RowObj obj) = Inr r \<longrightarrow>
            length (values_list r) = length primaryKeys
            \<and> (\<forall>i < length primaryKeys. values_list r ! i = getProp obj (primaryKeys ! i))
            \<and> (\<forall>i < length primaryKeys. \<forall>v. map_of obj (primaryKeys ! i) = Some v \<longrightarrow>
                  values_list r ! i = v)))
   \<and> (\<not> startsWith s ''['' \<longrightarrow>
      buildPrimaryKeyWhere JSON_parse [pk] (RowStr s)
        = Inr \<lparr>clause = escapeIdentifier pk @ '' = ?'', values_list = [JStr s]\<rparr>)
   \<and> (2 \<le> length primaryKeys \<and> (\<not> startsWith t ''['' \<or> JSON_parse t = None) \<longrightarrow>
      buildPrimaryKeyWhere JSON_parse primaryKeys (RowStr t)
        = Inl (Exn ''Error'' ''Invalid row identifier for composite primary key''))"
proof (intro conjI impI)
  assume "primaryKeys \<noteq> []"
  show "buildPrimaryKeyWhere JSON_parse primaryKeys (RowObj obj)
        = Inr \<lparr>clause = join '' AND '' (map (\<lambda>pk. escapeIdentifier pk @ '' = ?'') primaryKeys),
               values_list = map (\<lambda>pk. getProp obj pk) primaryKeys\<rparr>"
    by (simp add: buildPrimaryKeyWhere_def pkCondition_fun)
  show "\<forall>r. buildPrimaryKeyWhere JSON_parse primaryKeys (RowObj obj) = Inr r \<longrightarrow>
            length (values_list r) = length primaryKeys
            \<and> (\<forall>i < length primaryKeys. values_list r ! i = getProp obj (primaryKeys ! i))
            \<and> (\<forall>i < length primaryKeys. \<forall>v. map_of obj (primaryKeys ! i) = Some v \<longrightarrow>
                  values_list r ! i = v)"
    by (auto simp add: buildPrimaryKeyWhere_def getProp_def)
next
  assume "\<not> startsWith s ''[''"
  then show "buildPrimaryKeyWhere JSON_parse [pk] (RowStr s)
        = Inr \<lparr>clause = escapeIdentifier pk @ '' = ?'', values_list = [JStr s]\<rparr>"
    by (simp add: buildPrimaryKeyWhere_def pkCondition_def)
next
  assume a: "2 \<le> length primaryKeys \<and> (\<not> startsWith t ''['' \<or> JSON_parse t = None)"
  then obtain p q ps where "primaryKeys = p # q # ps"
    by (cases primaryKeys; cases "tl primaryKeys") auto
  with a show "buildPrimaryKeyWhere JSON_parse primaryKeys (RowStr t)
        = Inl (Exn ''Error'' ''Invalid row identifier for composite primary key'')"
    by (auto simp add: buildPrimaryKeyWhere_def)
qed

theorem buildPrimaryKeyWhere_cases_witness:
  "buildPrimaryKeyWhere (\<lambda>_. None) [''a'', ''b''] (RowObj [(''b'', JNum 2), (''a'', JNum 1)])
     = Inr \<lparr>clause = [DQ] @ ''a'' @ [DQ] @ '' = ? AND '' @ [DQ] @ ''b'' @ [DQ] @ '' = ?'',
            values_list = [JNum 1, JNum 2]\<rparr>
   \<and> buildPrimaryKeyWhere (\<lambda>_. None) [''id''] (RowStr ''42'')
     = Inr \<lparr>clause = [DQ] @ ''id'' @ [DQ] @ '' = ?'', values_list = [JStr ''42'']\<rparr>
   \<and> buildPrimaryKeyWhere (\<lambda>_. None) [''a'', ''b''] (RowStr ''[1,'')
     = Inl (Exn ''Error'' ''Invalid row identifier for composite primary key'')
   \<and> buildPrimaryKeyWhere (\<lambda>_. None) [''constructor''] (RowObj [])
     = Inr \<lparr>clause = [DQ] @ ''constructor'' @ [DQ] @ '' = ?'',
            values_list = [JBuiltin ''constructor'']\<rparr>"
  using buildPrimaryKeyWhere_cases [where primaryKeys = "[''a'', ''b'']" and JSON_parse = "\<lambda>_. None"
      and obj = "[(''b'', JNum 2), (''a'', JNum 1)]" and s = "''42''" and pk = "''id''"
      and t = "''[1,''"]
    buildPrimaryKeyWhere_cases [where primaryKeys = "[''constructor'']" and JSON_parse = "\<lambda>_. None"
      and obj = "[]" and s = "''42''" and pk = "''id''" and t = "''[1,''"]
  by (simp add: startsWith_def escapeIdentifier_def getProp_def objectPrototypeMembers_def)

section \<open>Properties of the row editor's default-value parser\<close>

lemma length_letters: "length lowerLetters = length upperLetters"
  by (simp add: lowerLetters_def upperLetters_def)

lemma upper_not_whitespace: "\<forall>d \<in> set upperLetters. \<not> isWhiteSpace d"
  by (simp add: upperLetters_def isWhiteSpace_def)

lemma whitespace_not_lower: "isWhiteSpace c \<Longrightarrow> c \<notin> set lowerLetters"
  by (auto simp: lowerLetters_def isWhiteSpace_def)

lemma upperChar_whitespace: "isWhiteSpace c \<Longrightarrow> upperChar c = c"
  using map_of_zip_is_None [OF length_letters, of c]
  by (simp add: upperChar_def whitespace_not_lower)

lemma upperChar_not_whitespace: "upperChar c \<noteq> c \<Longrightarrow> \<not> isWhiteSpace (upperChar c)"
proof -
  assume "upperChar c \<noteq> c"
  then obtain u where u: "map_of (zip lowerLetters upperLetters) c = Some u" and "upperChar c = u"
    by (auto simp: upperChar_def split: option.splits)
  from u have "u \<in> set upperLetters"
    by (meson in_set_zipE map_of_SomeD)
  with \<open>upperChar c = u\<close> show ?thesis using upper_not_whitespace by simp
qed

lemma isWhiteSpace_upperChar: "isWhiteSpace (upperChar c) = isWhiteSpace c"
proof (cases "isWhiteSpace c")
  case True
  then show ?thesis by (simp add: upperChar_whitespace)
next
  case False
  then show ?thesis using upperChar_not_whitespace [of c] by metis
qed

lemma upperChar_quote: "upperChar (CHR 0x27) = CHR 0x27" "upperChar DQ = DQ"
  by (simp_all add: upperChar_def lowerLetters_def upperLetters_def)

lemma trim_toUpperCase: "trim (toUpperCase s) = toUpperCase (trim s)"
proof -
  have c: "isWhiteSpace \<circ> upperChar = isWhiteSpace"
    by (rule ext) (simp add: isWhiteSpace_upperChar)
  show ?thesis
    by (simp add: trim_def toUpperCase_def dropWhile_map rev_map c)
qed

lemma slice_inner: "slice s 1 (- 1) = butlast (tl s)"
proof (cases s)
  case Nil
  then show ?thesis by (simp add: slice_def)
next
  case (Cons a t)
  have "nat (int (length t) - 1) = length t - 1" by simp
  with Cons show ?thesis
    by (simp add: slice_def Let_def butlast_conv_take max_def min_def)
qed

lemma startsWith_Cons_Cons: "startsWith (a # t) (c # p) = (a = c \<and> startsWith t p)"
  by (auto simp: startsWith_def)

lemma startsWith_Nil_Cons: "startsWith [] (c # p) = False"
  by (simp add: startsWith_def)

lemma quoted_not_expr:
  assumes "startsWith s [q]" "q = CHR 0x27 \<or> q = DQ"
  shows "\<not> list_ex (\<lambda>expr. startsWith (toUpperCase s) expr) sqlExpressionDefaults"
proof -
  from assms(1) obtain t where s: "s = q # t"
    by (cases s) (simp_all add: startsWith_Nil_Cons startsWith_Cons_Cons)
  note u = upperChar_quote
  from assms(2) show ?thesis
  proof
    assume "q = CHR 0x27"
    with s u show ?thesis
      by (simp add: toUpperCase_def sqlExpressionDefaults_def startsWith_Cons_Cons)
  next
    assume "q = DQ"
    with s u show ?thesis
      by (simp add: toUpperCase_def sqlExpressionDefaults_def startsWith_Cons_Cons)
  qed
qed

lemma null_not_expr:
  assumes "toUpperCase s = ''NULL''"
  shows "\<not> list_ex (\<lambda>expr. startsWith (toUpperCase s) expr) sqlExpressionDefaults"
    and "\<not> startsWith s [CHR 0x27]" and "\<not> startsWith s [DQ]"
proof -
  show "\<not> list_ex (\<lambda>expr. startsWith (toUpperCase s) expr) sqlExpressionDefaults"
    by (simp add: assms sqlExpressionDefaults_def startsWith_Cons_Cons)
  from assms obtain c t where s: "s = c # t" and u: "upperChar c = CHR ''N''"
    by (cases s) (simp_all add: toUpperCase_def)
  have "upperChar (CHR 0x27) \<noteq> CHR ''N''" "upperChar DQ \<noteq> CHR ''N''"
    by (simp_all add: upperChar_quote)
  with u have "c \<noteq> CHR 0x27" "c \<noteq> DQ" by auto
  with s show "\<not> startsWith s [CHR 0x27]" and "\<not> startsWith s [DQ]"
    by (simp_all add: startsWith_Cons_Cons)
qed

lemma parseDefaultValue_cases_value:
  assumes "defaultValue \<noteq> JNull" and "defaultValue \<noteq> JUndefined"
  shows
  "((\<exists>expr \<in> set [''CURRENT_TIMESTAMP'', ''CURRENT_DATE'', ''CURRENT_TIME'', ''DATETIME'',
                    ''DATE'', ''TIME'', ''STRFTIME'', ''(''].
        startsWith (toUpperCase (trim (String_js numberToString defaultValue))) expr) \<longrightarrow>
      parseDefaultValue numberToString parseInt parseFloat defaultValue columnType = JNull)
   \<and> ((startsWith (trim (String_js numberToString defaultValue)) [CHR 0x27] \<and>
        endsWith (trim (String_js numberToString defaultValue)) [CHR 0x27]) \<or>
       (startsWith (trim (String_js numberToString defaultValue)) [DQ] \<and>
        endsWith (trim (String_js numberToString defaultValue)) [DQ]) \<longrightarrow>
      parseDefaultValue numberToString parseInt parseFloat defaultValue columnType
        = JStr (butlast (tl (trim (String_js numberToString defaultValue)))))
   \<and> (toUpperCase (trim (String_js numberToString defaultValue)) = ''NULL'' \<longrightarrow>
      parseDefaultValue numberToString parseInt parseFloat defaultValue columnType = JNull)
   \<and> (includes_str (toUpperCase columnType) ''INT''
      \<and> \<not> (\<exists>expr \<in> set [''CURRENT_TIMESTAMP'', ''CURRENT_DATE'', ''CURRENT_TIME'', ''DATETIME'',
                    ''DATE'', ''TIME'', ''STRFTIME'', ''(''].
        startsWith (toUpperCase (trim (String_js numberToString defaultValue))) expr)
      \<and> \<not> ((startsWith (trim (String_js numberToString defaultValue)) [CHR 0x27] \<and>
        endsWith (trim (String_js numberToString defaultValue)) [CHR 0x27]) \<or>
       (startsWith (trim (String_js numberToString defaultValue)) [DQ] \<and>
        endsWith (trim (String_js numberToString defaultValue)) [DQ]))
      \<and> toUpperCase (trim (String_js numberToString defaultValue)) \<noteq> ''NULL'' \<longrightarrow>
      parseDefaultValue numberToString parseInt parseFloat defaultValue columnType
        = (case parseInt (trim (String_js numberToString defaultValue)) of
             Some num \<Rightarrow> num
           | None \<Rightarrow> JStr (trim (String_js numberToString defaultValue))))"
proof -
  define s where "s = trim (String_js numberToString defaultValue)"
  have ise: "isSqlExpression numberToString defaultValue
      = list_ex (\<lambda>expr. startsWith (toUpperCase s) expr) sqlExpressionDefaults"
    using assms by (simp add: isSqlExpression_def s_def trim_toUpperCase)
  have ex: "(\<exists>expr \<in> set [''CURRENT_TIMESTAMP'', ''CURRENT_DATE'', ''CURRENT_TIME'', ''DATETIME'',
                    ''DATE'', ''TIME'', ''STRFTIME'', ''(''].
        startsWith (toUpperCase s) expr) = isSqlExpression numberToString defaultValue"
    unfolding ise sqlExpressionDefaults_def list_ex_iff ..
  have p1: "isSqlExpression numberToString defaultValue \<Longrightarrow> parseDefaultValue numberToString parseInt parseFloat defaultValue columnType = JNull"
    using assms by (simp add: parseDefaultValue_def)
  have p2: "parseDefaultValue numberToString parseInt parseFloat defaultValue columnType = JStr (butlast (tl s))"
    if "(startsWith s [CHR 0x27] \<and> endsWith s [CHR 0x27]) \<or> (startsWith s [DQ] \<and> endsWith s [DQ])"
  proof -
    from that have "\<not> isSqlExpression numberToString defaultValue"
      unfolding ise using quoted_not_expr by blast
    with that assms show ?thesis
      by (simp add: parseDefaultValue_def s_def [symmetric] slice_inner)
  qed
  have p3: "parseDefaultValue numberToString parseInt parseFloat defaultValue columnType = JNull"
    if "toUpperCase s = ''NULL''"
  proof -
    from that have "\<not> isSqlExpression numberToString defaultValue"
      unfolding ise by (rule null_not_expr)
    moreover from that have "\<not> startsWith s [CHR 0x27]" "\<not> startsWith s [DQ]"
      by (rule null_not_expr)+
    ultimately show ?thesis using that assms
      by (simp add: parseDefaultValue_def s_def [symmetric])
  qed
  have p4: "parseDefaultValue numberToString parseInt parseFloat defaultValue columnType
        = (case parseInt s of Some num \<Rightarrow> num | None \<Rightarrow> JStr s)"
    if "includes_str (toUpperCase columnType) ''INT''" "\<not> isSqlExpression numberToString defaultValue"
       "\<not> ((startsWith s [CHR 0x27] \<and> endsWith s [CHR 0x27]) \<or> (startsWith s [DQ] \<and> endsWith s [DQ]))"
       "toUpperCase s \<noteq> ''NULL''"
    using that assms
    by (auto simp add: parseDefaultValue_def s_def [symmetric] Let_def)
  show ?thesis
    unfolding s_def [symmetric] ex
  proof (intro conjI impI)
    assume "isSqlExpression numberToString defaultValue"
    then show "parseDefaultValue numberToString parseInt parseFloat defaultValue columnType = JNull" by (rule p1)
  next
    assume "(startsWith s [CHR 0x27] \<and> endsWith s [CHR 0x27]) \<or> (startsWith s [DQ] \<and> endsWith s [DQ])"
    then show "parseDefaultValue numberToString parseInt parseFloat defaultValue columnType = JStr (butlast (tl s))" by (rule p2)
  next
    assume "toUpperCase s = ''NULL''"
    then show "parseDefaultValue numberToString parseInt parseFloat defaultValue columnType = JNull" by (rule p3)
  next
    assume "includes_str (toUpperCase columnType) ''INT'' \<and> \<not> isSqlExpression numberToString defaultValue \<and>
       \<not> ((startsWith s [CHR 0x27] \<and> endsWith s [CHR 0x27]) \<or> (startsWith s [DQ] \<and> endsWith s [DQ])) \<and>
       toUpperCase s \<noteq> ''NULL''"
    then show "parseDefaultValue numberToString parseInt parseFloat defaultValue columnType
        = (case parseInt s of Some num \<Rightarrow> num | None \<Rightarrow> JStr s)"
      using p4 by blast
  qed
qed


text \<open>
  C6. For a column default other than \<^verbatim>\<open>undefined\<close> (a value the JSON of the API
  cannot carry), with \<open>s\<close> the trimmed form of \<^verbatim>\<open>String(default)\<close>: if \<open>s\<close>, upper-cased, starts with \<^verbatim>\<open>CURRENT_TIMESTAMP\<close>,
  \<^verbatim>\<open>CURRENT_DATE\<close>, \<^verbatim>\<open>CURRENT_TIME\<close>, \<^verbatim>\<open>DATETIME\<close>, \<^verbatim>\<open>DATE\<close>, \<^verbatim>\<open>TIME\<close>,
  \<^verbatim>\<open>STRFTIME\<close> or an opening parenthesis, \<open>parseDefaultValue\<close> returns \<^verbatim>\<open>null\<close>; if \<open>s\<close>
  starts and ends with a single quote, or starts and ends with a double quote, it returns
  the text between the first and the last character; if \<open>s\<close> is \<^verbatim>\<open>NULL\<close> in any case it
  returns \<^verbatim>\<open>null\<close>; and for a column whose upper-cased type contains \<^verbatim>\<open>INT\<close>, a value in
  none of these cases is returned as \<^verbatim>\<open>parseInt(s, 10)\<close> when that is a number and as the
  string \<open>s\<close> otherwise.
\<close>

theorem parseDefaultValue_cases:
  assumes "defaultValue \<noteq> JUndefined"
  shows
  "((\<exists>expr \<in> set [''CURRENT_TIMESTAMP'', ''CURRENT_DATE'', ''CURRENT_TIME'', ''DATETIME'',
                    ''DATE'', ''TIME'', ''STRFTIME'', ''(''].
        startsWith (toUpperCase (trim (String_js numberToString defaultValue))) expr) \<longrightarrow>
      parseDefaultValue numberToString parseInt parseFloat defaultValue columnType = JNull)
   \<and> ((startsWith (trim (String_js numberToString defaultValue)) [CHR 0x27] \<and>
        endsWith (trim (String_js numberToString defaultValue)) [CHR 0x27]) \<or>
       (startsWith (trim (String_js numberToString defaultValue)) [DQ] \<and>
        endsWith (trim (String_js numberToString defaultValue)) [DQ]) \<longrightarrow>
      parseDefaultValue numberToString parseInt parseFloat defaultValue columnType
        = JStr (butlast (tl (trim (String_js numberToString defaultValue)))))
   \<and> (toUpperCase (trim (String_js numberToString defaultValue)) = ''NULL'' \<longrightarrow>
      parseDefaultValue numberToString parseInt parseFloat defaultValue columnType = JNull)
   \<and> (includes_str (toUpperCase columnType) ''INT''
      \<and> \<not> (\<exists>expr \<in> set [''CURRENT_TIMESTAMP'', ''CURRENT_DATE'', ''CURRENT_TIME'', ''DATETIME'',
                    ''DATE'', ''TIME'', ''STRFTIME'', ''(''].
        startsWith (toUpperCase (trim (String_js numberToString defaultValue))) expr)
      \<and> \<not> ((startsWith (trim (String_js numberToString defaultValue)) [CHR 0x27] \<and>
        endsWith (trim (String_js numberToString defaultValue)) [CHR 0x27]) \<or>
       (startsWith (trim (String_js numberToString defaultValue)) [DQ] \<and>
        endsWith (trim (String_js numberToString defaultValue)) [DQ]))
      \<and> toUpperCase (trim (String_js numberToString defaultValue)) \<noteq> ''NULL'' \<longrightarrow>
      parseDefaultValue numberToString parseInt parseFloat defaultValue columnType
        = (case parseInt (trim (String_js numberToString defaultValue)) of
             Some num \<Rightarrow> num
           | None \<Rightarrow> JStr (trim (String_js numberToString defaultValue))))"
proof (cases "defaultValue = JNull")
  case True
  have s: "trim (String_js numberToString JNull) = ''null''"
    by (simp add: trim_def isWhiteSpace_def)
  have u: "toUpperCase ''null'' = ''NULL''" by code_simp
  have r: "parseDefaultValue numberToString parseInt parseFloat JNull columnType = JNull"
    by (simp add: parseDefaultValue_def)
  show ?thesis
    unfolding True s u r by (simp add: startsWith_Cons_Cons)
next
  case False
  then show ?thesis using assms by (rule parseDefaultValue_cases_value)
qed

theorem parseDefaultValue_cases_witness:
  "parseDefaultValue exampleNumberToString exampleParseInt (\<lambda>_. None)
       (JStr '' current_timestamp'') ''TEXT'' = JNull
   \<and> parseDefaultValue exampleNumberToString exampleParseInt (\<lambda>_. None)
       (JStr ([CHR 0x27] @ ''user'' @ [CHR 0x27])) ''TEXT'' = JStr ''user''
   \<and> parseDefaultValue exampleNumberToString exampleParseInt (\<lambda>_. None)
       (JStr ''null'') ''TEXT'' = JNull
   \<and> parseDefaultValue exampleNumberToString exampleParseInt (\<lambda>_. None)
       (JStr ''42'') ''integer'' = JNum 42
   \<and> parseDefaultValue exampleNumberToString exampleParseInt (\<lambda>_. None)
       (JStr ''abc'') ''BIGINT'' = JStr ''abc''
   \<and> parseDefaultValue exampleNumberToString exampleParseInt (\<lambda>_. None)
       (JNum 7) ''INTEGER'' = JNum 7"
proof -
  let ?S = "String_js exampleNumberToString"
  have ne: "JStr x \<noteq> JUndefined" "JNum n \<noteq> JUndefined" for x n by simp_all
  have h1: "\<exists>expr \<in> set [''CURRENT_TIMESTAMP'', ''CURRENT_DATE'', ''CURRENT_TIME'', ''DATETIME'',
                    ''DATE'', ''TIME'', ''STRFTIME'', ''(''].
        startsWith (toUpperCase (trim (?S (JStr '' current_timestamp'')))) expr"
    by code_simp
  have h2: "startsWith (trim (?S (JStr ([CHR 0x27] @ ''user'' @ [CHR 0x27])))) [CHR 0x27] \<and>
        endsWith (trim (?S (JStr ([CHR 0x27] @ ''user'' @ [CHR 0x27])))) [CHR 0x27]"
    by code_simp
  have v2: "butlast (tl (trim (?S (JStr ([CHR 0x27] @ ''user'' @ [CHR 0x27]))))) = ''user''"
    by code_simp
  have h3: "toUpperCase (trim (?S (JStr ''null''))) = ''NULL''"
    by code_simp
  have h4: "includes_str (toUpperCase ''integer'') ''INT''
      \<and> \<not> (\<exists>expr \<in> set [''CURRENT_TIMESTAMP'', ''CURRENT_DATE'', ''CURRENT_TIME'', ''DATETIME'',
                    ''DATE'', ''TIME'', ''STRFTIME'', ''(''].
        startsWith (toUpperCase (trim (?S (JStr ''42'')))) expr)
      \<and> \<not> ((startsWith (trim (?S (JStr ''42''))) [CHR 0x27] \<and>
        endsWith (trim (?S (JStr ''42''))) [CHR 0x27]) \<or>
       (startsWith (trim (?S (JStr ''42''))) [DQ] \<and>
        endsWith (trim (?S (JStr ''42''))) [DQ]))
      \<and> toUpperCase (trim (?S (JStr ''42''))) \<noteq> ''NULL''"
    by code_simp
  have v4: "(case exampleParseInt (trim (?S (JStr ''42''))) of
             Some num \<Rightarrow> num
           | None \<Rightarrow> JStr (trim (?S (JStr ''42'')))) = JNum 42"
    by code_simp
  have h5: "includes_str (toUpperCase ''BIGINT'') ''INT''
      \<and> \<not> (\<exists>expr \<in> set [''CURRENT_TIMESTAMP'', ''CURRENT_DATE'', ''CURRENT_TIME'', ''DATETIME'',
                    ''DATE'', ''TIME'', ''STRFTIME'', ''(''].
        startsWith (toUpperCase (trim (?S (JStr ''abc'')))) expr)
      \<and> \<not> ((startsWith (trim (?S (JStr ''abc''))) [CHR 0x27] \<and>
        endsWith (trim (?S (JStr ''abc''))) [CHR 0x27]) \<or>
       (startsWith (trim (?S (JStr ''abc''))) [DQ] \<and>
        endsWith (trim (?S (JStr ''abc''))) [DQ]))
      \<and> toUpperCase (trim (?S (JStr ''abc''))) \<noteq> ''NULL''"
    by code_simp
  have v5: "(case exampleParseInt (trim (?S (JStr ''abc''))) of
             Some num \<Rightarrow> num
           | None \<Rightarrow> JStr (trim (?S (JStr ''abc'')))) = JStr ''abc''"
    by code_simp
  have h6: "includes_str (toUpperCase ''INTEGER'') ''INT''
      \<and> \<not> (\<exists>expr \<in> set [''CURRENT_TIMESTAMP'', ''CURRENT_DATE'', ''CURRENT_TIME'', ''DATETIME'',
                    ''DATE'', ''TIME'', ''STRFTIME'', ''(''].
        startsWith (toUpperCase (trim (?S (JNum 7)))) expr)
      \<and> \<not> ((startsWith (trim (?S (JNum 7))) [CHR 0x27] \<and>
        endsWith (trim (?S (JNum 7))) [CHR 0x27]) \<or>
       (startsWith (trim (?S (JNum 7))) [DQ] \<and>
        endsWith (trim (?S (JNum 7))) [DQ]))
      \<and> toUpperCase (trim (?S (JNum 7))) \<noteq> ''NULL''"
    by code_simp
  have v6: "(case exampleParseInt (trim (?S (JNum 7))) of
             Some num \<Rightarrow> num
           | None \<Rightarrow> JStr (trim (?S (JNum 7)))) = JNum 7"
    by code_simp
  note t = parseDefaultValue_cases [where numberToString = exampleNumberToString
      and parseInt = exampleParseInt and parseFloat = "\<lambda>_. None"]
  from t [OF ne(1), THEN conjunct1, THEN mp, OF h1]
       t [OF ne(1), THEN conjunct2, THEN conjunct1, THEN mp, OF disjI1, OF h2]
       t [OF ne(1), THEN conjunct2, THEN conjunct2, THEN conjunct1, THEN mp, OF h3]
       t [OF ne(1), THEN conjunct2, THEN conjunct2, THEN conjunct2, THEN mp, OF h4]
       t [OF ne(1), THEN conjunct2, THEN conjunct2, THEN conjunct2, THEN mp, OF h5]
       t [OF ne(2), THEN conjunct2, THEN conjunct2, THEN conjunct2, THEN mp, OF h6]
  show ?thesis
    unfolding v2 v4 v5 v6 by blast
qed


section \<open>Properties of the command-line interface\<close>

lemma cli_command_names: "map commandName cli_commands = [[]]"
  by (simp add: cli_commands_def commandName_def removeBrackets_def trim_def)

lemma cli_command_flags:
  "concat (map commandFlags cli_commands)
     = [''p'', ''port'', ''d'', ''dashboard-port'', ''persist'', ''v'', ''verbose'']"
  by (simp add: cli_commands_def commandFlags_def flagNames_def removeBrackets_def trim_def
      isWhiteSpace_def stripDashes_def startsWith_def)

text \<open>
  C10, as stated, fails: no command of the CLI is named \<^verbatim>\<open>start\<close>, and no command has a
  flag named \<^verbatim>\<open>config\<close>.
\<close>

theorem cli_start_command_counterexample:
  "''start'' \<notin> set (map commandName cli_commands)
   \<and> ''config'' \<notin> set (concat (map commandFlags cli_commands))"
  by (simp add: cli_command_names cli_command_flags)

text \<open>
  C10, amended. The CLI declares one command, the default command with the optional
  positional argument \<^verbatim>\<open>[configPath]\<close> (described as starting the development server); its
  flags include a port flag and a persistence flag; the configuration file is that positional
  argument, \<^verbatim>\<open>./wrangler.toml\<close> when it is left out.
\<close>

theorem cli_default_command_flags:
  "map cmd_rawName cli_commands = [''[configPath]'']
   \<and> map commandName cli_commands = [[]]
   \<and> map cmd_description cli_commands = [''Start LocalFlare development server'']
   \<and> ''port'' \<in> set (concat (map commandFlags cli_commands))
   \<and> ''persist'' \<in> set (concat (map commandFlags cli_commands))
   \<and> ''config'' \<notin> set (concat (map commandFlags cli_commands))
   \<and> configOf None = ''./wrangler.toml''
   \<and> configOf (Some ''./custom/wrangler.toml'') = ''./custom/wrangler.toml''"
  by (simp add: cli_command_names cli_command_flags configOf_def) (simp add: cli_commands_def)

section \<open>Properties of the query route\<close>

lemma postQuery_read:
  assumes "sql \<noteq> []" "isReadQuery sql"
  shows "postQuery (Some db) (Inr \<lparr>qb_sql = Some sql, qb_params = ps\<rparr>) (s, l)
     = (case d1_all db \<lparr>stmt_sql = sql, stmt_params = (case ps of None \<Rightarrow> [] | Some p \<Rightarrow> p)\<rparr> s of
          (Inl e, s') \<Rightarrow>
            (json [(''error'', JStr (String_exn e)), (''success'', JBool False)] 500,
             (s', l @ [(D1All \<lparr>stmt_sql = sql, stmt_params = (case ps of None \<Rightarrow> [] | Some p \<Rightarrow> p)\<rparr>, Some e)]))
        | (Inr result, s') \<Rightarrow>
            (json [(''success'', JBool True),
                   (''results'', JArr (res_results result)),
                   (''rowCount'', JNum (int (length (res_results result)))),
                   (''meta'', JObj [(''changes'', JNum 0), (''duration'', durationOf result)])] 200,
             (s', l @ [(D1All \<lparr>stmt_sql = sql, stmt_params = (case ps of None \<Rightarrow> [] | Some p \<Rightarrow> p)\<rparr>, None)])))"
  using assms
  by (simp add: postQuery_def catch500s_def bindE_def call_all_def invoke_def Let_def
      split: prod.splits sum.splits)

lemma postQuery_write:
  assumes "sql \<noteq> []" "\<not> isReadQuery sql"
  shows "postQuery (Some db) (Inr \<lparr>qb_sql = Some sql, qb_params = ps\<rparr>) (s, l)
     = (case d1_run db \<lparr>stmt_sql = sql, stmt_params = (case ps of None \<Rightarrow> [] | Some p \<Rightarrow> p)\<rparr> s of
          (Inl e, s') \<Rightarrow>
            (json [(''error'', JStr (String_exn e)), (''success'', JBool False)] 500,
             (s', l @ [(D1Run \<lparr>stmt_sql = sql, stmt_params = (case ps of None \<Rightarrow> [] | Some p \<Rightarrow> p)\<rparr>, Some e)]))
        | (Inr result, s') \<Rightarrow>
            (json [(''success'', JBool True),
                   (''meta'', JObj [(''changes'', JNum (changesOf result)),
                                    (''last_row_id'', lastRowIdOf result),
                                    (''duration'', durationOf result)])] 200,
             (s', l @ [(D1Run \<lparr>stmt_sql = sql, stmt_params = (case ps of None \<Rightarrow> [] | Some p \<Rightarrow> p)\<rparr>, None)])))"
  using assms
  by (simp add: postQuery_def catch500s_def bindE_def call_run_def invoke_def Let_def
      split: prod.splits sum.splits)

lemma postQuery_empty:
  "postQuery (Some db) (Inr \<lparr>qb_sql = Some [], qb_params = ps\<rparr>) (s, l)
     = (json [(''error'', JStr ''SQL query is required'')] 400, (s, l))"
  by (simp add: postQuery_def catch500s_def bindE_def)

lemma isReadQuery_nonempty: "isReadQuery sql \<Longrightarrow> sql \<noteq> []"
  by (auto simp: isReadQuery_def trim_def toUpperCase_def startsWith_def)

lemma with_not_read: "startsWith (toUpperCase (trim sql)) ''WITH'' \<Longrightarrow> \<not> isReadQuery sql"
  by (cases "toUpperCase (trim sql)") (auto simp: isReadQuery_def startsWith_Cons_Cons startsWith_def)

text \<open>
  C7. For a request to \<^verbatim>\<open>POST /:binding/query\<close> of the API worker with a database bound and
  a body carrying the SQL text \<open>sql\<close> and the parameters \<open>ps\<close>, handled from the database
  state \<open>s\<close>: when the trimmed, upper-cased SQL starts with \<^verbatim>\<open>SELECT\<close>, \<^verbatim>\<open>PRAGMA\<close> or
  \<^verbatim>\<open>EXPLAIN\<close>, the handler executes the statement with \<^verbatim>\<open>all\<close>, once, and answers with the
  rows \<^verbatim>\<open>all\<close> returned (or with 500 and the error \<^verbatim>\<open>all\<close> threw); for any other non-empty
  SQL it executes the statement with \<^verbatim>\<open>run\<close>, once, and answers with the \<^verbatim>\<open>meta\<close> of the
  result alone (or with 500 and the error \<^verbatim>\<open>run\<close> threw), so the response has no
  \<^verbatim>\<open>results\<close>; in particular SQL that starts with \<^verbatim>\<open>WITH\<close> is executed with \<^verbatim>\<open>run\<close>. The
  database is left in the state the call left it in. Hence the call made is \<^verbatim>\<open>all\<close> if and
  only if the SQL has one of the three prefixes.
\<close>

theorem postQuery_read_mode:
  fixes db :: "'s d1database"
  defines "q \<equiv> \<lambda>sql ps. \<lparr>stmt_sql = sql, stmt_params = (case ps of None \<Rightarrow> [] | Some p \<Rightarrow> p)\<rparr>"
  defines "out \<equiv> \<lambda>sql ps s l. postQuery (Some db) (Inr \<lparr>qb_sql = Some sql, qb_params = ps\<rparr>) (s, l)"
  defines "prefixed \<equiv> \<lambda>sql. startsWith (toUpperCase (trim sql)) ''SELECT'' \<or>
                           startsWith (toUpperCase (trim sql)) ''PRAGMA'' \<or>
                           startsWith (toUpperCase (trim sql)) ''EXPLAIN''"
  defines "viaAll \<equiv> \<lambda>sql ps s l.
     (case d1_all db (q sql ps) s of
        (Inl e, s') \<Rightarrow>
          (json [(''error'', JStr (String_exn e)), (''success'', JBool False)] 500,
           (s', l @ [(D1All (q sql ps), Some e)]))
      | (Inr result, s') \<Rightarrow>
          (json [(''success'', JBool True),
                 (''results'', JArr (res_results result)),
                 (''rowCount'', JNum (int (length (res_results result)))),
                 (''meta'', JObj [(''changes'', JNum 0), (''duration'', durationOf result)])] 200,
           (s', l @ [(D1All (q sql ps), None)])))"
  defines "viaRun \<equiv> \<lambda>sql ps s l.
     (case d1_run db (q sql ps) s of
        (Inl e, s') \<Rightarrow>
          (json [(''error'', JStr (String_exn e)), (''success'', JBool False)] 500,
           (s', l @ [(D1Run (q sql ps), Some e)]))
      | (Inr result, s') \<Rightarrow>
          (json [(''success'', JBool True),
                 (''meta'', JObj [(''changes'', JNum (changesOf result)),
                                  (''last_row_id'', lastRowIdOf result),
                                  (''duration'', durationOf result)])] 200,
           (s', l @ [(D1Run (q sql ps), None)])))"
  shows
  "(prefixed sql \<longrightarrow> out sql ps s l = viaAll sql ps s l)
   \<and> (sql \<noteq> [] \<and> \<not> prefixed sql \<longrightarrow> out sql ps s l = viaRun sql ps s l)
   \<and> (startsWith (toUpperCase (trim sql)) ''WITH'' \<longrightarrow> out sql ps s l = viaRun sql ps s l)
   \<and> (sql = [] \<longrightarrow> out sql ps s l = (json [(''error'', JStr ''SQL query is required'')] 400, (s, l)))
   \<and> ((\<exists>outcome. snd (snd (out sql ps s l)) = l @ [(D1All (q sql ps), outcome)]) \<longleftrightarrow> prefixed sql)
   \<and> ((\<exists>outcome. snd (snd (out sql ps s l)) = l @ [(D1Run (q sql ps), outcome)])
        \<longleftrightarrow> sql \<noteq> [] \<and> \<not> prefixed sql)
   \<and> (sql \<noteq> [] \<and> \<not> prefixed sql \<longrightarrow>
        (\<forall>kvs. body (fst (out sql ps s l)) = JObj kvs \<longrightarrow> map_of kvs ''results'' = None))"
proof -
  have pre: "prefixed sql = isReadQuery sql"
    by (simp add: prefixed_def isReadQuery_def Let_def)
  have rd: "out sql ps s l = viaAll sql ps s l" if "isReadQuery sql"
    unfolding out_def q_def viaAll_def
    using isReadQuery_nonempty [OF that] that by (rule postQuery_read)
  have wr: "out sql ps s l = viaRun sql ps s l" if "sql \<noteq> []" "\<not> isReadQuery sql"
    unfolding out_def q_def viaRun_def
    using that by (rule postQuery_write)
  have em: "out sql ps s l = (json [(''error'', JStr ''SQL query is required'')] 400, (s, l))"
    if "sql = []"
    using that by (simp add: out_def postQuery_empty)
  have wi: "startsWith (toUpperCase (trim sql)) ''WITH'' \<Longrightarrow> sql \<noteq> [] \<and> \<not> isReadQuery sql"
    using with_not_read [of sql] by (auto simp: trim_def toUpperCase_def startsWith_def)
  have la: "\<exists>outcome. snd (snd (viaAll sql ps s l)) = l @ [(D1All (q sql ps), outcome)]"
    by (simp add: viaAll_def split: prod.splits sum.splits)
  have lr: "\<exists>outcome. snd (snd (viaRun sql ps s l)) = l @ [(D1Run (q sql ps), outcome)]"
    by (simp add: viaRun_def split: prod.splits sum.splits)
  have na: "\<not> (\<exists>outcome. snd (snd (viaRun sql ps s l)) = l @ [(D1All (q sql ps), outcome)])"
    by (simp add: viaRun_def split: prod.splits sum.splits)
  have nr: "\<not> (\<exists>outcome. snd (snd (viaAll sql ps s l)) = l @ [(D1Run (q sql ps), outcome)])"
    by (simp add: viaAll_def split: prod.splits sum.splits)
  have nores: "\<forall>kvs. body (fst (viaRun sql ps s l)) = JObj kvs \<longrightarrow> map_of kvs ''results'' = None"
    by (auto simp add: viaRun_def json_def split: prod.splits sum.splits)
  have c1: "prefixed sql \<longrightarrow> out sql ps s l = viaAll sql ps s l"
    unfolding pre using rd by blast
  have c2: "sql \<noteq> [] \<and> \<not> prefixed sql \<longrightarrow> out sql ps s l = viaRun sql ps s l"
    unfolding pre using wr by blast
  have c3: "startsWith (toUpperCase (trim sql)) ''WITH'' \<longrightarrow> out sql ps s l = viaRun sql ps s l"
    using wr wi by blast
  have c4: "sql = [] \<longrightarrow> out sql ps s l = (json [(''error'', JStr ''SQL query is required'')] 400, (s, l))"
    using em by blast
  have c5: "(\<exists>outcome. snd (snd (out sql ps s l)) = l @ [(D1All (q sql ps), outcome)]) \<longleftrightarrow> prefixed sql"
  proof (cases "isReadQuery sql")
    case True
    then show ?thesis unfolding pre using rd la by simp
  next
    case False
    show ?thesis
    proof (cases "sql = []")
      case True
      with False show ?thesis unfolding pre using em by simp
    next
      case ne: False
      with False show ?thesis unfolding pre using wr na by simp
    qed
  qed
  have c6: "(\<exists>outcome. snd (snd (out sql ps s l)) = l @ [(D1Run (q sql ps), outcome)])
        \<longleftrightarrow> sql \<noteq> [] \<and> \<not> prefixed sql"
  proof (cases "isReadQuery sql")
    case True
    then show ?thesis unfolding pre using rd nr by simp
  next
    case False
    show ?thesis
    proof (cases "sql = []")
      case True
      with False show ?thesis unfolding pre using em by simp
    next
      case ne: False
      with False show ?thesis unfolding pre using wr lr by simp
    qed
  qed
  have c7: "sql \<noteq> [] \<and> \<not> prefixed sql \<longrightarrow>
        (\<forall>kvs. body (fst (out sql ps s l)) = JObj kvs \<longrightarrow> map_of kvs ''results'' = None)"
    unfolding pre using wr nores by simp
  from c1 c2 c3 c4 c5 c6 c7 show ?thesis by blast
qed


theorem postQuery_read_mode_witness:
  "postQuery (Some (exampleDb [JObj [(''1'', JNum 1)]]))
       (Inr \<lparr>qb_sql = Some ''  select 1'', qb_params = None\<rparr>) (0, [])
     = (json [(''success'', JBool True),
              (''results'', JArr [JObj [(''1'', JNum 1)]]),
              (''rowCount'', JNum 1),
              (''meta'', JObj [(''changes'', JNum 0), (''duration'', JNum 2)])] 200,
        (1, [(D1All \<lparr>stmt_sql = ''  select 1'', stmt_params = []\<rparr>, None)]))
   \<and> postQuery (Some (exampleDb []))
       (Inr \<lparr>qb_sql = Some ''WITH t AS (SELECT 1) SELECT * FROM t'', qb_params = None\<rparr>) (0, [])
     = (json [(''success'', JBool True),
              (''meta'', JObj [(''changes'', JNum 1), (''last_row_id'', JNum 7),
                               (''duration'', JNum 2)])] 200,
        (1, [(D1Run \<lparr>stmt_sql = ''WITH t AS (SELECT 1) SELECT * FROM t'', stmt_params = []\<rparr>, None)]))
   \<and> postQuery (Some (exampleDb []))
       (Inr \<lparr>qb_sql = Some ''DELETE FROM t'', qb_params = Some [JNum 1]\<rparr>) (0, [])
     = (json [(''success'', JBool True),
              (''meta'', JObj [(''changes'', JNum 1), (''last_row_id'', JNum 7),
                               (''duration'', JNum 2)])] 200,
        (1, [(D1Run \<lparr>stmt_sql = ''DELETE FROM t'', stmt_params = [JNum 1]\<rparr>, None)]))
   \<and> postQuery (Some failingDb)
       (Inr \<lparr>qb_sql = Some ''DELETE FROM t'', qb_params = None\<rparr>) ((), [])
     = (json [(''error'', JStr ''Error: D1_ERROR: no such table''), (''success'', JBool False)] 500,
        ((), [(D1Run \<lparr>stmt_sql = ''DELETE FROM t'', stmt_params = []\<rparr>,
               Some (Exn ''Error'' ''D1_ERROR: no such table''))]))"
proof -
  have h1: "startsWith (toUpperCase (trim ''  select 1'')) ''SELECT'' \<or>
            startsWith (toUpperCase (trim ''  select 1'')) ''PRAGMA'' \<or>
            startsWith (toUpperCase (trim ''  select 1'')) ''EXPLAIN''"
    by code_simp
  have h2: "startsWith (toUpperCase (trim ''WITH t AS (SELECT 1) SELECT * FROM t'')) ''WITH''"
    by code_simp
  have h3: "''DELETE FROM t'' \<noteq> [] \<and>
            \<not> (startsWith (toUpperCase (trim ''DELETE FROM t'')) ''SELECT'' \<or>
               startsWith (toUpperCase (trim ''DELETE FROM t'')) ''PRAGMA'' \<or>
               startsWith (toUpperCase (trim ''DELETE FROM t'')) ''EXPLAIN'')"
    by code_simp
  note t1 = postQuery_read_mode [where sql = "''  select 1''" and db = "exampleDb [JObj [(''1'', JNum 1)]]"
      and ps = None and s = 0 and l = "[]",
      THEN conjunct1, THEN mp, OF h1]
  note t2 = postQuery_read_mode [where sql = "''WITH t AS (SELECT 1) SELECT * FROM t''" and db = "exampleDb []"
      and ps = None and s = 0 and l = "[]",
      THEN conjunct2, THEN conjunct2, THEN conjunct1, THEN mp, OF h2]
  note t3 = postQuery_read_mode [where sql = "''DELETE FROM t''" and db = "exampleDb []"
      and ps = "Some [JNum 1]" and s = 0 and l = "[]",
      THEN conjunct2, THEN conjunct1, THEN mp, OF h3]
  note t4 = postQuery_read_mode [where sql = "''DELETE FROM t''" and db = failingDb
      and ps = None and s = "()" and l = "[]",
      THEN conjunct2, THEN conjunct1, THEN mp, OF h3]
  from t1 t2 t3 t4 show ?thesis
    by (simp add: exampleDb_def failingDb_def exampleResult_def durationOf_def changesOf_def
        lastRowIdOf_def)
qed

section \<open>Properties of the KV key route\<close>

text \<open>
  \<^verbatim>\<open>GET /:binding/keys/:key\<close>, in the API worker (one \<^verbatim>\<open>getWithMetadata\<close> call in the type
  asked for) and in the dashboard server (\<^verbatim>\<open>getWithMetadata\<close>, then \<^verbatim>\<open>get\<close> in the type asked
  for): when the binding returns \<^verbatim>\<open>null\<close> for the value, the response is 404 with body
  \<^verbatim>\<open>{ error: 'Key not found' }\<close>; otherwise it is 200 with the key, the value (the bytes of an
  \<^verbatim>\<open>arrayBuffer\<close> in base 64) and the metadata stored with the key, as long as, in the API
  worker, a binary value has no more bytes than a call takes arguments.
\<close>

lemma kv_get_key_within_limit:
  "(typeOf typeQ = ''json'' \<and> kv_meta_json kv key s = (Inr (v, md), s') \<longrightarrow>
      kvGetKey maxArguments btoa (Some kv) key typeQ (s, l) =
        (if v = JNull then json [(''error'', JStr ''Key not found'')] 404
         else json [(''key'', JStr key), (''value'', v), (''metadata'', md)] 200,
         (s', l @ [(KVGetWithMetadata key ''json'', None)])))
   \<and> (typeOf typeQ = ''arrayBuffer'' \<and> kv_meta_arrayBuffer kv key s = (Inr (b, md), s') \<and>
      (\<forall>bytes. b = Some bytes \<longrightarrow> length bytes \<le> maxArguments) \<longrightarrow>
      kvGetKey maxArguments btoa (Some kv) key typeQ (s, l) =
        (case b of
           None \<Rightarrow> json [(''error'', JStr ''Key not found'')] 404
         | Some bytes \<Rightarrow>
             json [(''key'', JStr key), (''value'', JStr (btoa bytes)), (''metadata'', md)] 200,
         (s', l @ [(KVGetWithMetadata key ''arrayBuffer'', None)])))
   \<and> (typeOf typeQ \<noteq> ''json'' \<and> typeOf typeQ \<noteq> ''arrayBuffer'' \<and>
      kv_meta_text kv key s = (Inr (t, md), s') \<longrightarrow>
      kvGetKey maxArguments btoa (Some kv) key typeQ (s, l) =
        (case t of
           None \<Rightarrow> json [(''error'', JStr ''Key not found'')] 404
         | Some text \<Rightarrow> json [(''key'', JStr key), (''value'', JStr text), (''metadata'', md)] 200,
         (s', l @ [(KVGetWithMetadata key ''text'', None)])))
   \<and> (typeOf typeQ = ''json'' \<and> kv_meta_text kv key s = (Inr (t0, md), s1) \<and>
      kv_get_json kv key s1 = (Inr v, s2) \<longrightarrow>
      serverKvGetKey btoa (Inr kv) key typeQ (s, l) =
        (if v = JNull then json [(''error'', JStr ''Key not found'')] 404
         else json [(''key'', JStr key), (''value'', v), (''metadata'', md)] 200,
         (s2, l @ [(KVGetWithMetadata key ''text'', None), (KVGet key ''json'', None)])))
   \<and> (typeOf typeQ = ''arrayBuffer'' \<and> kv_meta_text kv key s = (Inr (t0, md), s1) \<and>
      kv_get_arrayBuffer kv key s1 = (Inr b, s2) \<longrightarrow>
      serverKvGetKey btoa (Inr kv) key typeQ (s, l) =
        (case b of
           None \<Rightarrow> json [(''error'', JStr ''Key not found'')] 404
         | Some bytes \<Rightarrow>
             json [(''key'', JStr key), (''value'', JStr (btoa bytes)), (''metadata'', md)] 200,
         (s2, l @ [(KVGetWithMetadata key ''text'', None), (KVGet key ''arrayBuffer'', None)])))
   \<and> (typeOf typeQ \<noteq> ''json'' \<and> typeOf typeQ \<noteq> ''arrayBuffer'' \<and>
      kv_meta_text kv key s = (Inr (t0, md), s1) \<and> kv_get_text kv key s1 = (Inr t, s2) \<longrightarrow>
      serverKvGetKey btoa (Inr kv) key typeQ (s, l) =
        (case t of
           None \<Rightarrow> json [(''error'', JStr ''Key not found'')] 404
         | Some text \<Rightarrow> json [(''key'', JStr key), (''value'', JStr text), (''metadata'', md)] 200,
         (s2, l @ [(KVGetWithMetadata key ''text'', None), (KVGet key ''text'', None)])))"
proof (intro conjI impI)
  assume "typeOf typeQ = ''json'' \<and> kv_meta_json kv key s = (Inr (v, md), s')"
  then show "kvGetKey maxArguments btoa (Some kv) key typeQ (s, l) =
        (if v = JNull then json [(''error'', JStr ''Key not found'')] 404
         else json [(''key'', JStr key), (''value'', v), (''metadata'', md)] 200,
         (s', l @ [(KVGetWithMetadata key ''json'', None)]))"
    by (simp add: kvGetKey_def catch500_def bindE_def invoke_def keyNotFound_def keyFound_def)
next
  assume "typeOf typeQ = ''arrayBuffer'' \<and> kv_meta_arrayBuffer kv key s = (Inr (b, md), s') \<and>
      (\<forall>bytes. b = Some bytes \<longrightarrow> length bytes \<le> maxArguments)"
  then show "kvGetKey maxArguments btoa (Some kv) key typeQ (s, l) =
        (case b of
           None \<Rightarrow> json [(''error'', JStr ''Key not found'')] 404
         | Some bytes \<Rightarrow>
             json [(''key'', JStr key), (''value'', JStr (btoa bytes)), (''metadata'', md)] 200,
         (s', l @ [(KVGetWithMetadata key ''arrayBuffer'', None)]))"
    by (auto simp add: kvGetKey_def catch500_def bindE_def invoke_def keyNotFound_def keyFound_def
        fromCharCodeSpread_def split: option.splits)
next
  assume "typeOf typeQ \<noteq> ''json'' \<and> typeOf typeQ \<noteq> ''arrayBuffer'' \<and>
      kv_meta_text kv key s = (Inr (t, md), s')"
  then show "kvGetKey maxArguments btoa (Some kv) key typeQ (s, l) =
        (case t of
           None \<Rightarrow> json [(''error'', JStr ''Key not found'')] 404
         | Some text \<Rightarrow> json [(''key'', JStr key), (''value'', JStr text), (''metadata'', md)] 200,
         (s', l @ [(KVGetWithMetadata key ''text'', None)]))"
    by (auto simp add: kvGetKey_def catch500_def bindE_def invoke_def keyNotFound_def keyFound_def
        fromCharCodeSpread_def split: option.splits)
next
  assume "typeOf typeQ = ''json'' \<and> kv_meta_text kv key s = (Inr (t0, md), s1) \<and>
      kv_get_json kv key s1 = (Inr v, s2)"
  then show "serverKvGetKey btoa (Inr kv) key typeQ (s, l) =
        (if v = JNull then json [(''error'', JStr ''Key not found'')] 404
         else json [(''key'', JStr key), (''value'', v), (''metadata'', md)] 200,
         (s2, l @ [(KVGetWithMetadata key ''text'', None), (KVGet key ''json'', None)]))"
    by (simp add: serverKvGetKey_def catch500_def bindE_def invoke_def keyNotFound_def keyFound_def)
next
  assume "typeOf typeQ = ''arrayBuffer'' \<and> kv_meta_text kv key s = (Inr (t0, md), s1) \<and>
      kv_get_arrayBuffer kv key s1 = (Inr b, s2)"
  then show "serverKvGetKey btoa (Inr kv) key typeQ (s, l) =
        (case b of
           None \<Rightarrow> json [(''error'', JStr ''Key not found'')] 404
         | Some bytes \<Rightarrow>
             json [(''key'', JStr key), (''value'', JStr (btoa bytes)), (''metadata'', md)] 200,
         (s2, l @ [(KVGetWithMetadata key ''text'', None), (KVGet key ''arrayBuffer'', None)]))"
    by (simp add: serverKvGetKey_def catch500_def bindE_def invoke_def keyNotFound_def keyFound_def
        split: option.splits)
next
  assume "typeOf typeQ \<noteq> ''json'' \<and> typeOf typeQ \<noteq> ''arrayBuffer'' \<and>
      kv_meta_text kv key s = (Inr (t0, md), s1) \<and> kv_get_text kv key s1 = (Inr t, s2)"
  then show "serverKvGetKey btoa (Inr kv) key typeQ (s, l) =
        (case t of
           None \<Rightarrow> json [(''error'', JStr ''Key not found'')] 404
         | Some text \<Rightarrow> json [(''key'', JStr key), (''value'', JStr text), (''metadata'', md)] 200,
         (s2, l @ [(KVGetWithMetadata key ''text'', None), (KVGet key ''text'', None)]))"
    by (simp add: serverKvGetKey_def catch500_def bindE_def invoke_def keyNotFound_def keyFound_def
        split: option.splits)
qed



text \<open>
  C5 fails in the API worker for a binary value with more bytes than a call takes
  arguments: the key is found (the binding returns the bytes, not \<^verbatim>\<open>null\<close>), but spreading
  the bytes into \<^verbatim>\<open>String.fromCharCode\<close> throws a \<^verbatim>\<open>RangeError\<close> inside the \<^verbatim>\<open>try\<close> block
  and the route answers 500, where the claim asks for 200 with key, value and metadata. The
  same route of the dashboard server, which encodes with \<^verbatim>\<open>Buffer.from(buffer).toString('base64')\<close>,
  answers 200 for the same key.
\<close>

theorem kv_get_key_large_buffer:
  "(typeOf typeQ = ''arrayBuffer'' \<and> kv_meta_arrayBuffer kv key s = (Inr (Some bytes, md), s') \<and>
    maxArguments < length bytes \<longrightarrow>
      kvGetKey maxArguments btoa (Some kv) key typeQ (s, l) =
        (json [(''error'', JStr ''RangeError: Maximum call stack size exceeded'')] 500,
         (s', l @ [(KVGetWithMetadata key ''arrayBuffer'', None)])))
   \<and> (typeOf typeQ = ''arrayBuffer'' \<and> kv_meta_text kv key s = (Inr (t0, md), s1) \<and>
      kv_get_arrayBuffer kv key s1 = (Inr (Some bytes), s2) \<longrightarrow>
      serverKvGetKey toBase (Inr kv) key typeQ (s, l) =
        (json [(''key'', JStr key), (''value'', JStr (toBase bytes)), (''metadata'', md)] 200,
         (s2, l @ [(KVGetWithMetadata key ''text'', None), (KVGet key ''arrayBuffer'', None)])))"
  by (simp add: kvGetKey_def serverKvGetKey_def catch500_def bindE_def invoke_def keyFound_def
      fromCharCodeSpread_def json_def)

theorem kv_get_key_large_buffer_witness:
  "kvGetKey 3 id (Some exampleKv) ''big'' (Some ''arrayBuffer'') ([(''big'', ''hello'', JNull)], [])
     = (json [(''error'', JStr ''RangeError: Maximum call stack size exceeded'')] 500,
        ([(''big'', ''hello'', JNull)], [(KVGetWithMetadata ''big'' ''arrayBuffer'', None)]))
   \<and> serverKvGetKey id (Inr exampleKv) ''big'' (Some ''arrayBuffer'') ([(''big'', ''hello'', JNull)], [])
     = (json [(''key'', JStr ''big''), (''value'', JStr ''hello''), (''metadata'', JNull)] 200,
        ([(''big'', ''hello'', JNull)],
         [(KVGetWithMetadata ''big'' ''text'', None), (KVGet ''big'' ''arrayBuffer'', None)]))
   \<and> kvGetKey 5 id (Some exampleKv) ''big'' (Some ''arrayBuffer'') ([(''big'', ''hello'', JNull)], [])
     = (json [(''key'', JStr ''big''), (''value'', JStr ''hello''), (''metadata'', JNull)] 200,
        ([(''big'', ''hello'', JNull)], [(KVGetWithMetadata ''big'' ''arrayBuffer'', None)]))"
proof -
  let ?s = "[(''big'', ''hello'', JNull)]"
  have h1: "typeOf (Some ''arrayBuffer'') = ''arrayBuffer'' \<and>
      kv_meta_arrayBuffer exampleKv ''big'' ?s = (Inr (Some ''hello'', JNull), ?s) \<and>
      3 < length ''hello''"
    by (simp add: typeOf_def exampleKv_def)
  have h2: "typeOf (Some ''arrayBuffer'') = ''arrayBuffer'' \<and>
      kv_meta_text exampleKv ''big'' ?s = (Inr (Some ''hello'', JNull), ?s) \<and>
      kv_get_arrayBuffer exampleKv ''big'' ?s = (Inr (Some ''hello''), ?s)"
    by (simp add: typeOf_def exampleKv_def)
  have c: "kvGetKey 5 id (Some exampleKv) ''big'' (Some ''arrayBuffer'') (?s, [])
     = (json [(''key'', JStr ''big''), (''value'', JStr ''hello''), (''metadata'', JNull)] 200,
        (?s, [(KVGetWithMetadata ''big'' ''arrayBuffer'', None)]))"
    by (simp add: kvGetKey_def typeOf_def exampleKv_def catch500_def bindE_def invoke_def
        keyFound_def fromCharCodeSpread_def)
  note t = kv_get_key_large_buffer [where l = "[]" and btoa = id and toBase = id
      and maxArguments = 3]
  from t [THEN conjunct1, THEN mp, OF h1] t [THEN conjunct2, THEN mp, OF h2] c
  show ?thesis by simp
qed

section \<open>Properties of the update and bulk routes\<close>

lemma putRow_unfold:
  assumes "d1_all db \<lparr>stmt_sql = tableInfoSql t, stmt_params = []\<rparr> s = (Inr res, s1)"
  shows "putRow P (Some db) t rowId (Inr data) (s, l) =
    (let pks = primaryKeysOf (res_results res);
         l1 = l @ [(D1All \<lparr>stmt_sql = tableInfoSql t, stmt_params = []\<rparr>, None)]
     in if pks = [] then (json [(''error'', JStr ''Table has no primary key'')] 400, (s1, l1))
        else case buildPrimaryKeyWhere P pks (RowStr rowId) of
          Inl e \<Rightarrow> (json [(''error'', JStr (String_exn e)), (''success'', JBool False)] 500, (s1, l1))
        | Inr wh \<Rightarrow>
            (let entries = updateEntriesOf pks data;
                 q = \<lparr>stmt_sql = updateSql t (setClauseOf entries) (clause wh),
                      stmt_params = map (\<lambda>(k, v). v) entries @ values_list wh\<rparr>
             in if entries = [] then (json [(''error'', JStr ''No data to update'')] 400, (s1, l1))
                else case d1_run db q s1 of
                  (Inl e, s2) \<Rightarrow>
                    (json [(''error'', JStr (String_exn e)), (''success'', JBool False)] 500,
                     (s2, l1 @ [(D1Run q, Some e)]))
                | (Inr result, s2) \<Rightarrow>
                    (json [(''success'', JBool True), (''meta'', metaChanged result)] 200,
                     (s2, l1 @ [(D1Run q, None)]))))"
  using assms
  by (simp add: putRow_def catch500s_def bindE_def getPrimaryKeys_def call_all_def call_run_def
      invoke_def Let_def split: prod.splits sum.splits)

lemma pragma_not_update: "\<not> isUpdate \<lparr>stmt_sql = tableInfoSql t, stmt_params = ps\<rparr>"
  by (simp add: isUpdate_def tableInfoSql_def startsWith_def)

lemma updateEntriesOf_disjoint: "set (map fst (updateEntriesOf pks data)) \<inter> set pks = {}"
  by (auto simp: updateEntriesOf_def)

lemma updateEntriesOf_empty:
  "set (map fst data) \<subseteq> set pks \<Longrightarrow> updateEntriesOf pks data = []"
  by (auto simp: updateEntriesOf_def filter_empty_conv)

lemma putRow_updates:
  assumes pr: "d1_all db \<lparr>stmt_sql = tableInfoSql t, stmt_params = []\<rparr> s = (Inr res, s1)"
  shows "\<exists>new. snd (snd (putRow P (Some db) t rowId (Inr data) (s, l))) = l @ new
      \<and> (\<forall>q \<in> set (issuedStatements new). isUpdate q \<longrightarrow>
            (\<exists>wc. stmt_sql q = updateSql t (setClauseOf (updateEntriesOf (primaryKeysOf (res_results res)) data)) wc))
      \<and> (set (map fst data) \<subseteq> set (primaryKeysOf (res_results res)) \<longrightarrow>
            \<not> (\<exists>q \<in> set (issuedStatements new). isUpdate q))"
  using updateEntriesOf_empty [of data "primaryKeysOf (res_results res)"]
  by (auto simp add: putRow_unfold [OF pr] Let_def issuedStatements_def pragma_not_update
      split: sum.splits prod.splits)

lemma putRow_pk_only_status:
  assumes pr: "d1_all db \<lparr>stmt_sql = tableInfoSql t, stmt_params = []\<rparr> s = (Inr res, s1)"
    and only: "set (map fst data) \<subseteq> set (primaryKeysOf (res_results res))"
  shows "status (fst (putRow P (Some db) t rowId (Inr data) (s, l))) =
     (if primaryKeysOf (res_results res) \<noteq> [] \<and>
         isl (buildPrimaryKeyWhere P (primaryKeysOf (res_results res)) (RowStr rowId))
      then 500 else 400)"
  using updateEntriesOf_empty [OF only]
  by (auto simp add: putRow_unfold [OF pr] Let_def json_def split: sum.splits)


lemma collectStatements_map:
  "(\<forall>r \<in> set rowIds. \<exists>st. mk r = Inr st) \<Longrightarrow>
   collectStatements mk rowIds = Inr (map (\<lambda>r. projr (mk r)) rowIds)"
  by (induction rowIds) auto

lemma collectStatements_Inr:
  "collectStatements mk rowIds = Inr sts \<Longrightarrow> sts = map (\<lambda>r. projr (mk r)) rowIds \<and> (\<forall>r \<in> set rowIds. \<exists>st. mk r = Inr st)"
  by (induction rowIds arbitrary: sts) (auto split: sum.splits)

lemma totalChangesOf_sum: "totalChangesOf results = sum_list (map changesOf results)"
proof -
  have "foldl (\<lambda>totalChanges r. totalChanges + changesOf r) a results = a + sum_list (map changesOf results)" for a
    by (induction results arbitrary: a) simp_all
  then show ?thesis by (simp add: totalChangesOf_def)
qed

lemma bulkDelete_unfold:
  assumes "d1_all db \<lparr>stmt_sql = tableInfoSql t, stmt_params = []\<rparr> s = (Inr res, s1)"
    and "rowIds \<noteq> []"
  shows "bulkDelete P (Some db) t (Inr (Some rowIds)) (s, l) =
    (let pks = primaryKeysOf (res_results res);
         l1 = l @ [(D1All \<lparr>stmt_sql = tableInfoSql t, stmt_params = []\<rparr>, None)]
     in if pks = [] then (json [(''error'', JStr ''Table has no primary key'')] 400, (s1, l1))
        else case collectStatements (deleteStatement P t pks) rowIds of
          Inl e \<Rightarrow> (json [(''error'', JStr (String_exn e)), (''success'', JBool False)] 500, (s1, l1))
        | Inr statements \<Rightarrow>
            (case d1_batch db statements s1 of
               (Inl e, s2) \<Rightarrow>
                 (json [(''error'', JStr (String_exn e)), (''success'', JBool False)] 500,
                  (s2, l1 @ [(D1Batch statements, Some e)]))
             | (Inr results, s2) \<Rightarrow>
                 (json [(''success'', JBool True), (''meta'', bulkMeta results rowIds)] 200,
                  (s2, l1 @ [(D1Batch statements, None)]))))"
  using assms
  by (simp add: bulkDelete_def catch500s_def bindE_def getPrimaryKeys_def call_all_def call_batch_def
      invoke_def Let_def split: prod.splits sum.splits)

lemma bulkUpdate_unfold:
  assumes "d1_all db \<lparr>stmt_sql = tableInfoSql t, stmt_params = []\<rparr> s = (Inr res, s1)"
    and "rowIds \<noteq> []" and "data \<noteq> []"
  shows "bulkUpdate P (Some db) t (Inr \<lparr>bu_rowIds = Some rowIds, bu_data = Some data\<rparr>) (s, l) =
    (let pks = primaryKeysOf (res_results res);
         l1 = l @ [(D1All \<lparr>stmt_sql = tableInfoSql t, stmt_params = []\<rparr>, None)];
         entries = updateEntriesOf pks data
     in if pks = [] then (json [(''error'', JStr ''Table has no primary key'')] 400, (s1, l1))
        else if entries = [] then
          (json [(''error'', JStr ''No data to update (only primary key columns provided)'')] 400,
           (s1, l1))
        else case collectStatements
                    (updateStatement P t pks (setClauseOf entries) (map (\<lambda>(k, v). v) entries)) rowIds of
          Inl e \<Rightarrow> (json [(''error'', JStr (String_exn e)), (''success'', JBool False)] 500, (s1, l1))
        | Inr statements \<Rightarrow>
            (case d1_batch db statements s1 of
               (Inl e, s2) \<Rightarrow>
                 (json [(''error'', JStr (String_exn e)), (''success'', JBool False)] 500,
                  (s2, l1 @ [(D1Batch statements, Some e)]))
             | (Inr results, s2) \<Rightarrow>
                 (json [(''success'', JBool True), (''meta'', bulkMeta results rowIds)] 200,
                  (s2, l1 @ [(D1Batch statements, None)]))))"
  using assms
  by (simp add: bulkUpdate_def catch500s_def bindE_def getPrimaryKeys_def call_all_def call_batch_def
      invoke_def Let_def split: prod.splits sum.splits)

lemma bulkUpdate_no_rows:
  "bu_rowIds b = None \<or> bu_rowIds b = Some [] \<Longrightarrow>
   bulkUpdate P (Some db) t (Inr b) w = (json [(''error'', JStr ''No row IDs provided'')] 400, w)"
  by (auto simp add: bulkUpdate_def catch500s_def bindE_def)

lemma bulkUpdate_no_data:
  "bu_rowIds b = Some rowIds \<Longrightarrow> rowIds \<noteq> [] \<Longrightarrow> bu_data b = None \<or> bu_data b = Some [] \<Longrightarrow>
   bulkUpdate P (Some db) t (Inr b) w = (json [(''error'', JStr ''No data provided'')] 400, w)"
  by (auto simp add: bulkUpdate_def catch500s_def bindE_def)

lemma updateStatement_sql:
  "updateStatement P t pks sc vals r = Inr st \<Longrightarrow> \<exists>wc. stmt_sql st = updateSql t sc wc"
  by (auto simp: updateStatement_def split: sum.splits)

lemma collect_update_sql:
  assumes "collectStatements (updateStatement P t pks sc vals) rowIds = Inr sts" "q \<in> set sts"
  shows "\<exists>wc. stmt_sql q = updateSql t sc wc"
proof -
  from collectStatements_Inr [OF assms(1)] assms(2)
  obtain r where "r \<in> set rowIds" "q = projr (updateStatement P t pks sc vals r)"
    "\<exists>st. updateStatement P t pks sc vals r = Inr st" by auto
  then show ?thesis using updateStatement_sql by fastforce
qed

lemma bulkUpdate_updates:
  assumes pr: "d1_all db \<lparr>stmt_sql = tableInfoSql t, stmt_params = []\<rparr> s = (Inr res, s1)"
  shows "\<exists>new. snd (snd (bulkUpdate P (Some db) t (Inr b) (s, l))) = l @ new
      \<and> (\<forall>q \<in> set (issuedStatements new). isUpdate q \<longrightarrow>
            (\<exists>wc. stmt_sql q = updateSql t
                (setClauseOf (updateEntriesOf (primaryKeysOf (res_results res))
                    (case bu_data b of None \<Rightarrow> [] | Some data \<Rightarrow> data))) wc))
      \<and> (set (map fst (case bu_data b of None \<Rightarrow> [] | Some data \<Rightarrow> data))
              \<subseteq> set (primaryKeysOf (res_results res)) \<longrightarrow>
            status (fst (bulkUpdate P (Some db) t (Inr b) (s, l))) = 400
            \<and> \<not> (\<exists>q \<in> set (issuedStatements new). isUpdate q))"
proof (cases "bu_rowIds b = None \<or> bu_rowIds b = Some []")
  case True
  then show ?thesis
    by (simp add: bulkUpdate_no_rows issuedStatements_def json_def)
next
  case False
  then obtain rowIds where r: "bu_rowIds b = Some rowIds" "rowIds \<noteq> []" by auto
  show ?thesis
  proof (cases "bu_data b = None \<or> bu_data b = Some []")
    case True
    with r show ?thesis
      by (simp add: bulkUpdate_no_data issuedStatements_def json_def)
  next
    case False
    then obtain data where d: "bu_data b = Some data" "data \<noteq> []" by auto
    have b: "b = \<lparr>bu_rowIds = Some rowIds, bu_data = Some data\<rparr>"
      using r d by (cases b) simp
    show ?thesis
      using updateEntriesOf_empty [of data "primaryKeysOf (res_results res)"] collect_update_sql
      unfolding b
      by (auto simp add: bulkUpdate_unfold [OF pr r(2) d(2)] Let_def issuedStatements_def
          pragma_not_update json_def split: sum.splits prod.splits)
  qed
qed


lemma primaryKeysOf_exampleColumns: "primaryKeysOf exampleColumns = [''id'']"
  by (simp add: primaryKeysOf_def exampleColumns_def col_pk_def col_name_def getProp_def objectPrototypeMembers_def)

lemma primaryKeysOf_compositeColumns: "primaryKeysOf compositeColumns = [''a'', ''b'']"
  by (simp add: primaryKeysOf_def compositeColumns_def col_pk_def col_name_def getProp_def objectPrototypeMembers_def)

lemma exampleDb_pragma:
  "d1_all (exampleDb rows) \<lparr>stmt_sql = tableInfoSql t, stmt_params = []\<rparr> n = (Inr (exampleResult rows), Suc n)"
  by (simp add: exampleDb_def)

lemma exampleDb_run:
  "d1_run (exampleDb rows) q n = (Inr (exampleResult []), Suc n)"
  by (simp add: exampleDb_def)

lemma exampleDb_batch:
  "d1_batch (exampleDb rows) qs n = (Inr (map (\<lambda>q. exampleResult []) qs), n + length qs)"
  by (simp add: exampleDb_def)

lemma setClauseOf_keys:
  "setClauseOf (updateEntriesOf pks data)
     = join '', '' (map (\<lambda>k. escapeIdentifier k @ '' = ?'') (filter (\<lambda>k. k \<notin> set pks) (map fst data)))"
proof -
  have "map (\<lambda>(k, v). escapeIdentifier k @ '' = ?'') (filter (\<lambda>(k, v). k \<notin> set pks) data)
      = map (\<lambda>k. escapeIdentifier k @ '' = ?'') (filter (\<lambda>k. k \<notin> set pks) (map fst data))"
    by (induction data) auto
  then show ?thesis by (simp add: setClauseOf_def updateEntriesOf_def)
qed

text \<open>
  The filter of the \<^verbatim>\<open>PUT\<close> row route and of the bulk-update route, on names spelled as the
  table spells them. Given that \<^verbatim>\<open>PRAGMA table_info\<close> returns, with \<open>pks\<close> the primary keys
  read from it: the \<^verbatim>\<open>SET\<close> clause lists exactly the keys of the body that are not, letter
  for letter, in \<open>pks\<close>; every \<^verbatim>\<open>UPDATE\<close> statement either route sends has that \<^verbatim>\<open>SET\<close>
  clause; and when every key of the body is in \<open>pks\<close>, neither route sends an \<^verbatim>\<open>UPDATE\<close>
  statement, the bulk-update route answers 400, and the \<^verbatim>\<open>PUT\<close> route answers 400 unless
  \<open>buildPrimaryKeyWhere\<close> rejects the row identifier, in which case it answers 500 (the
  \<^verbatim>\<open>WHERE\<close> clause is built before the body is looked at).
\<close>

lemma update_routes_skip_exact_names:
  assumes pr: "d1_all db \<lparr>stmt_sql = tableInfoSql t, stmt_params = []\<rparr> s = (Inr res, s1)"
  shows
  "setClauseOf (updateEntriesOf (primaryKeysOf (res_results res)) data)
     = join '', '' (map (\<lambda>k. escapeIdentifier k @ '' = ?'')
         (filter (\<lambda>k. k \<notin> set (primaryKeysOf (res_results res))) (map fst data)))
   \<and> (\<exists>new. snd (snd (putRow P (Some db) t rowId (Inr data) (s, l))) = l @ new
        \<and> (\<forall>q \<in> set (issuedStatements new). isUpdate q \<longrightarrow>
              (\<exists>wc. stmt_sql q
                 = updateSql t (setClauseOf (updateEntriesOf (primaryKeysOf (res_results res)) data)) wc))
        \<and> (set (map fst data) \<subseteq> set (primaryKeysOf (res_results res)) \<longrightarrow>
              \<not> (\<exists>q \<in> set (issuedStatements new). isUpdate q)))
   \<and> (set (map fst data) \<subseteq> set (primaryKeysOf (res_results res)) \<longrightarrow>
        status (fst (putRow P (Some db) t rowId (Inr data) (s, l)))
          = (if primaryKeysOf (res_results res) \<noteq> [] \<and>
                isl (buildPrimaryKeyWhere P (primaryKeysOf (res_results res)) (RowStr rowId))
             then 500 else 400))
   \<and> (\<exists>new. snd (snd (bulkUpdate P (Some db) t
                  (Inr \<lparr>bu_rowIds = rowIds, bu_data = Some data\<rparr>) (s, l))) = l @ new
        \<and> (\<forall>q \<in> set (issuedStatements new). isUpdate q \<longrightarrow>
              (\<exists>wc. stmt_sql q
                 = updateSql t (setClauseOf (updateEntriesOf (primaryKeysOf (res_results res)) data)) wc))
        \<and> (set (map fst data) \<subseteq> set (primaryKeysOf (res_results res)) \<longrightarrow>
              \<not> (\<exists>q \<in> set (issuedStatements new). isUpdate q)))
   \<and> (set (map fst data) \<subseteq> set (primaryKeysOf (res_results res)) \<longrightarrow>
        status (fst (bulkUpdate P (Some db) t
                  (Inr \<lparr>bu_rowIds = rowIds, bu_data = Some data\<rparr>) (s, l))) = 400)"
proof -
  from bulkUpdate_updates [OF pr, of P "\<lparr>bu_rowIds = rowIds, bu_data = Some data\<rparr>" l]
  obtain new where n: "snd (snd (bulkUpdate P (Some db) t
                  (Inr \<lparr>bu_rowIds = rowIds, bu_data = Some data\<rparr>) (s, l))) = l @ new"
    "\<forall>q \<in> set (issuedStatements new). isUpdate q \<longrightarrow>
              (\<exists>wc. stmt_sql q
                 = updateSql t (setClauseOf (updateEntriesOf (primaryKeysOf (res_results res)) data)) wc)"
    "set (map fst data) \<subseteq> set (primaryKeysOf (res_results res)) \<longrightarrow>
            status (fst (bulkUpdate P (Some db) t (Inr \<lparr>bu_rowIds = rowIds, bu_data = Some data\<rparr>) (s, l))) = 400
            \<and> \<not> (\<exists>q \<in> set (issuedStatements new). isUpdate q)"
    by auto
  show ?thesis
  proof (intro conjI)
    show "setClauseOf (updateEntriesOf (primaryKeysOf (res_results res)) data)
     = join '', '' (map (\<lambda>k. escapeIdentifier k @ '' = ?'')
         (filter (\<lambda>k. k \<notin> set (primaryKeysOf (res_results res))) (map fst data)))"
      by (rule setClauseOf_keys)
    show "\<exists>new. snd (snd (putRow P (Some db) t rowId (Inr data) (s, l))) = l @ new
        \<and> (\<forall>q \<in> set (issuedStatements new). isUpdate q \<longrightarrow>
              (\<exists>wc. stmt_sql q
                 = updateSql t (setClauseOf (updateEntriesOf (primaryKeysOf (res_results res)) data)) wc))
        \<and> (set (map fst data) \<subseteq> set (primaryKeysOf (res_results res)) \<longrightarrow>
              \<not> (\<exists>q \<in> set (issuedStatements new). isUpdate q))"
      by (rule putRow_updates [OF pr])
    show "set (map fst data) \<subseteq> set (primaryKeysOf (res_results res)) \<longrightarrow>
        status (fst (putRow P (Some db) t rowId (Inr data) (s, l)))
          = (if primaryKeysOf (res_results res) \<noteq> [] \<and>
                isl (buildPrimaryKeyWhere P (primaryKeysOf (res_results res)) (RowStr rowId))
             then 500 else 400)"
      using putRow_pk_only_status [OF pr] by blast
    show "\<exists>new. snd (snd (bulkUpdate P (Some db) t
                  (Inr \<lparr>bu_rowIds = rowIds, bu_data = Some data\<rparr>) (s, l))) = l @ new
        \<and> (\<forall>q \<in> set (issuedStatements new). isUpdate q \<longrightarrow>
              (\<exists>wc. stmt_sql q
                 = updateSql t (setClauseOf (updateEntriesOf (primaryKeysOf (res_results res)) data)) wc))
        \<and> (set (map fst data) \<subseteq> set (primaryKeysOf (res_results res)) \<longrightarrow>
              \<not> (\<exists>q \<in> set (issuedStatements new). isUpdate q))"
      using n by blast
    show "set (map fst data) \<subseteq> set (primaryKeysOf (res_results res)) \<longrightarrow>
        status (fst (bulkUpdate P (Some db) t
                  (Inr \<lparr>bu_rowIds = rowIds, bu_data = Some data\<rparr>) (s, l))) = 400"
      using n by blast
  qed
qed


text \<open>
  On a table with the composite key \<^verbatim>\<open>(a, b)\<close>, a \<^verbatim>\<open>PUT\<close> request whose row identifier is
  the plain string \<^verbatim>\<open>abc\<close> and whose body holds only the key column \<^verbatim>\<open>a\<close> is answered with
  500, not 400.
\<close>

lemma put_row_pk_only_rejected_identifier:
  "primaryKeysOf compositeColumns = [''a'', ''b'']
   \<and> putRow (\<lambda>_. None) (Some (exampleDb compositeColumns)) ''t'' ''abc'' (Inr [(''a'', JNum 1)]) (0, [])
     = (json [(''error'', JStr ''Error: Invalid row identifier for composite primary key''),
              (''success'', JBool False)] 500,
        (1, [(D1All \<lparr>stmt_sql = ''PRAGMA table_info('' @ [DQ] @ ''t'' @ [DQ] @ '')'', stmt_params = []\<rparr>,
              None)]))"
  by (simp add: primaryKeysOf_compositeColumns putRow_unfold [OF exampleDb_pragma] exampleResult_def
      buildPrimaryKeyWhere_def startsWith_def tableInfoSql_def escapeIdentifier_def)


lemma sameColumn_ID: "sameColumn ''ID'' ''id''"
  by (simp add: sameColumn_def toUpperCase_def upperChar_def lowerLetters_def upperLetters_def)

text \<open>
  C8 fails for a body key that names a primary-key column in another case. On a table with
  the single primary key \<open>pk\<close>, for a body with the one key \<open>k\<close> that SQLite resolves to \<open>pk\<close>
  but that is spelled differently (\<^verbatim>\<open>ID\<close> for \<^verbatim>\<open>id\<close>), and a row identifier that is a plain
  string: the filter \<^verbatim>\<open>!primaryKeys.includes(k)\<close> lets the key through, and the \<^verbatim>\<open>PUT\<close> row
  route runs, and the bulk-update route batches,
  \<^verbatim>\<open>UPDATE "t" SET "k" = ? WHERE "pk" = ?\<close> with the body's value: the statement assigns the
  primary key of the row. The claim asks for no \<^verbatim>\<open>UPDATE\<close> at all and the answer 400.
\<close>

theorem update_routes_case_variant_key:
  fixes db :: "'s d1database" and v :: jsval and l :: "(call \<times> exn option) list"
  assumes pr: "d1_all db \<lparr>stmt_sql = tableInfoSql t, stmt_params = []\<rparr> s = (Inr res, s1)"
    and pk: "primaryKeysOf (res_results res) = [pk]"
    and k: "k \<noteq> pk" "sameColumn k pk"
    and r: "\<not> startsWith rowId ''[''"
  defines "q \<equiv> \<lparr>stmt_sql = ''UPDATE '' @ escapeIdentifier t @ '' SET '' @ escapeIdentifier k @
                             '' = ? WHERE '' @ escapeIdentifier pk @ '' = ?'',
                  stmt_params = [v, JStr rowId]\<rparr>"
  defines "l1 \<equiv> l @ [(D1All \<lparr>stmt_sql = tableInfoSql t, stmt_params = []\<rparr>, None)]"
  shows
  "putRow P (Some db) t rowId (Inr [(k, v)]) (s, l)
     = (case d1_run db q s1 of
          (Inl e, s2) \<Rightarrow>
            (json [(''error'', JStr (String_exn e)), (''success'', JBool False)] 500,
             (s2, l1 @ [(D1Run q, Some e)]))
        | (Inr result, s2) \<Rightarrow>
            (json [(''success'', JBool True),
                   (''meta'', JObj [(''changes'', JNum (changesOf result)),
                                    (''duration'', durationOf result)])] 200,
             (s2, l1 @ [(D1Run q, None)])))
   \<and> bulkUpdate P (Some db) t
         (Inr \<lparr>bu_rowIds = Some [RowStr rowId], bu_data = Some [(k, v)]\<rparr>) (s, l)
     = (case d1_batch db [q] s1 of
          (Inl e, s2) \<Rightarrow>
            (json [(''error'', JStr (String_exn e)), (''success'', JBool False)] 500,
             (s2, l1 @ [(D1Batch [q], Some e)]))
        | (Inr results, s2) \<Rightarrow>
            (json [(''success'', JBool True),
                   (''meta'', JObj [(''changes'', JNum (sum_list (map changesOf results))),
                                    (''rowsProcessed'', JNum 1)])] 200,
             (s2, l1 @ [(D1Batch [q], None)])))"
proof -
  have w: "buildPrimaryKeyWhere P [pk] (RowStr rowId)
      = Inr \<lparr>clause = escapeIdentifier pk @ '' = ?'', values_list = [JStr rowId]\<rparr>"
    using r by (simp add: buildPrimaryKeyWhere_def pkCondition_def)
  have e: "updateEntriesOf [pk] [(k, v)] = [(k, v)]"
    using k(1) by (simp add: updateEntriesOf_def)
  have sc: "setClauseOf [(k, v)] = escapeIdentifier k @ '' = ?''"
    by (simp add: setClauseOf_def)
  have a: "putRow P (Some db) t rowId (Inr [(k, v)]) (s, l)
     = (case d1_run db q s1 of
          (Inl e, s2) \<Rightarrow>
            (json [(''error'', JStr (String_exn e)), (''success'', JBool False)] 500,
             (s2, l1 @ [(D1Run q, Some e)]))
        | (Inr result, s2) \<Rightarrow>
            (json [(''success'', JBool True),
                   (''meta'', JObj [(''changes'', JNum (changesOf result)),
                                    (''duration'', durationOf result)])] 200,
             (s2, l1 @ [(D1Run q, None)])))"
    by (simp add: putRow_unfold [OF pr] pk w e sc q_def l1_def updateSql_def metaChanged_def Let_def
        split: prod.splits sum.splits)
  have c: "updateStatement P t [pk] (escapeIdentifier k @ '' = ?'') [v] (RowStr rowId) = Inr q"
    by (simp add: updateStatement_def w q_def updateSql_def)
  have b: "bulkUpdate P (Some db) t
         (Inr \<lparr>bu_rowIds = Some [RowStr rowId], bu_data = Some [(k, v)]\<rparr>) (s, l)
     = (case d1_batch db [q] s1 of
          (Inl e, s2) \<Rightarrow>
            (json [(''error'', JStr (String_exn e)), (''success'', JBool False)] 500,
             (s2, l1 @ [(D1Batch [q], Some e)]))
        | (Inr results, s2) \<Rightarrow>
            (json [(''success'', JBool True),
                   (''meta'', JObj [(''changes'', JNum (sum_list (map changesOf results))),
                                    (''rowsProcessed'', JNum 1)])] 200,
             (s2, l1 @ [(D1Batch [q], None)])))"
    by (simp add: bulkUpdate_unfold [OF pr] pk e sc c l1_def bulkMeta_def totalChangesOf_sum Let_def
        split: prod.splits sum.splits)
  from a b show ?thesis by blast
qed

theorem update_routes_case_variant_key_witness:
  "primaryKeysOf exampleColumns = [''id''] \<and> sameColumn ''ID'' ''id''
   \<and> putRow (\<lambda>_. None) (Some (exampleDb exampleColumns)) ''t'' ''3'' (Inr [(''ID'', JNum 5)]) (0, [])
     = (json [(''success'', JBool True),
              (''meta'', JObj [(''changes'', JNum 1), (''duration'', JNum 2)])] 200,
        (2, [(D1All \<lparr>stmt_sql = ''PRAGMA table_info('' @ [DQ] @ ''t'' @ [DQ] @ '')'', stmt_params = []\<rparr>,
              None),
             (D1Run \<lparr>stmt_sql = ''UPDATE '' @ [DQ] @ ''t'' @ [DQ] @ '' SET '' @ [DQ] @ ''ID'' @ [DQ] @
                                 '' = ? WHERE '' @ [DQ] @ ''id'' @ [DQ] @ '' = ?'',
                      stmt_params = [JNum 5, JStr ''3'']\<rparr>, None)]))
   \<and> bulkUpdate (\<lambda>_. None) (Some (exampleDb exampleColumns)) ''t''
         (Inr \<lparr>bu_rowIds = Some [RowStr ''3''], bu_data = Some [(''ID'', JNum 5)]\<rparr>) (0, [])
     = (json [(''success'', JBool True),
              (''meta'', JObj [(''changes'', JNum 1), (''rowsProcessed'', JNum 1)])] 200,
        (2, [(D1All \<lparr>stmt_sql = ''PRAGMA table_info('' @ [DQ] @ ''t'' @ [DQ] @ '')'', stmt_params = []\<rparr>,
              None),
             (D1Batch
                [\<lparr>stmt_sql = ''UPDATE '' @ [DQ] @ ''t'' @ [DQ] @ '' SET '' @ [DQ] @ ''ID'' @ [DQ] @
                              '' = ? WHERE '' @ [DQ] @ ''id'' @ [DQ] @ '' = ?'',
                   stmt_params = [JNum 5, JStr ''3'']\<rparr>], None)]))"
proof -
  have pk: "primaryKeysOf (res_results (exampleResult exampleColumns)) = [''id'']"
    by (simp add: exampleResult_def primaryKeysOf_exampleColumns)
  have k: "''ID'' \<noteq> ''id''" by simp
  have r: "\<not> startsWith ''3'' ''[''" by (simp add: startsWith_def)
  note t = update_routes_case_variant_key [OF
      exampleDb_pragma [where n = 0 and rows = exampleColumns and t = "''t''"] pk k sameColumn_ID r,
      where P = "\<lambda>_. None" and v = "JNum 5" and l = "[]"]
  from t primaryKeysOf_exampleColumns sameColumn_ID show ?thesis
    by (simp add: exampleDb_run exampleDb_batch exampleResult_def changesOf_def durationOf_def
        tableInfoSql_def escapeIdentifier_def)
qed

lemma primaryKeysOf_keylessColumns: "primaryKeysOf keylessColumns = []"
  by (simp add: primaryKeysOf_def keylessColumns_def col_pk_def col_name_def getProp_def objectPrototypeMembers_def)

text \<open>
  C3, as stated, fails on a table without a primary key: a bulk-delete request with two row
  identifiers is answered with 400, and no batch is sent.
\<close>

theorem bulk_delete_keyless_counterexample:
  "bulkDelete (\<lambda>_. None) (Some (exampleDb keylessColumns)) ''t''
       (Inr (Some [RowStr ''1'', RowStr ''2''])) (0, [])
     = (json [(''error'', JStr ''Table has no primary key'')] 400,
        (1, [(D1All \<lparr>stmt_sql = ''PRAGMA table_info('' @ [DQ] @ ''t'' @ [DQ] @ '')'', stmt_params = []\<rparr>,
              None)]))"
  by (simp add: bulkDelete_unfold [OF exampleDb_pragma] exampleResult_def primaryKeysOf_keylessColumns
      tableInfoSql_def escapeIdentifier_def)

lemma deleteStatement_projr:
  "buildPrimaryKeyWhere P pks r = Inr wh \<Longrightarrow>
   projr (deleteStatement P t pks r)
     = \<lparr>stmt_sql = ''DELETE FROM '' @ escapeIdentifier t @ '' WHERE '' @
                   clause (projr (buildPrimaryKeyWhere P pks r)),
        stmt_params = values_list (projr (buildPrimaryKeyWhere P pks r))\<rparr>"
  by (simp add: deleteStatement_def deleteSql_def)

lemma updateStatement_projr:
  "buildPrimaryKeyWhere P pks r = Inr wh \<Longrightarrow>
   projr (updateStatement P t pks sc vals r)
     = \<lparr>stmt_sql = ''UPDATE '' @ escapeIdentifier t @ '' SET '' @ sc @ '' WHERE '' @
                   clause (projr (buildPrimaryKeyWhere P pks r)),
        stmt_params = vals @ values_list (projr (buildPrimaryKeyWhere P pks r))\<rparr>"
  by (simp add: updateStatement_def updateSql_def)

lemma collect_delete:
  assumes "\<forall>r \<in> set rowIds. \<exists>wh. buildPrimaryKeyWhere P pks r = Inr wh"
  shows "collectStatements (deleteStatement P t pks) rowIds
     = Inr (map (\<lambda>r. \<lparr>stmt_sql = ''DELETE FROM '' @ escapeIdentifier t @ '' WHERE '' @
                                  clause (projr (buildPrimaryKeyWhere P pks r)),
                       stmt_params = values_list (projr (buildPrimaryKeyWhere P pks r))\<rparr>) rowIds)"
proof -
  have "\<forall>r \<in> set rowIds. \<exists>st. deleteStatement P t pks r = Inr st"
    using assms by (auto simp: deleteStatement_def)
  then have "collectStatements (deleteStatement P t pks) rowIds
      = Inr (map (\<lambda>r. projr (deleteStatement P t pks r)) rowIds)"
    by (rule collectStatements_map)
  moreover have "map (\<lambda>r. projr (deleteStatement P t pks r)) rowIds
      = map (\<lambda>r. \<lparr>stmt_sql = ''DELETE FROM '' @ escapeIdentifier t @ '' WHERE '' @
                                  clause (projr (buildPrimaryKeyWhere P pks r)),
                       stmt_params = values_list (projr (buildPrimaryKeyWhere P pks r))\<rparr>) rowIds"
    using assms by (auto simp: deleteStatement_projr)
  ultimately show ?thesis by simp
qed

lemma collect_update:
  assumes "\<forall>r \<in> set rowIds. \<exists>wh. buildPrimaryKeyWhere P pks r = Inr wh"
  shows "collectStatements (updateStatement P t pks sc vals) rowIds
     = Inr (map (\<lambda>r. \<lparr>stmt_sql = ''UPDATE '' @ escapeIdentifier t @ '' SET '' @ sc @ '' WHERE '' @
                                  clause (projr (buildPrimaryKeyWhere P pks r)),
                       stmt_params = vals @ values_list (projr (buildPrimaryKeyWhere P pks r))\<rparr>) rowIds)"
proof -
  have "\<forall>r \<in> set rowIds. \<exists>st. updateStatement P t pks sc vals r = Inr st"
    using assms by (auto simp: updateStatement_def)
  then have "collectStatements (updateStatement P t pks sc vals) rowIds
      = Inr (map (\<lambda>r. projr (updateStatement P t pks sc vals r)) rowIds)"
    by (rule collectStatements_map)
  moreover have "map (\<lambda>r. projr (updateStatement P t pks sc vals r)) rowIds
      = map (\<lambda>r. \<lparr>stmt_sql = ''UPDATE '' @ escapeIdentifier t @ '' SET '' @ sc @ '' WHERE '' @
                                  clause (projr (buildPrimaryKeyWhere P pks r)),
                       stmt_params = vals @ values_list (projr (buildPrimaryKeyWhere P pks r))\<rparr>) rowIds"
    using assms by (auto simp: updateStatement_projr)
  ultimately show ?thesis by simp
qed

text \<open>
  C3, amended. For a bulk-delete (bulk-update) request with a non-empty list of \<open>n\<close> row
  identifiers, on a table for which \<^verbatim>\<open>PRAGMA table_info\<close> returns at least one primary-key
  column, when \<open>buildPrimaryKeyWhere\<close> accepts every row identifier (and, for bulk-update, the
  data has a column that is not a primary key) and the batch returns: the handler builds
  \<open>n\<close> \<^verbatim>\<open>DELETE\<close> (\<^verbatim>\<open>UPDATE\<close>) statements, one per row identifier in order, each with the
  primary-key \<^verbatim>\<open>WHERE\<close> clause of its identifier; after the \<^verbatim>\<open>PRAGMA\<close> its only call on the
  database is one \<^verbatim>\<open>db.batch\<close> with these statements; and the response has
  \<^verbatim>\<open>meta.rowsProcessed\<close> \<open>= n\<close> and \<^verbatim>\<open>meta.changes\<close> the sum of \<^verbatim>\<open>meta?.changes ?? 0\<close> over the
  results of the batch.
\<close>

theorem bulk_routes_single_batch:
  fixes db :: "'s d1database"
  assumes pr: "d1_all db \<lparr>stmt_sql = tableInfoSql t, stmt_params = []\<rparr> s = (Inr res, s1)"
    and rows: "rowIds \<noteq> []"
    and keys: "primaryKeysOf (res_results res) \<noteq> []"
    and ids: "\<forall>r \<in> set rowIds. \<exists>wh. buildPrimaryKeyWhere P (primaryKeysOf (res_results res)) r = Inr wh"
  defines "pks \<equiv> primaryKeysOf (res_results res)"
  defines "deletes \<equiv>
     map (\<lambda>r. \<lparr>stmt_sql = ''DELETE FROM '' @ escapeIdentifier t @ '' WHERE '' @
                            clause (projr (buildPrimaryKeyWhere P pks r)),
                 stmt_params = values_list (projr (buildPrimaryKeyWhere P pks r))\<rparr>) rowIds"
  defines "updates \<equiv> \<lambda>data.
     map (\<lambda>r. \<lparr>stmt_sql = ''UPDATE '' @ escapeIdentifier t @ '' SET '' @
                            setClauseOf (updateEntriesOf pks data) @ '' WHERE '' @
                            clause (projr (buildPrimaryKeyWhere P pks r)),
                 stmt_params = map snd (updateEntriesOf pks data) @
                               values_list (projr (buildPrimaryKeyWhere P pks r))\<rparr>) rowIds"
  shows
  "length deletes = length rowIds
   \<and> (\<forall>results s2. d1_batch db deletes s1 = (Inr results, s2) \<longrightarrow>
        bulkDelete P (Some db) t (Inr (Some rowIds)) (s, l)
          = (json [(''success'', JBool True),
                   (''meta'', JObj [(''changes'', JNum (sum_list (map changesOf results))),
                                    (''rowsProcessed'', JNum (int (length rowIds)))])] 200,
             (s2, l @ [(D1All \<lparr>stmt_sql = tableInfoSql t, stmt_params = []\<rparr>, None),
                       (D1Batch deletes, None)])))
   \<and> length (updates data) = length rowIds
   \<and> (updateEntriesOf pks data \<noteq> [] \<longrightarrow>
        (\<forall>results s2. d1_batch db (updates data) s1 = (Inr results, s2) \<longrightarrow>
           bulkUpdate P (Some db) t (Inr \<lparr>bu_rowIds = Some rowIds, bu_data = Some data\<rparr>) (s, l)
             = (json [(''success'', JBool True),
                      (''meta'', JObj [(''changes'', JNum (sum_list (map changesOf results))),
                                       (''rowsProcessed'', JNum (int (length rowIds)))])] 200,
                (s2, l @ [(D1All \<lparr>stmt_sql = tableInfoSql t, stmt_params = []\<rparr>, None),
                          (D1Batch (updates data), None)]))))"
proof (intro conjI allI impI)
  show "length deletes = length rowIds" by (simp add: deletes_def)
  show "length (updates data) = length rowIds" by (simp add: updates_def)
next
  fix results s2
  assume b: "d1_batch db deletes s1 = (Inr results, s2)"
  have c: "collectStatements (deleteStatement P t pks) rowIds = Inr deletes"
    unfolding deletes_def using ids unfolding pks_def [symmetric] by (rule collect_delete)
  show "bulkDelete P (Some db) t (Inr (Some rowIds)) (s, l)
          = (json [(''success'', JBool True),
                   (''meta'', JObj [(''changes'', JNum (sum_list (map changesOf results))),
                                    (''rowsProcessed'', JNum (int (length rowIds)))])] 200,
             (s2, l @ [(D1All \<lparr>stmt_sql = tableInfoSql t, stmt_params = []\<rparr>, None),
                       (D1Batch deletes, None)]))"
    using keys c b
    by (simp add: bulkDelete_unfold [OF pr rows] pks_def [symmetric] bulkMeta_def totalChangesOf_sum)
next
  fix results s2
  assume e: "updateEntriesOf pks data \<noteq> []"
    and b: "d1_batch db (updates data) s1 = (Inr results, s2)"
  from e have d: "data \<noteq> []" by (auto simp: updateEntriesOf_def)
  have m: "map (\<lambda>(k, v). v) (updateEntriesOf pks data) = map snd (updateEntriesOf pks data)"
    by (simp add: case_prod_beta')
  have c: "collectStatements (updateStatement P t pks (setClauseOf (updateEntriesOf pks data))
              (map (\<lambda>(k, v). v) (updateEntriesOf pks data))) rowIds = Inr (updates data)"
    unfolding updates_def m using ids unfolding pks_def [symmetric] by (rule collect_update)
  show "bulkUpdate P (Some db) t (Inr \<lparr>bu_rowIds = Some rowIds, bu_data = Some data\<rparr>) (s, l)
             = (json [(''success'', JBool True),
                      (''meta'', JObj [(''changes'', JNum (sum_list (map changesOf results))),
                                       (''rowsProcessed'', JNum (int (length rowIds)))])] 200,
                (s2, l @ [(D1All \<lparr>stmt_sql = tableInfoSql t, stmt_params = []\<rparr>, None),
                          (D1Batch (updates data), None)]))"
    using keys c b e
    by (simp add: bulkUpdate_unfold [OF pr rows d] pks_def [symmetric] bulkMeta_def totalChangesOf_sum)
qed


theorem bulk_routes_single_batch_witness:
  "bulkDelete (\<lambda>_. None) (Some (exampleDb exampleColumns)) ''t''
       (Inr (Some [RowStr ''1'', RowObj [(''id'', JNum 2)]])) (0, [])
     = (json [(''success'', JBool True),
              (''meta'', JObj [(''changes'', JNum 2), (''rowsProcessed'', JNum 2)])] 200,
        (3, [(D1All \<lparr>stmt_sql = ''PRAGMA table_info('' @ [DQ] @ ''t'' @ [DQ] @ '')'', stmt_params = []\<rparr>,
              None),
             (D1Batch
                [\<lparr>stmt_sql = ''DELETE FROM '' @ [DQ] @ ''t'' @ [DQ] @ '' WHERE '' @ [DQ] @ ''id'' @ [DQ] @ '' = ?'',
                  stmt_params = [JStr ''1'']\<rparr>,
                 \<lparr>stmt_sql = ''DELETE FROM '' @ [DQ] @ ''t'' @ [DQ] @ '' WHERE '' @ [DQ] @ ''id'' @ [DQ] @ '' = ?'',
                  stmt_params = [JNum 2]\<rparr>], None)]))
   \<and> bulkUpdate (\<lambda>_. None) (Some (exampleDb exampleColumns)) ''t''
       (Inr \<lparr>bu_rowIds = Some [RowStr ''1'', RowObj [(''id'', JNum 2)]],
             bu_data = Some [(''id'', JNum 9), (''title'', JStr ''x'')]\<rparr>) (0, [])
     = (json [(''success'', JBool True),
              (''meta'', JObj [(''changes'', JNum 2), (''rowsProcessed'', JNum 2)])] 200,
        (3, [(D1All \<lparr>stmt_sql = ''PRAGMA table_info('' @ [DQ] @ ''t'' @ [DQ] @ '')'', stmt_params = []\<rparr>,
              None),
             (D1Batch
                [\<lparr>stmt_sql = ''UPDATE '' @ [DQ] @ ''t'' @ [DQ] @ '' SET '' @ [DQ] @ ''title'' @ [DQ] @
                             '' = ? WHERE '' @ [DQ] @ ''id'' @ [DQ] @ '' = ?'',
                  stmt_params = [JStr ''x'', JStr ''1'']\<rparr>,
                 \<lparr>stmt_sql = ''UPDATE '' @ [DQ] @ ''t'' @ [DQ] @ '' SET '' @ [DQ] @ ''title'' @ [DQ] @
                             '' = ? WHERE '' @ [DQ] @ ''id'' @ [DQ] @ '' = ?'',
                  stmt_params = [JStr ''x'', JNum 2]\<rparr>], None)]))"
proof -
  let ?ids = "[RowStr ''1'', RowObj [(''id'', JNum 2)]]"
  let ?data = "[(''id'', JNum 9), (''title'', JStr ''x'')]"
  have res: "res_results (exampleResult exampleColumns) = exampleColumns"
    by (simp add: exampleResult_def)
  note pk = primaryKeysOf_exampleColumns
  have w1: "buildPrimaryKeyWhere (\<lambda>_. None) [''id''] (RowStr ''1'')
              = Inr \<lparr>clause = [DQ] @ ''id'' @ [DQ] @ '' = ?'', values_list = [JStr ''1'']\<rparr>"
    by (simp add: buildPrimaryKeyWhere_def startsWith_def pkCondition_def escapeIdentifier_def)
  have w2: "buildPrimaryKeyWhere (\<lambda>_. None) [''id''] (RowObj [(''id'', JNum 2)])
              = Inr \<lparr>clause = [DQ] @ ''id'' @ [DQ] @ '' = ?'', values_list = [JNum 2]\<rparr>"
    by (simp add: buildPrimaryKeyWhere_def pkCondition_def escapeIdentifier_def getProp_def objectPrototypeMembers_def)
  have rows: "?ids \<noteq> []" by simp
  have keys: "primaryKeysOf (res_results (exampleResult exampleColumns)) \<noteq> []"
    by (simp add: res pk)
  have ids: "\<forall>r \<in> set ?ids. \<exists>wh. buildPrimaryKeyWhere (\<lambda>_. None)
                (primaryKeysOf (res_results (exampleResult exampleColumns))) r = Inr wh"
    by (simp add: res pk w1 w2)
  have ent: "updateEntriesOf [''id''] ?data = [(''title'', JStr ''x'')]"
    by (simp add: updateEntriesOf_def)
  have ch: "changesOf (exampleResult []) = 1"
    by (simp add: changesOf_def exampleResult_def)
  note t = bulk_routes_single_batch [of "exampleDb exampleColumns" "''t''" 0
      "exampleResult exampleColumns" "Suc 0", OF exampleDb_pragma rows keys ids,
      where data = ?data and l = "[]"]
  have d: "bulkDelete (\<lambda>_. None) (Some (exampleDb exampleColumns)) ''t'' (Inr (Some ?ids)) (0, [])
     = (json [(''success'', JBool True),
              (''meta'', JObj [(''changes'', JNum 2), (''rowsProcessed'', JNum 2)])] 200,
        (3, [(D1All \<lparr>stmt_sql = ''PRAGMA table_info('' @ [DQ] @ ''t'' @ [DQ] @ '')'', stmt_params = []\<rparr>,
              None),
             (D1Batch
                [\<lparr>stmt_sql = ''DELETE FROM '' @ [DQ] @ ''t'' @ [DQ] @ '' WHERE '' @ [DQ] @ ''id'' @ [DQ] @ '' = ?'',
                  stmt_params = [JStr ''1'']\<rparr>,
                 \<lparr>stmt_sql = ''DELETE FROM '' @ [DQ] @ ''t'' @ [DQ] @ '' WHERE '' @ [DQ] @ ''id'' @ [DQ] @ '' = ?'',
                  stmt_params = [JNum 2]\<rparr>], None)]))"
    using t [THEN conjunct2, THEN conjunct1, THEN spec, THEN spec, THEN mp, OF exampleDb_batch]
    by (simp add: res pk w1 w2 ch tableInfoSql_def escapeIdentifier_def)
  have nonempty: "updateEntriesOf (primaryKeysOf (res_results (exampleResult exampleColumns))) ?data \<noteq> []"
    by (simp add: res pk ent)
  have u: "bulkUpdate (\<lambda>_. None) (Some (exampleDb exampleColumns)) ''t''
       (Inr \<lparr>bu_rowIds = Some ?ids, bu_data = Some ?data\<rparr>) (0, [])
     = (json [(''success'', JBool True),
              (''meta'', JObj [(''changes'', JNum 2), (''rowsProcessed'', JNum 2)])] 200,
        (3, [(D1All \<lparr>stmt_sql = ''PRAGMA table_info('' @ [DQ] @ ''t'' @ [DQ] @ '')'', stmt_params = []\<rparr>,
              None),
             (D1Batch
                [\<lparr>stmt_sql = ''UPDATE '' @ [DQ] @ ''t'' @ [DQ] @ '' SET '' @ [DQ] @ ''title'' @ [DQ] @
                             '' = ? WHERE '' @ [DQ] @ ''id'' @ [DQ] @ '' = ?'',
                  stmt_params = [JStr ''x'', JStr ''1'']\<rparr>,
                 \<lparr>stmt_sql = ''UPDATE '' @ [DQ] @ ''t'' @ [DQ] @ '' SET '' @ [DQ] @ ''title'' @ [DQ] @
                             '' = ? WHERE '' @ [DQ] @ ''id'' @ [DQ] @ '' = ?'',
                  stmt_params = [JStr ''x'', JNum 2]\<rparr>], None)]))"
    using t [THEN conjunct2, THEN conjunct2, THEN conjunct2, THEN mp, OF nonempty,
             THEN spec, THEN spec, THEN mp, OF exampleDb_batch]
    by (simp add: res pk w1 w2 ch ent setClauseOf_def tableInfoSql_def escapeIdentifier_def)
  from d u show ?thesis by blast
qed

section \<open>Properties of all handlers: errors and calls\<close>

lemma thrownErrors_append: "thrownErrors (xs @ ys) = thrownErrors xs @ thrownErrors ys"
  by (induction xs rule: thrownErrors.induct) simp_all

lemma thrownBy_simps [simp]: "thrownBy (Inl e) = {e}" "thrownBy (Inr a) = {}"
  by (simp_all add: thrownBy_def)

lemma extends_iff: "extends w r \<longleftrightarrow> (\<exists>new. snd (snd r) = snd w @ new)"
  unfolding extends_def
  by (metis append_eq_conv_conj append_take_drop_id)

lemma newCalls_append: "snd (snd r) = snd w @ new \<Longrightarrow> newCalls w r = new"
  by (simp add: newCalls_def)

lemma handledI:
  "snd (snd r) = snd w @ new \<Longrightarrow> length new \<le> n \<Longrightarrow> caught R new (fst r) \<Longrightarrow> handled n R w r"
  by (auto simp: handled_def errorsCaught_def extends_iff newCalls_append)

lemma handledRI:
  "snd (snd r) = snd w @ new \<Longrightarrow> length new \<le> n \<Longrightarrow>
   (case fst r of JsonReply resp \<Rightarrow> caught R new resp
               | RawReply raw \<Rightarrow> thrownErrors new = [] \<and> Raw raw) \<Longrightarrow>
   handledR n R Raw w r"
  by (cases "fst r") (auto simp: handledR_def errorsCaughtR_def extends_iff newCalls_append)

lemma handled_mono: "handled n R w r \<Longrightarrow> n \<le> m \<Longrightarrow> handled m R w r"
  by (auto simp: handled_def)

lemma handledR_mono: "handledR n R Raw w r \<Longrightarrow> n \<le> m \<Longrightarrow> handledR m R Raw w r"
  by (auto simp: handledR_def)

lemma handled_jsonReply: "handled n R w r \<Longrightarrow> handledR n R Raw w (jsonReply r)"
  by (simp add: handled_def handledR_def errorsCaught_def errorsCaughtR_def jsonReply_def
      extends_def newCalls_def)

lemma ran_return: "Q a \<Longrightarrow> ran n R Q w (Inr a, w)"
  by (simp add: ran_def)

lemma ran_invoke: "ran (Suc 0) R (\<lambda>a. True) w (invoke c g w)"
  by (cases w) (auto simp: ran_def invoke_def split: prod.splits sum.splits)

lemma ran_bindE:
  assumes "ran n R (\<lambda>a. True) w r" and "\<And>a w1. ran m R Q w1 (f a w1)"
  shows "ran (n + m) R Q w (bindE r f)"
proof -
  obtain x w1 where Pair: "r = (x, w1)" by (cases r)
  from assms(1) Pair obtain new where n: "snd w1 = snd w @ new" "length new \<le> n"
    "case x of Inl e \<Rightarrow> e \<in> set (thrownErrors new) \<or> (thrownErrors new = [] \<and> e \<in> R)
             | Inr a \<Rightarrow> thrownErrors new = [] \<and> True"
    unfolding ran_def by auto
  show ?thesis
  proof (cases x)
    case (Inl e)
    with Pair n show ?thesis by (auto simp: ran_def bindE_def)
  next
    case (Inr a)
    from assms(2) [of w1 a] obtain new2 where m: "snd (snd (f a w1)) = snd w1 @ new2"
      "length new2 \<le> m"
      "case fst (f a w1) of
         Inl e \<Rightarrow> e \<in> set (thrownErrors new2) \<or> (thrownErrors new2 = [] \<and> e \<in> R)
       | Inr b \<Rightarrow> thrownErrors new2 = [] \<and> Q b"
      by (auto simp: ran_def)
    from Inr n have t: "thrownErrors new = []" by simp
    have "snd (snd (f a w1)) = snd w @ (new @ new2)" using n m by simp
    moreover have "length (new @ new2) \<le> n + m" using n m by simp
    moreover have "case fst (f a w1) of
          Inl e \<Rightarrow> e \<in> set (thrownErrors (new @ new2)) \<or>
                   (thrownErrors (new @ new2) = [] \<and> e \<in> R)
        | Inr b \<Rightarrow> thrownErrors (new @ new2) = [] \<and> Q b"
      using m(3) t by (cases "fst (f a w1)") (simp_all add: thrownErrors_append)
    ultimately have "ran (n + m) R Q w (f a w1)"
      unfolding ran_def by blast
    with Pair Inr show ?thesis by (simp add: bindE_def)
  qed
qed

lemma ran_mono: "ran n R Q w r \<Longrightarrow> n \<le> m \<Longrightarrow> ran m R Q w r"
  by (auto simp: ran_def)

lemma ran_weaken: "ran n R (\<lambda>a. True) w r \<Longrightarrow> ran n R (\<lambda>a. True) w r"
  by assumption

lemma ran_after_value:
  assumes "\<And>e. x = Inl e \<Longrightarrow> e \<in> R" and "\<And>a. ran n R Q w (f a w)"
  shows "ran n R Q w (bindE (x, w) f)"
  using assms by (cases x) (simp_all add: bindE_def ran_def)

lemma ran_after_call:
  assumes "\<And>a w1. ran m R Q w1 (f a w1)"
  shows "ran (Suc m) R Q w (bindE (invoke c g w) f)"
  using ran_bindE [OF ran_invoke, of m R Q f w c g, OF assms] by simp

lemma ran_after_all:
  "(\<And>a w1. ran m R Q w1 (f a w1)) \<Longrightarrow> ran (Suc m) R Q w (bindE (call_all db q w) f)"
  unfolding call_all_def by (rule ran_after_call)

lemma ran_after_run:
  "(\<And>a w1. ran m R Q w1 (f a w1)) \<Longrightarrow> ran (Suc m) R Q w (bindE (call_run db q w) f)"
  unfolding call_run_def by (rule ran_after_call)

lemma ran_after_first:
  "(\<And>a w1. ran m R Q w1 (f a w1)) \<Longrightarrow> ran (Suc m) R Q w (bindE (call_first db q w) f)"
  unfolding call_first_def by (rule ran_after_call)

lemma ran_after_batch:
  "(\<And>a w1. ran m R Q w1 (f a w1)) \<Longrightarrow> ran (Suc m) R Q w (bindE (call_batch db qs w) f)"
  unfolding call_batch_def by (rule ran_after_call)

lemma ran_after_getPrimaryKeys:
  assumes "\<And>a w1. ran m R Q w1 (f a w1)"
  shows "ran (Suc m) R Q w (bindE (getPrimaryKeys db t w) f)"
proof -
  have "bindE (getPrimaryKeys db t w) f
      = bindE (call_all db \<lparr>stmt_sql = tableInfoSql t, stmt_params = []\<rparr> w)
          (\<lambda>result w1. f (primaryKeysOf (res_results result)) w1)"
    by (simp add: getPrimaryKeys_def bindE_def split: prod.splits sum.splits)
  then show ?thesis using assms by (simp add: ran_after_all)
qed

lemma caught_error:
  "e \<in> set (thrownErrors new) \<or> (thrownErrors new = [] \<and> e \<in> R) \<Longrightarrow>
   caught R new (json [(''error'', JStr (String_exn e))] 500)
   \<and> caught R new (json [(''error'', JStr (String_exn e)), (''success'', JBool False)] 500)"
  by (auto simp: caught_def errorResponses_def)

lemma handled_catch500: "ran n R answered w r \<Longrightarrow> handled n R w (catch500 r)"
proof -
  assume a: "ran n R answered w r"
  obtain x w1 where Pair: "r = (x, w1)" by (cases r)
  from a Pair obtain new where n: "snd w1 = snd w @ new" "length new \<le> n"
    "case x of Inl e \<Rightarrow> e \<in> set (thrownErrors new) \<or> (thrownErrors new = [] \<and> e \<in> R)
             | Inr a \<Rightarrow> thrownErrors new = [] \<and> answered a"
    unfolding ran_def by auto
  show ?thesis
  proof (cases x)
    case (Inl e)
    with n Pair caught_error [of e new R] show ?thesis
      by (intro handledI [where new = new]) (auto simp: catch500_def)
  next
    case (Inr a)
    with n Pair show ?thesis
      by (intro handledI [where new = new]) (auto simp: catch500_def caught_def)
  qed
qed

lemma handled_catch500s: "ran n R answered w r \<Longrightarrow> handled n R w (catch500s r)"
proof -
  assume a: "ran n R answered w r"
  obtain x w1 where Pair: "r = (x, w1)" by (cases r)
  from a Pair obtain new where n: "snd w1 = snd w @ new" "length new \<le> n"
    "case x of Inl e \<Rightarrow> e \<in> set (thrownErrors new) \<or> (thrownErrors new = [] \<and> e \<in> R)
             | Inr a \<Rightarrow> thrownErrors new = [] \<and> answered a"
    unfolding ran_def by auto
  show ?thesis
  proof (cases x)
    case (Inl e)
    with n Pair caught_error [of e new R] show ?thesis
      by (intro handledI [where new = new]) (auto simp: catch500s_def)
  next
    case (Inr a)
    with n Pair show ?thesis
      by (intro handledI [where new = new]) (auto simp: catch500s_def caught_def)
  qed
qed

lemma handledR_catch500r: "ran n R (answeredR Raw) w r \<Longrightarrow> handledR n R Raw w (catch500r r)"
proof -
  assume a: "ran n R (answeredR Raw) w r"
  obtain x w1 where Pair: "r = (x, w1)" by (cases r)
  from a Pair obtain new where n: "snd w1 = snd w @ new" "length new \<le> n"
    "case x of Inl e \<Rightarrow> e \<in> set (thrownErrors new) \<or> (thrownErrors new = [] \<and> e \<in> R)
             | Inr a \<Rightarrow> thrownErrors new = [] \<and> answeredR Raw a"
    unfolding ran_def by auto
  show ?thesis
  proof (cases x)
    case (Inl e)
    with n Pair caught_error [of e new R] show ?thesis
      by (intro handledRI [where new = new]) (auto simp: catch500r_def)
  next
    case (Inr a)
    with n Pair show ?thesis
      by (intro handledRI [where new = new])
         (auto simp: catch500r_def caught_def answeredR_def split: reply.splits)
  qed
qed

lemma answered_200: "answered (json kvs 200)"
  by (simp add: answered_def json_def)

lemma answered_400: "m \<in> set validationMessages \<Longrightarrow> answered (json [(''error'', JStr m)] 400)"
  by (auto simp: answered_def)

lemma answered_404: "m \<in> set notFoundMessages \<Longrightarrow> answered (notFound m)"
  by (auto simp: answered_def notFound_def)

lemma answeredR_json: "answered resp \<Longrightarrow> answeredR Raw (JsonReply resp)"
  by (simp add: answeredR_def)

lemma answeredR_raw: "Raw raw \<Longrightarrow> answeredR Raw (RawReply raw)"
  by (simp add: answeredR_def)

lemma handled_pure: "answered resp \<Longrightarrow> handled n R w (resp, w)"
  by (rule handledI [where new = "[]"]) (simp_all add: caught_def)

lemma handledR_pure: "answeredR Raw rep \<Longrightarrow> handledR n R Raw w (rep, w)"
  by (rule handledRI [where new = "[]"]) (auto simp: caught_def answeredR_def split: reply.splits)

lemma handled_notFound: "m \<in> set notFoundMessages \<Longrightarrow> handled n R w (notFound m, w)"
  by (rule handled_pure) (rule answered_404)

lemma where_error: "buildPrimaryKeyWhere P pks r = Inl e \<Longrightarrow> e = invalidRowIdentifier"
  by (auto simp: buildPrimaryKeyWhere_def invalidRowIdentifier_def Let_def
      split: option.splits row_id.splits list.splits if_splits)

lemma spread_error: "fromCharCodeSpread m bytes = Inl e \<Longrightarrow> e = tooManyArguments"
  by (auto simp: fromCharCodeSpread_def tooManyArguments_def split: if_splits)

lemma collect_error: "collectStatements mk rowIds = Inl e \<Longrightarrow> \<exists>r. mk r = Inl e"
  by (induction rowIds) (auto split: sum.splits)

lemma collect_delete_error:
  "collectStatements (deleteStatement P t pks) rowIds = Inl e \<Longrightarrow> e = invalidRowIdentifier"
  by (auto dest!: collect_error where_error simp: deleteStatement_def split: sum.splits)

lemma collect_update_error:
  "collectStatements (updateStatement P t pks sc vals) rowIds = Inl e \<Longrightarrow> e = invalidRowIdentifier"
  by (auto dest!: collect_error where_error simp: updateStatement_def split: sum.splits)

lemma headers_error:
  "objectHeaders Headers_set numberToString obj = Inl e \<Longrightarrow> e \<in> headerErrors Headers_set"
  by (auto simp: objectHeaders_def headerErrors_def split: sum.splits option.splits)

lemma messages [simp]:
  "''SQL query is required'' \<in> set validationMessages"
  "''No data provided'' \<in> set validationMessages"
  "''Table has no primary key'' \<in> set validationMessages"
  "''No data to update'' \<in> set validationMessages"
  "''Column name is required'' \<in> set validationMessages"
  "''No row IDs provided'' \<in> set validationMessages"
  "''No data to update (only primary key columns provided)'' \<in> set validationMessages"
  "''Message is required'' \<in> set validationMessages"
  "''Messages array is required and must not be empty'' \<in> set validationMessages"
  "''Database not found'' \<in> set notFoundMessages"
  "''Namespace not found'' \<in> set notFoundMessages"
  "''Key not found'' \<in> set notFoundMessages"
  "''Bucket not found'' \<in> set notFoundMessages"
  "''Object not found'' \<in> set notFoundMessages"
  "''Queue not found'' \<in> set notFoundMessages"
  by (simp_all add: validationMessages_def notFoundMessages_def)

lemmas ran_rules = ran_after_all ran_after_run ran_after_first ran_after_batch
  ran_after_getPrimaryKeys ran_after_call ran_after_value ran_return
  answered_200 answered_400 answered_404 answeredR_json answeredR_raw

lemmas error_rules = where_error spread_error collect_delete_error collect_update_error
  headers_error

subsection \<open>D1 routes of the API worker\<close>

lemma listDatabases_handled: "handled 0 R w (listDatabases m, w)"
  unfolding listDatabases_def by (rule handled_pure) (rule answered_200)

lemma getSchema_handled: "handled (Suc 0) R w (getSchema dbo w)"
  unfolding getSchema_def
  by (auto split: option.splits intro!: handled_notFound handled_catch500 ran_rules)

lemma getRows_handled: "handled (Suc 0) R w (getRows dbo t lim off sq dq w)"
  unfolding getRows_def Let_def
  by (auto split: option.splits intro!: handled_notFound handled_catch500 ran_rules)

lemma postQuery_handled: "thrownBy b \<subseteq> R \<Longrightarrow> handled (Suc 0) R w (postQuery dbo b w)"
  unfolding postQuery_def Let_def
  by (auto split: option.splits intro!: handled_notFound handled_catch500s ran_rules)

lemma insertRow_handled: "thrownBy b \<subseteq> R \<Longrightarrow> handled (Suc 0) R w (insertRow dbo t b w)"
  unfolding insertRow_def Let_def
  by (auto split: option.splits intro!: handled_notFound handled_catch500s ran_rules)

lemma putRow_handled:
  "thrownBy b \<subseteq> R \<Longrightarrow> invalidRowIdentifier \<in> R \<Longrightarrow>
   handled (Suc (Suc 0)) R w (putRow P dbo t rowId b w)"
  unfolding putRow_def Let_def
  by (auto split: option.splits intro!: handled_notFound handled_catch500s ran_rules
      dest!: error_rules)

lemma patchRow_handled:
  "thrownBy b \<subseteq> R \<Longrightarrow> invalidRowIdentifier \<in> R \<Longrightarrow>
   handled (Suc (Suc 0)) R w (patchRow P dbo t rowId b w)"
  unfolding patchRow_def Let_def
  by (auto split: option.splits intro!: handled_notFound handled_catch500s ran_rules
      dest!: error_rules)

lemma deleteRow_handled:
  "invalidRowIdentifier \<in> R \<Longrightarrow> handled (Suc (Suc 0)) R w (deleteRow P dbo t rowId w)"
  unfolding deleteRow_def Let_def
  by (auto split: option.splits intro!: handled_notFound handled_catch500s ran_rules
      dest!: error_rules)

lemma bulkDelete_handled:
  "thrownBy b \<subseteq> R \<Longrightarrow> invalidRowIdentifier \<in> R \<Longrightarrow>
   handled (Suc (Suc 0)) R w (bulkDelete P dbo t b w)"
  unfolding bulkDelete_def Let_def
  by (auto split: option.splits intro!: handled_notFound handled_catch500s ran_rules
      dest!: error_rules)

lemma bulkUpdate_handled:
  "thrownBy b \<subseteq> R \<Longrightarrow> invalidRowIdentifier \<in> R \<Longrightarrow>
   handled (Suc (Suc 0)) R w (bulkUpdate P dbo t b w)"
  unfolding bulkUpdate_def Let_def
  by (auto split: option.splits intro!: handled_notFound handled_catch500s ran_rules
      dest!: error_rules)

lemma invoke_eq:
  "invoke c f w = (fst (f (fst w)), (snd (f (fst w)), snd w @ [(c, outcomeOf (fst (f (fst w))))]))"
  by (simp add: invoke_def outcomeOf_def split: prod.splits sum.splits)

lemma handled_all4:
  assumes "snd w4 = snd w @ [(c1, outcomeOf r1), (c2, outcomeOf r2), (c3, outcomeOf r3), (c4, outcomeOf r4)]"
  shows "handled 4 R w
     (catch500 (bindE (r1, w4) (\<lambda>a w. bindE (r2, w) (\<lambda>b w. bindE (r3, w) (\<lambda>c w.
        bindE (r4, w) (\<lambda>d w. (Inr (json (kvs a b c d) 200), w)))))))"
  apply (rule handledI [where new = "[(c1, outcomeOf r1), (c2, outcomeOf r2), (c3, outcomeOf r3), (c4, outcomeOf r4)]"])
  using assms
  by (cases r1; cases r2; cases r3; cases r4;
      auto simp add: catch500_def bindE_def outcomeOf_def caught_def errorResponses_def answered_def
        json_def)+

lemma getTable_handled: "handled 4 R w (getTable dbo t w)"
proof (cases dbo)
  case None
  then show ?thesis by (simp add: getTable_def handled_notFound)
next
  case (Some db)
  then show ?thesis
    unfolding getTable_def
    by (simp add: Let_def call_all_def call_first_def invoke_eq handled_all4)
qed

lemma createD1Routes_handled:
  "handled (if (\<exists>t. req = GetTable t) then 4 else 2) (ownErrors req) w (createD1Routes P dbo req w)"
proof (cases req)
  case (ListDatabases m)
  then show ?thesis using handled_mono [OF listDatabases_handled, of 2] by simp
next
  case GetSchema
  then show ?thesis using handled_mono [OF getSchema_handled, of 2] by simp
next
  case (GetTable t)
  then show ?thesis by (simp add: getTable_handled)
next
  case (GetRows t lim off sq dq)
  then show ?thesis using handled_mono [OF getRows_handled, of 2] by simp
next
  case (PostQuery b)
  then show ?thesis by (auto intro!: handled_mono [OF postQuery_handled])
next
  case (InsertRow t b)
  then show ?thesis by (auto intro!: handled_mono [OF insertRow_handled])
next
  case (PutRow t r b)
  then show ?thesis by (auto intro!: handled_mono [OF putRow_handled])
next
  case (PatchRow t r b)
  then show ?thesis by (auto intro!: handled_mono [OF patchRow_handled])
next
  case (DeleteRow t r)
  then show ?thesis by (auto intro!: handled_mono [OF deleteRow_handled])
next
  case (BulkDelete t b)
  then show ?thesis by (auto intro!: handled_mono [OF bulkDelete_handled])
next
  case (BulkUpdate t b)
  then show ?thesis by (auto intro!: handled_mono [OF bulkUpdate_handled])
qed

subsection \<open>KV routes\<close>

lemma kvListNamespaces_handled: "handled 0 R w (kvListNamespaces m, w)"
  unfolding kvListNamespaces_def by (rule handled_pure) (rule answered_200)

lemma kvListKeys_handled: "handled (Suc 0) R w (kvListKeys kvo p lim c w)"
  unfolding kvListKeys_def Let_def
  by (auto split: option.splits intro!: handled_notFound handled_catch500 ran_rules)

lemma answered_key: "answered keyNotFound" "answered (keyFound k v m)"
  by (simp_all add: answered_def keyNotFound_def keyFound_def json_def notFoundMessages_def)

lemma kvGetKey_handled:
  "tooManyArguments \<in> R \<Longrightarrow> handled (Suc 0) R w (kvGetKey maxArguments btoa kvo key typeQ w)"
  unfolding kvGetKey_def
  by (auto split: option.splits prod.splits
      intro!: handled_notFound handled_catch500 ran_rules answered_key dest!: error_rules)

lemma kvPutKey_handled: "thrownBy b \<subseteq> R \<Longrightarrow> handled (Suc 0) R w (kvPutKey kvo key b w)"
  unfolding kvPutKey_def
  by (auto split: option.splits intro!: handled_notFound handled_catch500 ran_rules)

lemma kvDeleteKey_handled: "handled (Suc 0) R w (kvDeleteKey kvo key w)"
  unfolding kvDeleteKey_def
  by (auto split: option.splits intro!: handled_notFound handled_catch500 ran_rules)

lemma deleteAll_ran: "ran (length keys) R (\<lambda>a. True) w (deleteAll kv keys w)"
proof (induction keys arbitrary: w)
  case Nil
  show ?case by (simp add: ran_def)
next
  case (Cons key keys)
  obtain r w1 where i: "invoke (KVDelete key) (kv_delete kv key) w = (r, w1)"
    by (cases "invoke (KVDelete key) (kv_delete kv key) w")
  obtain rs w2 where d: "deleteAll kv keys w1 = (rs, w2)"
    by (cases "deleteAll kv keys w1")
  from i have l1: "snd w1 = snd w @ [(KVDelete key, outcomeOf r)]"
    by (auto simp: invoke_def outcomeOf_def split: prod.splits sum.splits)
  from Cons [of w1] d obtain new where n: "snd w2 = snd w1 @ new" "length new \<le> length keys"
    "case rs of Inl e \<Rightarrow> e \<in> set (thrownErrors new) \<or> (thrownErrors new = [] \<and> e \<in> R)
              | Inr a \<Rightarrow> thrownErrors new = [] \<and> True"
    by (auto simp: ran_def)
  have "ran (Suc (length keys)) R (\<lambda>a. True) w (case r of Inl e \<Rightarrow> (Inl e, w2) | Inr u \<Rightarrow> (rs, w2))"
    unfolding ran_def
    apply (rule exI [where x = "(KVDelete key, outcomeOf r) # new"])
    using l1 n by (cases r; cases rs) (auto simp: outcomeOf_def)
  then show ?case by (simp add: i d)
qed

lemma bindE_Inr: "bindE (Inr a, w) f = f a w"
  by (simp add: bindE_def)

lemma ran_after_deleteAll:
  assumes "\<And>a w1. ran 0 R Q w1 (f a w1)"
  shows "ran (length keys) R Q w (bindE (deleteAll kv keys w) f)"
  using ran_bindE [OF deleteAll_ran assms, of keys w kv] by simp

lemma kvBulkDelete_handled:
  "thrownBy b \<subseteq> R \<Longrightarrow> handled (case b of Inl e \<Rightarrow> 0 | Inr keys \<Rightarrow> length keys) R w (kvBulkDelete kvo b w)"
proof (cases kvo)
  case None
  then show ?thesis by (simp add: kvBulkDelete_def handled_notFound)
next
  case (Some kv)
  assume R: "thrownBy b \<subseteq> R"
  show ?thesis
  proof (cases b)
    case (Inl e)
    with R Some show ?thesis
      unfolding kvBulkDelete_def
      by (auto intro!: handled_catch500 simp: bindE_def ran_def)
  next
    case (Inr keys)
    with Some show ?thesis
      unfolding kvBulkDelete_def
      by (auto intro!: handled_catch500 ran_after_deleteAll ran_return answered_200 simp: bindE_Inr)
  qed
qed

lemma createKVRoutes_handled:
  "handled (case req of KvBulkDelete (Inr keys) \<Rightarrow> length keys | _ \<Rightarrow> 2) (kvOwnErrors req) w
     (createKVRoutes maxArguments btoa kvo req w)"
proof (cases req)
  case (ListNamespaces m)
  then show ?thesis by (auto intro!: handled_mono [OF kvListNamespaces_handled])
next
  case (ListKeys p lim c)
  then show ?thesis by (auto intro!: handled_mono [OF kvListKeys_handled])
next
  case (GetKey key typeQ)
  then show ?thesis by (auto intro!: handled_mono [OF kvGetKey_handled])
next
  case (PutKey key b)
  then show ?thesis by (auto intro!: handled_mono [OF kvPutKey_handled])
next
  case (DeleteKey key)
  then show ?thesis by (auto intro!: handled_mono [OF kvDeleteKey_handled])
next
  case (KvBulkDelete b)
  then show ?thesis
    by (cases b) (auto intro!: handled_mono [OF kvBulkDelete_handled])
qed

lemma serverKvListNamespaces_handled: "handled 0 R w (serverKvListNamespaces found, w)"
  unfolding serverKvListNamespaces_def by (rule handled_pure) (rule answered_200)

lemma serverKvListKeys_handled:
  "thrownBy g \<subseteq> R \<Longrightarrow> handled (Suc 0) R w (serverKvListKeys g p c lim w)"
  unfolding serverKvListKeys_def Let_def
  by (auto intro!: handled_catch500 ran_rules)

lemma serverKvGetKey_handled:
  "thrownBy g \<subseteq> R \<Longrightarrow> handled (Suc (Suc 0)) R w (serverKvGetKey toBase g key typeQ w)"
  unfolding serverKvGetKey_def
  by (auto split: option.splits prod.splits intro!: handled_catch500 ran_rules answered_key)

lemma serverKvPutKey_handled:
  "thrownBy g \<subseteq> R \<Longrightarrow> thrownBy b \<subseteq> R \<Longrightarrow> handled (Suc 0) R w (serverKvPutKey g key b w)"
  unfolding serverKvPutKey_def
  by (auto intro!: handled_catch500 ran_rules)

lemma serverKvDeleteKey_handled:
  "thrownBy g \<subseteq> R \<Longrightarrow> handled (Suc 0) R w (serverKvDeleteKey g key w)"
  unfolding serverKvDeleteKey_def
  by (auto intro!: handled_catch500 ran_rules)

lemma serverKvBulkDelete_handled:
  "thrownBy g \<subseteq> R \<Longrightarrow> thrownBy b \<subseteq> R \<Longrightarrow>
   handled (case b of Inl e \<Rightarrow> 0 | Inr keys \<Rightarrow> length keys) R w (serverKvBulkDelete g b w)"
proof (cases g)
  case (Inl e)
  assume "thrownBy g \<subseteq> R"
  with Inl show ?thesis
    unfolding serverKvBulkDelete_def
    by (auto intro!: handled_catch500 simp: bindE_def ran_def)
next
  case g: (Inr kv)
  assume R: "thrownBy b \<subseteq> R"
  show ?thesis
  proof (cases b)
    case (Inl e)
    with R g show ?thesis
      unfolding serverKvBulkDelete_def
      by (auto intro!: handled_catch500 simp: bindE_def ran_def)
  next
    case (Inr keys)
    with g show ?thesis
      unfolding serverKvBulkDelete_def
      by (auto intro!: handled_catch500 ran_after_deleteAll ran_return answered_200 simp: bindE_Inr)
  qed
qed

lemma server_createKVRoutes_handled:
  "handled (case req of ServerKvBulkDelete (Inr keys) \<Rightarrow> length keys | _ \<Rightarrow> 2)
     (thrownBy g \<union> serverKvOwnErrors req) w (server_createKVRoutes toBase g req w)"
proof (cases req)
  case (ServerListNamespaces m)
  then show ?thesis by (auto intro!: handled_mono [OF serverKvListNamespaces_handled])
next
  case (ServerListKeys p c lim)
  then show ?thesis by (auto intro!: handled_mono [OF serverKvListKeys_handled])
next
  case (ServerGetKey key typeQ)
  then show ?thesis by (auto intro!: handled_mono [OF serverKvGetKey_handled])
next
  case (ServerPutKey key b)
  then show ?thesis by (auto intro!: handled_mono [OF serverKvPutKey_handled])
next
  case (ServerDeleteKey key)
  then show ?thesis by (auto intro!: handled_mono [OF serverKvDeleteKey_handled])
next
  case (ServerKvBulkDelete b)
  then show ?thesis
    by (cases b) (auto intro!: handled_mono [OF serverKvBulkDelete_handled])
qed

subsection \<open>D1 routes of the dashboard server\<close>

lemma serverListDatabases_handled: "handled 0 R w (serverListDatabases found, w)"
  unfolding serverListDatabases_def by (rule handled_pure) (rule answered_200)

lemma serverGetSchema_handled: "thrownBy g \<subseteq> R \<Longrightarrow> handled (Suc 0) R w (serverGetSchema g w)"
  unfolding serverGetSchema_def
  by (auto intro!: handled_catch500 ran_rules)

lemma serverGetTable_handled:
  "thrownBy g \<subseteq> R \<Longrightarrow> handled (Suc (Suc 0)) R w (serverGetTable g t w)"
  unfolding serverGetTable_def
  by (auto intro!: handled_catch500 ran_rules)

lemma serverGetRows_handled:
  "thrownBy g \<subseteq> R \<Longrightarrow> handled (Suc 0) R w (serverGetRows g t lim off w)"
  unfolding serverGetRows_def Let_def
  by (auto intro!: handled_catch500 ran_rules)

lemma serverPostQuery_handled:
  "thrownBy g \<subseteq> R \<Longrightarrow> thrownBy b \<subseteq> R \<Longrightarrow> handled (Suc 0) R w (serverPostQuery g b w)"
  unfolding serverPostQuery_def Let_def
  by (auto split: option.splits intro!: handled_catch500 ran_rules)

lemma serverInsertRow_handled:
  "thrownBy g \<subseteq> R \<Longrightarrow> thrownBy b \<subseteq> R \<Longrightarrow> handled (Suc 0) R w (serverInsertRow g t b w)"
  unfolding serverInsertRow_def Let_def
  by (auto intro!: handled_catch500 ran_rules)

lemma serverPutRow_handled:
  "thrownBy g \<subseteq> R \<Longrightarrow> thrownBy b \<subseteq> R \<Longrightarrow> handled (Suc 0) R w (serverPutRow g t r b w)"
  unfolding serverPutRow_def Let_def
  by (auto intro!: handled_catch500 ran_rules)

lemma serverDeleteRow_handled:
  "thrownBy g \<subseteq> R \<Longrightarrow> handled (Suc 0) R w (serverDeleteRow g t r w)"
  unfolding serverDeleteRow_def
  by (auto intro!: handled_catch500 ran_rules)

lemma server_createD1Routes_handled:
  "handled 2 (thrownBy g \<union> serverD1OwnErrors req) w (server_createD1Routes g req w)"
proof (cases req)
  case (ServerListDatabases m)
  then show ?thesis by (auto intro!: handled_mono [OF serverListDatabases_handled])
next
  case ServerGetSchema
  then show ?thesis by (auto intro!: handled_mono [OF serverGetSchema_handled])
next
  case (ServerGetTable t)
  then show ?thesis by (auto intro!: handled_mono [OF serverGetTable_handled])
next
  case (ServerGetRows t lim off)
  then show ?thesis by (auto intro!: handled_mono [OF serverGetRows_handled])
next
  case (ServerPostQuery b)
  then show ?thesis by (auto intro!: handled_mono [OF serverPostQuery_handled])
next
  case (ServerInsertRow t b)
  then show ?thesis by (auto intro!: handled_mono [OF serverInsertRow_handled])
next
  case (ServerPutRow t r b)
  then show ?thesis by (auto intro!: handled_mono [OF serverPutRow_handled])
next
  case (ServerDeleteRow t r)
  then show ?thesis by (auto intro!: handled_mono [OF serverDeleteRow_handled])
qed

subsection \<open>Queue, log and health routes\<close>

lemma queuesList_handled: "handled 0 R w (queuesList ps cs, w)"
  unfolding queuesList_def by (rule handled_pure) (rule answered_200)

lemma queueSend_handled: "thrownBy b \<subseteq> R \<Longrightarrow> handled (Suc 0) R w (queueSend qo b w)"
  unfolding queueSend_def
  by (auto split: option.splits intro!: handled_notFound handled_catch500 ran_rules)

lemma queueSendBatch_handled:
  "thrownBy b \<subseteq> R \<Longrightarrow> handled (Suc 0) R w (queueSendBatch numberToString qo b w)"
  unfolding queueSendBatch_def Let_def
  by (auto split: option.splits jsval.splits intro!: handled_notFound handled_catch500 ran_rules)

lemma createQueuesRoutes_handled:
  "handled 2 (queueOwnErrors req) w (createQueuesRoutes numberToString qo req w)"
proof (cases req)
  case (ListQueues ps cs)
  then show ?thesis by (auto intro!: handled_mono [OF queuesList_handled])
next
  case (Send b)
  then show ?thesis by (auto intro!: handled_mono [OF queueSend_handled])
next
  case (SendBatch b)
  then show ?thesis by (auto intro!: handled_mono [OF queueSendBatch_handled])
qed

lemma createLogsRoutes_handled:
  "handledR 0 {} (\<lambda>raw. raw_status raw = 200) w (createLogsRoutes req w)"
  by (cases req)
     (auto intro!: handledR_pure answeredR_json answeredR_raw answered_200
        simp: logsGet_def logsClear_def logsStream_def)

lemma health_answered: "answered (serverHealth running)" "answered wwwHealth"
  by (simp_all add: serverHealth_def wwwHealth_def answered_200)

subsection \<open>R2 routes\<close>

lemma r2ListBuckets_answered: "answered (r2ListBuckets m)"
  unfolding r2ListBuckets_def by (rule answered_200)

lemma r2ListObjects_handled: "handled (Suc 0) R w (r2ListObjects r2o p lim c d w)"
  unfolding r2ListObjects_def Let_def
  by (auto split: option.splits intro!: handled_notFound handled_catch500 ran_rules)

lemma answered_object: "answered (objectMeta h)" "answered (objectStored h)"
  by (simp_all add: objectMeta_def objectStored_def answered_200)

lemma r2GetMeta_handled: "handled (Suc 0) R w (r2GetMeta r2o key w)"
  unfolding r2GetMeta_def
  by (auto split: option.splits intro!: handled_notFound handled_catch500 ran_rules answered_object)

lemma r2GetObject_handled:
  "headerErrors Headers_set \<subseteq> R \<Longrightarrow>
   handledR (Suc 0) R (\<lambda>raw. raw_status raw = 200) w (r2GetObject Headers_set numberToString r2o key w)"
  unfolding r2GetObject_def
  by (auto split: option.splits prod.splits
      intro!: handledR_pure handledR_catch500r ran_rules dest!: error_rules)

lemma r2PutObject_handled: "handled (Suc 0) R w (r2PutObject r2o key ct hs rb w)"
  unfolding r2PutObject_def Let_def
  by (auto split: option.splits intro!: handled_notFound handled_catch500 ran_rules answered_object)

lemma r2DeleteObject_handled: "handled (Suc 0) R w (r2DeleteObject r2o key w)"
  unfolding r2DeleteObject_def
  by (auto split: option.splits intro!: handled_notFound handled_catch500 ran_rules)

lemma r2BulkDelete_handled: "thrownBy b \<subseteq> R \<Longrightarrow> handled (Suc 0) R w (r2BulkDelete r2o b w)"
  unfolding r2BulkDelete_def
  by (auto split: option.splits intro!: handled_notFound handled_catch500 ran_rules)

lemma createR2Routes_handled:
  "handledR 2 (r2OwnErrors Headers_set req) (\<lambda>raw. raw_status raw = 200) w
     (createR2Routes Headers_set numberToString r2o req w)"
proof (cases req)
  case (ListBuckets m)
  then show ?thesis by (auto intro!: handledR_pure answeredR_json r2ListBuckets_answered)
next
  case (ListObjects p lim c d)
  then show ?thesis by (auto intro!: handled_jsonReply handled_mono [OF r2ListObjects_handled])
next
  case (GetObjectMeta key)
  then show ?thesis by (auto intro!: handled_jsonReply handled_mono [OF r2GetMeta_handled])
next
  case (GetObject key)
  then show ?thesis by (auto intro!: handledR_mono [OF r2GetObject_handled])
next
  case (PutObject key ct hs rb)
  then show ?thesis by (auto intro!: handled_jsonReply handled_mono [OF r2PutObject_handled])
next
  case (DeleteObject key)
  then show ?thesis by (auto intro!: handled_jsonReply handled_mono [OF r2DeleteObject_handled])
next
  case (R2BulkDelete b)
  then show ?thesis by (auto intro!: handled_jsonReply handled_mono [OF r2BulkDelete_handled])
qed

lemma serverR2ListBuckets_answered: "answered (serverR2ListBuckets found)"
  unfolding serverR2ListBuckets_def by (rule answered_200)

lemma serverR2ListObjects_handled:
  "thrownBy g \<subseteq> R \<Longrightarrow> handled (Suc 0) R w (serverR2ListObjects g p c lim d w)"
  unfolding serverR2ListObjects_def Let_def
  by (auto intro!: handled_catch500 ran_rules)

lemma serverR2GetMeta_handled:
  "thrownBy g \<subseteq> R \<Longrightarrow> handled (Suc 0) R w (serverR2GetMeta g key w)"
  unfolding serverR2GetMeta_def
  by (auto split: option.splits intro!: handled_catch500 ran_rules answered_object)

lemma serverR2GetObject_handled:
  "thrownBy g \<subseteq> R \<Longrightarrow> headerErrors Headers_set \<subseteq> R \<Longrightarrow>
   handledR (Suc 0) R (\<lambda>raw. raw_status raw = 200) w
     (serverR2GetObject Headers_set numberToString g key w)"
  unfolding serverR2GetObject_def
  by (auto split: option.splits prod.splits
      intro!: handledR_catch500r ran_rules dest!: error_rules)

lemma serverR2PutObject_handled:
  "thrownBy g \<subseteq> R \<Longrightarrow> thrownBy rb \<subseteq> R \<Longrightarrow>
   handled (Suc 0) R w (serverR2PutObject g key ct rb hs w)"
  unfolding serverR2PutObject_def Let_def
  by (auto intro!: handled_catch500 ran_rules answered_object)

lemma serverR2DeleteObject_handled:
  "thrownBy g \<subseteq> R \<Longrightarrow> handled (Suc 0) R w (serverR2DeleteObject g key w)"
  unfolding serverR2DeleteObject_def
  by (auto intro!: handled_catch500 ran_rules)

lemma serverR2BulkDelete_handled:
  "thrownBy g \<subseteq> R \<Longrightarrow> thrownBy b \<subseteq> R \<Longrightarrow> handled (Suc 0) R w (serverR2BulkDelete g b w)"
  unfolding serverR2BulkDelete_def
  by (auto intro!: handled_catch500 ran_rules)

lemma server_createR2Routes_handled:
  "handledR 2 (thrownBy g \<union> serverR2OwnErrors Headers_set req) (\<lambda>raw. raw_status raw = 200) w
     (server_createR2Routes Headers_set numberToString g req w)"
proof (cases req)
  case (ServerListBuckets m)
  then show ?thesis by (auto intro!: handledR_pure answeredR_json serverR2ListBuckets_answered)
next
  case (ServerListObjects p c lim d)
  then show ?thesis
    by (auto intro!: handled_jsonReply handled_mono [OF serverR2ListObjects_handled])
next
  case (ServerGetObjectMeta key)
  then show ?thesis by (auto intro!: handled_jsonReply handled_mono [OF serverR2GetMeta_handled])
next
  case (ServerGetObject key)
  then show ?thesis by (auto intro!: handledR_mono [OF serverR2GetObject_handled])
next
  case (ServerPutObject key ct rb hs)
  then show ?thesis
    by (auto intro!: handled_jsonReply handled_mono [OF serverR2PutObject_handled])
next
  case (ServerDeleteObject key)
  then show ?thesis
    by (auto intro!: handled_jsonReply handled_mono [OF serverR2DeleteObject_handled])
next
  case (ServerR2BulkDelete b)
  then show ?thesis
    by (auto intro!: handled_jsonReply handled_mono [OF serverR2BulkDelete_handled])
qed

subsection \<open>Durable Object routes\<close>

lemma doList_answered: "answered (doList found)"
  unfolding doList_def by (rule answered_200)

lemma doCreateId_handled:
  "thrownBy g \<subseteq> R \<Longrightarrow> thrownBy b \<subseteq> R \<Longrightarrow> handled (Suc 0) R w (doCreateId g b w)"
  unfolding doCreateId_def
  by (auto intro!: handled_catch500 ran_rules)

lemma doFetch_handled:
  "thrownBy g \<subseteq> R \<Longrightarrow> {e. \<exists>path base. URL_new path base = Inl e} \<subseteq> R \<Longrightarrow>
   {e. \<exists>init. Request_new init = Inl e} \<subseteq> R \<Longrightarrow>
   handledR (Suc (Suc (Suc 0))) R (\<lambda>raw. True) w (doFetch URL_new Request_new g idStr p m hs rb w)"
  unfolding doFetch_def Let_def
  by (auto intro!: handledR_catch500r ran_rules)

lemma createDurableObjectRoutes_handled:
  "handledR (case req of Fetch idStr p m hs rb \<Rightarrow> 3 | _ \<Rightarrow> 2)
     (thrownBy g \<union> doOwnErrors URL_new Request_new req) (\<lambda>raw. True) w
     (createDurableObjectRoutes URL_new Request_new g req w)"
proof (cases req)
  case (ListDurableObjects found)
  then show ?thesis by (auto intro!: handledR_pure answeredR_json doList_answered)
next
  case (CreateId b)
  then show ?thesis by (auto intro!: handled_jsonReply handled_mono [OF doCreateId_handled])
next
  case (Fetch idStr p m hs rb)
  then show ?thesis by (auto intro!: handledR_mono [OF doFetch_handled])
qed

subsection \<open>The two claims about all handlers\<close>

lemma handled_errorsCaught: "handled n R w r \<Longrightarrow> errorsCaught R w r"
  by (simp add: handled_def)

lemma handledR_errorsCaughtR: "handledR n R Raw w r \<Longrightarrow> errorsCaughtR R Raw w r"
  by (simp add: handledR_def)

lemma caught_object: "caught R new resp \<Longrightarrow> isObject (body resp)"
  by (auto simp: caught_def errorResponses_def answered_def json_def split: if_splits)

lemma handled_calls:
  "handled n R w r \<Longrightarrow> extends w r \<and> length (newCalls w r) \<le> n \<and> isObject (body (fst r))"
  by (auto simp: handled_def errorsCaught_def caught_object)

lemma handledR_calls:
  "handledR n R Raw w r \<Longrightarrow>
   extends w r \<and> length (newCalls w r) \<le> n \<and>
   (case fst r of JsonReply resp \<Rightarrow> isObject (body resp) | RawReply raw \<Rightarrow> True)"
  by (auto simp: handledR_def errorsCaughtR_def caught_object split: reply.splits)

lemma doFetch_forwards:
  assumes "do_idFromString ns idStr s = (Inr doId, sa)"
    and "do_get ns doId sa = (Inr u, sb)"
    and "URL_new (pathAfterFetch reqPath) ''http://do.internal'' = Inr url"
    and "Request_new \<lparr>rq_url = url, rq_method = reqMethod, rq_headers = headers,
                       rq_body = (if reqMethod \<noteq> ''GET'' \<and> reqMethod \<noteq> ''HEAD''
                                  then rawBody else None)\<rparr> = Inr request"
    and "do_fetch ns doId request sb = (Inr response, sc)"
  shows "createDurableObjectRoutes URL_new Request_new (Inr ns)
           (Fetch idStr reqPath reqMethod headers rawBody) (s, l)
     = (RawReply response,
        (sc, l @ [(DOIdFromString idStr, None), (DOGet doId, None),
                  (DOFetch doId request, None)]))"
  using assms
  by (simp add: doFetch_def catch500r_def bindE_def invoke_def Let_def)

lemma r2GetObject_found:
  assumes "r2_get r2 key s = (Inr (Some (obj, bytes)), sa)"
    and "objectHeaders Headers_set numberToString obj = Inr headers"
  shows "createR2Routes Headers_set numberToString (Some r2) (GetObject key) (s, l)
     = (RawReply \<lparr>raw_status = 200, raw_headers = headers, raw_body = bytes\<rparr>,
        (sa, l @ [(R2Get key, None)]))"
    and "server_createR2Routes Headers_set numberToString (Inr r2) (ServerGetObject key) (s, l)
     = (RawReply \<lparr>raw_status = 200, raw_headers = headers, raw_body = bytes\<rparr>,
        (sa, l @ [(R2Get key, None)]))"
  using assms
  by (simp_all add: r2GetObject_def serverR2GetObject_def catch500r_def bindE_def invoke_def)

lemma getTable_calls:
  "extends (s, l) (getTable (Some db) t (s, l)) \<and> length (newCalls (s, l) (getTable (Some db) t (s, l))) = 4"
  unfolding getTable_def extends_def newCalls_def
  by (simp add: Let_def call_all_def call_first_def invoke_eq catch500_def bindE_def
      split: sum.splits prod.splits)

lemma exampleFetch:
  "createDurableObjectRoutes (\<lambda>path base. Inr (base @ path)) Inr (Inr exampleNamespace)
       (Fetch ''abc'' ''/api/do/COUNTER/abc/fetch/status'' ''GET'' [] None) (0, [])
     = (RawReply teapot,
        (1, [(DOIdFromString ''abc'', None), (DOGet ''abc'', None),
             (DOFetch ''abc'' \<lparr>rq_url = ''http://do.internal/status'', rq_method = ''GET'',
                                rq_headers = [], rq_body = None\<rparr>, None)]))"
proof -
  have p: "pathAfterFetch ''/api/do/COUNTER/abc/fetch/status'' = ''/status''"
    by (simp add: pathAfterFetch_def startsWith_def)
  show ?thesis
    by (simp add: doFetch_def catch500r_def bindE_def invoke_def Let_def exampleNamespace_def p)
qed

text \<open>
  C2, as stated, fails in two ways. The handlers also answer with 400: a query request
  without SQL is answered with 400 \<^verbatim>\<open>SQL query is required\<close>. And the Durable Object fetch
  route of the server passes on whatever the object responds: here a response with status
  418.
\<close>

theorem post_query_status_counterexample:
  "postQuery (Some (exampleDb [])) (Inr \<lparr>qb_sql = None, qb_params = None\<rparr>) (0, [])
     = (json [(''error'', JStr ''SQL query is required'')] 400, (0, []))
   \<and> status (fst (postQuery (Some (exampleDb [])) (Inr \<lparr>qb_sql = None, qb_params = None\<rparr>) (0, []))) = 400
   \<and> fst (createDurableObjectRoutes (\<lambda>path base. Inr (base @ path)) Inr (Inr exampleNamespace)
            (Fetch ''abc'' ''/api/do/COUNTER/abc/fetch/status'' ''GET'' [] None) (0, []))
     = RawReply \<lparr>raw_status = 418, raw_headers = [], raw_body = ''short and stout''\<rparr>"
  using exampleFetch
  by (simp add: teapot_def postQuery_def catch500s_def bindE_def json_def)

text \<open>
  C2, amended. For every REST route handler of the source (the D1, KV, R2, queue and log
  routes of the API worker; the health, D1, KV, R2 and Durable Object routes of the
  dashboard server; the health route of the web site's worker), started with any log of
  calls: the log only grows; if a call on the binding threw, the response is the 500
  response of the \<^verbatim>\<open>catch\<close> block for an error a call threw, with \<^verbatim>\<open>String(error)\<close> in the
  \<^verbatim>\<open>error\<close> field of its JSON body (every error that reaches a \<^verbatim>\<open>catch\<close> block is answered
  so); if no call threw, the response is 200 with a JSON object,
  or 400 with the message of a validation guard, or 404 with a not-found message, or the 500
  response for an error raised in the \<^verbatim>\<open>try\<close> block otherwise (reading the request,
  resolving the binding, the handler's own \<^verbatim>\<open>throw\<close>, a builtin), or, in the R2 object routes
  and the log stream, a response with status 200 that is not JSON. The Durable Object fetch
  route of the server is the exception to the list of statuses: when nothing throws, it
  returns the response of the Durable Object as it is, whatever its status.
\<close>

theorem handlers_catch_errors:
  "errorsCaught (ownErrors dreq) (s, l) (createD1Routes P dbo dreq (s, l))
   \<and> errorsCaught (kvOwnErrors kreq) (s, l) (createKVRoutes maxArguments btoa kvo kreq (s, l))
   \<and> errorsCaughtR (r2OwnErrors Headers_set rreq) (\<lambda>raw. raw_status raw = 200) (s, l)
        (createR2Routes Headers_set numberToString r2o rreq (s, l))
   \<and> errorsCaught (queueOwnErrors qreq) (s, l) (createQueuesRoutes numberToString qo qreq (s, l))
   \<and> errorsCaughtR {} (\<lambda>raw. raw_status raw = 200) (s, l) (createLogsRoutes lreq (s, l))
   \<and> errorsCaught (thrownBy getD1Database \<union> serverD1OwnErrors sdreq) (s, l)
        (server_createD1Routes getD1Database sdreq (s, l))
   \<and> errorsCaught (thrownBy getKVNamespace \<union> serverKvOwnErrors skreq) (s, l)
        (server_createKVRoutes toBase getKVNamespace skreq (s, l))
   \<and> errorsCaughtR (thrownBy getR2Bucket \<union> serverR2OwnErrors Headers_set srreq)
        (\<lambda>raw. raw_status raw = 200) (s, l)
        (server_createR2Routes Headers_set numberToString getR2Bucket srreq (s, l))
   \<and> errorsCaughtR (thrownBy getDurableObjectNamespace \<union> doOwnErrors URL_new Request_new doreq)
        (\<lambda>raw. True) (s, l)
        (createDurableObjectRoutes URL_new Request_new getDurableObjectNamespace doreq (s, l))
   \<and> answered (serverHealth running) \<and> status (serverHealth running) = 200
   \<and> answered wwwHealth \<and> status wwwHealth = 200
   \<and> (do_idFromString ns idStr s = (Inr doId, sa) \<and> do_get ns doId sa = (Inr u, sb) \<and>
       URL_new (pathAfterFetch reqPath) ''http://do.internal'' = Inr url \<and>
       Request_new \<lparr>rq_url = url, rq_method = reqMethod, rq_headers = headers,
                     rq_body = (if reqMethod \<noteq> ''GET'' \<and> reqMethod \<noteq> ''HEAD''
                                then rawBody else None)\<rparr> = Inr request \<and>
       do_fetch ns doId request sb = (Inr response, sc) \<longrightarrow>
       createDurableObjectRoutes URL_new Request_new (Inr ns)
           (Fetch idStr reqPath reqMethod headers rawBody) (s, l)
         = (RawReply response,
            (sc, l @ [(DOIdFromString idStr, None), (DOGet doId, None),
                      (DOFetch doId request, None)])))
   \<and> catch500 (Inl e, (s, l)) = (json [(''error'', JStr (String_exn e))] 500, (s, l))
   \<and> catch500s (Inl e, (s, l))
       = (json [(''error'', JStr (String_exn e)), (''success'', JBool False)] 500, (s, l))
   \<and> catch500r (Inl e, (s, l))
       = (JsonReply (json [(''error'', JStr (String_exn e))] 500), (s, l))"
proof (intro conjI impI)
  show "errorsCaught (ownErrors dreq) (s, l) (createD1Routes P dbo dreq (s, l))"
    by (rule handled_errorsCaught [OF createD1Routes_handled])
  show "errorsCaught (kvOwnErrors kreq) (s, l) (createKVRoutes maxArguments btoa kvo kreq (s, l))"
    by (rule handled_errorsCaught [OF createKVRoutes_handled])
  show "errorsCaughtR (r2OwnErrors Headers_set rreq) (\<lambda>raw. raw_status raw = 200) (s, l)
        (createR2Routes Headers_set numberToString r2o rreq (s, l))"
    by (rule handledR_errorsCaughtR [OF createR2Routes_handled])
  show "errorsCaught (queueOwnErrors qreq) (s, l) (createQueuesRoutes numberToString qo qreq (s, l))"
    by (rule handled_errorsCaught [OF createQueuesRoutes_handled])
  show "errorsCaughtR {} (\<lambda>raw. raw_status raw = 200) (s, l) (createLogsRoutes lreq (s, l))"
    by (rule handledR_errorsCaughtR [OF createLogsRoutes_handled])
  show "errorsCaught (thrownBy getD1Database \<union> serverD1OwnErrors sdreq) (s, l)
        (server_createD1Routes getD1Database sdreq (s, l))"
    by (rule handled_errorsCaught [OF server_createD1Routes_handled])
  show "errorsCaught (thrownBy getKVNamespace \<union> serverKvOwnErrors skreq) (s, l)
        (server_createKVRoutes toBase getKVNamespace skreq (s, l))"
    by (rule handled_errorsCaught [OF server_createKVRoutes_handled])
  show "errorsCaughtR (thrownBy getR2Bucket \<union> serverR2OwnErrors Headers_set srreq)
        (\<lambda>raw. raw_status raw = 200) (s, l)
        (server_createR2Routes Headers_set numberToString getR2Bucket srreq (s, l))"
    by (rule handledR_errorsCaughtR [OF server_createR2Routes_handled])
  show "errorsCaughtR (thrownBy getDurableObjectNamespace \<union> doOwnErrors URL_new Request_new doreq)
        (\<lambda>raw. True) (s, l)
        (createDurableObjectRoutes URL_new Request_new getDurableObjectNamespace doreq (s, l))"
    by (rule handledR_errorsCaughtR [OF createDurableObjectRoutes_handled])
  show "answered (serverHealth running)" "answered wwwHealth"
    by (rule health_answered)+
  show "status (serverHealth running) = 200" "status wwwHealth = 200"
    by (simp_all add: serverHealth_def wwwHealth_def json_def)
  show "catch500 (Inl e, (s, l)) = (json [(''error'', JStr (String_exn e))] 500, (s, l))"
    by (simp add: catch500_def)
  show "catch500s (Inl e, (s, l))
       = (json [(''error'', JStr (String_exn e)), (''success'', JBool False)] 500, (s, l))"
    by (simp add: catch500s_def)
  show "catch500r (Inl e, (s, l))
       = (JsonReply (json [(''error'', JStr (String_exn e))] 500), (s, l))"
    by (simp add: catch500r_def)
next
  assume "do_idFromString ns idStr s = (Inr doId, sa) \<and> do_get ns doId sa = (Inr u, sb) \<and>
       URL_new (pathAfterFetch reqPath) ''http://do.internal'' = Inr url \<and>
       Request_new \<lparr>rq_url = url, rq_method = reqMethod, rq_headers = headers,
                     rq_body = (if reqMethod \<noteq> ''GET'' \<and> reqMethod \<noteq> ''HEAD''
                                then rawBody else None)\<rparr> = Inr request \<and>
       do_fetch ns doId request sb = (Inr response, sc)"
  then show "createDurableObjectRoutes URL_new Request_new (Inr ns)
           (Fetch idStr reqPath reqMethod headers rawBody) (s, l)
         = (RawReply response,
            (sc, l @ [(DOIdFromString idStr, None), (DOGet doId, None),
                      (DOFetch doId request, None)]))"
    by (elim conjE) (rule doFetch_forwards)
qed

theorem handlers_catch_errors_witness:
  "createD1Routes (\<lambda>_. None) (Some failingDb) GetSchema ((), [])
     = (json [(''error'', JStr ''Error: D1_ERROR: no such table'')] 500,
        ((), [(D1All \<lparr>stmt_sql = schemaSql, stmt_params = []\<rparr>,
               Some (Exn ''Error'' ''D1_ERROR: no such table''))]))
   \<and> errorsCaught {} ((), []) (createD1Routes (\<lambda>_. None) (Some failingDb) GetSchema ((), []))
   \<and> caught {} [(D1All \<lparr>stmt_sql = schemaSql, stmt_params = []\<rparr>,
                  Some (Exn ''Error'' ''D1_ERROR: no such table''))]
        (json [(''error'', JStr ''Error: D1_ERROR: no such table'')] 500)
   \<and> \<not> caught {} [(D1All \<lparr>stmt_sql = schemaSql, stmt_params = []\<rparr>,
                    Some (Exn ''Error'' ''D1_ERROR: no such table''))]
        (json [(''tables'', JArr [])] 200)
   \<and> \<not> caught {} [] (json [(''error'', JStr ''Error: D1_ERROR: no such table'')] 500)
   \<and> \<not> caught {} [] (json [(''error'', JStr ''not a guard'')] 400)
   \<and> createDurableObjectRoutes (\<lambda>path base. Inr (base @ path)) Inr (Inr exampleNamespace)
         (Fetch ''abc'' ''/api/do/COUNTER/abc/fetch/status'' ''GET'' [] None) (0, [])
     = (RawReply teapot,
        (1, [(DOIdFromString ''abc'', None), (DOGet ''abc'', None),
             (DOFetch ''abc'' \<lparr>rq_url = ''http://do.internal/status'', rq_method = ''GET'',
                                rq_headers = [], rq_body = None\<rparr>, None)]))"
proof -
  have a: "createD1Routes (\<lambda>_. None) (Some failingDb) GetSchema ((), [])
     = (json [(''error'', JStr ''Error: D1_ERROR: no such table'')] 500,
        ((), [(D1All \<lparr>stmt_sql = schemaSql, stmt_params = []\<rparr>,
               Some (Exn ''Error'' ''D1_ERROR: no such table''))]))"
    by (simp add: getSchema_def catch500_def bindE_def call_all_def invoke_def failingDb_def)
  have b: "errorsCaught {} ((), []) (createD1Routes (\<lambda>_. None) (Some failingDb) GetSchema ((), []))"
    using handlers_catch_errors [where l = "[]" and P = "\<lambda>_. None" and dbo = "Some failingDb"
      and dreq = GetSchema and s = "()", THEN conjunct1]
    by simp
  from b have c: "caught {} [(D1All \<lparr>stmt_sql = schemaSql, stmt_params = []\<rparr>,
                  Some (Exn ''Error'' ''D1_ERROR: no such table''))]
        (json [(''error'', JStr ''Error: D1_ERROR: no such table'')] 500)"
    unfolding a by (simp add: errorsCaught_def newCalls_def)
  have d: "\<not> caught {} [(D1All \<lparr>stmt_sql = schemaSql, stmt_params = []\<rparr>,
                    Some (Exn ''Error'' ''D1_ERROR: no such table''))]
        (json [(''tables'', JArr [])] 200)"
    by (simp add: caught_def errorResponses_def json_def)
  have e: "\<not> caught {} [] (json [(''error'', JStr ''Error: D1_ERROR: no such table'')] 500)"
    by (auto simp add: caught_def answered_def json_def)
  have f: "\<not> caught {} [] (json [(''error'', JStr ''not a guard'')] 400)"
    by (auto simp add: caught_def answered_def json_def validationMessages_def)
  have p: "pathAfterFetch ''/api/do/COUNTER/abc/fetch/status'' = ''/status''"
    by (simp add: pathAfterFetch_def startsWith_def)
  have h: "do_idFromString exampleNamespace ''abc'' 0 = (Inr ''abc'', 0) \<and>
       do_get exampleNamespace ''abc'' 0 = (Inr (), 0) \<and>
       (\<lambda>path base. Inr (base @ path)) (pathAfterFetch ''/api/do/COUNTER/abc/fetch/status'')
          ''http://do.internal'' = (Inr ''http://do.internal/status'' :: exn + string) \<and>
       (Inr :: do_request \<Rightarrow> exn + do_request)
          \<lparr>rq_url = ''http://do.internal/status'', rq_method = ''GET'', rq_headers = [],
            rq_body = (if ''GET'' \<noteq> ''GET'' \<and> ''GET'' \<noteq> ''HEAD'' then None else None)\<rparr>
         = Inr \<lparr>rq_url = ''http://do.internal/status'', rq_method = ''GET'', rq_headers = [],
                 rq_body = None\<rparr> \<and>
       do_fetch exampleNamespace ''abc''
          \<lparr>rq_url = ''http://do.internal/status'', rq_method = ''GET'', rq_headers = [],
            rq_body = None\<rparr> 0 = (Inr teapot, 1)"
    by (simp add: exampleNamespace_def p)
  note t = handlers_catch_errors [where l = "[]" and s = 0 and ns = exampleNamespace
      and idStr = "''abc''" and doId = "''abc''" and u = "()"
      and URL_new = "\<lambda>path base. Inr (base @ path)" and Request_new = Inr
      and reqPath = "''/api/do/COUNTER/abc/fetch/status''" and reqMethod = "''GET''"
      and headers = "[]" and rawBody = None and url = "''http://do.internal/status''"
      and request = "\<lparr>rq_url = ''http://do.internal/status'', rq_method = ''GET'',
                       rq_headers = [], rq_body = None\<rparr>"
      and response = teapot and sa = 0 and sb = 0 and sc = 1]
  have g: "createDurableObjectRoutes (\<lambda>path base. Inr (base @ path)) Inr (Inr exampleNamespace)
         (Fetch ''abc'' ''/api/do/COUNTER/abc/fetch/status'' ''GET'' [] None) (0, [])
     = (RawReply teapot,
        (1, [(DOIdFromString ''abc'', None), (DOGet ''abc'', None),
             (DOFetch ''abc'' \<lparr>rq_url = ''http://do.internal/status'', rq_method = ''GET'',
                                rq_headers = [], rq_body = None\<rparr>, None)]))"
    using t [THEN conjunct2, THEN conjunct2, THEN conjunct2, THEN conjunct2, THEN conjunct2,
             THEN conjunct2, THEN conjunct2, THEN conjunct2, THEN conjunct2, THEN conjunct2,
             THEN conjunct2, THEN conjunct2, THEN conjunct2, THEN conjunct1, THEN mp, OF h]
    by simp
  from a b c d e f g show ?thesis by blast
qed

lemma handled_isJson: "handled n R w r \<Longrightarrow> isJson (fst (jsonReply r))"
  by (simp add: jsonReply_def handled_calls)

lemma createR2Routes_json:
  "(\<forall>key. rreq \<noteq> GetObject key) \<Longrightarrow>
   isJson (fst (createR2Routes Headers_set numberToString r2o rreq (s, l)))"
proof (cases rreq)
  case (ListBuckets m)
  then show ?thesis by (simp add: r2ListBuckets_def json_def)
next
  case (ListObjects p lim c d)
  then show ?thesis by (simp add: handled_isJson [OF r2ListObjects_handled [where R = "{}"]])
next
  case (GetObjectMeta key)
  then show ?thesis by (simp add: handled_isJson [OF r2GetMeta_handled [where R = "{}"]])
next
  case (GetObject key)
  assume "\<forall>key. rreq \<noteq> GetObject key"
  with GetObject show ?thesis by simp
next
  case (PutObject key ct hs rb)
  then show ?thesis by (simp add: handled_isJson [OF r2PutObject_handled [where R = "{}"]])
next
  case (DeleteObject key)
  then show ?thesis by (simp add: handled_isJson [OF r2DeleteObject_handled [where R = "{}"]])
next
  case (R2BulkDelete b)
  then show ?thesis
    by (simp add: handled_isJson [OF r2BulkDelete_handled [where R = "thrownBy b"]])
qed

lemma server_createR2Routes_json:
  "(\<forall>key. srreq \<noteq> ServerGetObject key) \<Longrightarrow>
   isJson (fst (server_createR2Routes Headers_set numberToString g srreq (s, l)))"
proof (cases srreq)
  case (ServerListBuckets m)
  then show ?thesis by (simp add: serverR2ListBuckets_def json_def)
next
  case (ServerListObjects p c lim d)
  then show ?thesis
    by (simp add: handled_isJson [OF serverR2ListObjects_handled [where R = "thrownBy g"]])
next
  case (ServerGetObjectMeta key)
  then show ?thesis
    by (simp add: handled_isJson [OF serverR2GetMeta_handled [where R = "thrownBy g"]])
next
  case (ServerGetObject key)
  assume "\<forall>key. srreq \<noteq> ServerGetObject key"
  with ServerGetObject show ?thesis by simp
next
  case (ServerPutObject key ct rb hs)
  then show ?thesis
    by (simp add: handled_isJson
          [OF serverR2PutObject_handled [where R = "thrownBy g \<union> thrownBy rb"]])
next
  case (ServerDeleteObject key)
  then show ?thesis
    by (simp add: handled_isJson [OF serverR2DeleteObject_handled [where R = "thrownBy g"]])
next
  case (ServerR2BulkDelete b)
  then show ?thesis
    by (simp add: handled_isJson
          [OF serverR2BulkDelete_handled [where R = "thrownBy g \<union> thrownBy b"]])
qed

lemma createDurableObjectRoutes_json:
  "(\<forall>idStr reqPath reqMethod headers rawBody.
      doreq \<noteq> Fetch idStr reqPath reqMethod headers rawBody) \<Longrightarrow>
   isJson (fst (createDurableObjectRoutes URL_new Request_new g doreq (s, l)))"
proof (cases doreq)
  case (ListDurableObjects found)
  then show ?thesis by (simp add: doList_def json_def)
next
  case (CreateId b)
  then show ?thesis
    by (simp add: handled_isJson [OF doCreateId_handled [where R = "thrownBy g \<union> thrownBy b"]])
next
  case (Fetch idStr reqPath reqMethod headers rawBody)
  assume "\<forall>idStr reqPath reqMethod headers rawBody.
      doreq \<noteq> Fetch idStr reqPath reqMethod headers rawBody"
  with Fetch show ?thesis by simp
qed

lemma exampleTable:
  "createD1Routes (\<lambda>_. None) (Some (exampleDb exampleColumns)) (GetTable ''t'') (0, [])
     = (json [(''table'', JStr ''t''),
              (''columns'', JArr exampleColumns),
              (''primaryKeys'', JArr [JStr ''id'']),
              (''indexes'', JArr exampleColumns),
              (''foreignKeys'', JArr exampleColumns),
              (''rowCount'', JNum 2)] 200,
        (4, [(D1All \<lparr>stmt_sql = ''PRAGMA table_info('' @ [DQ] @ ''t'' @ [DQ] @ '')'', stmt_params = []\<rparr>, None),
             (D1First \<lparr>stmt_sql = ''SELECT COUNT(*) as count FROM '' @ [DQ] @ ''t'' @ [DQ], stmt_params = []\<rparr>, None),
             (D1All \<lparr>stmt_sql = ''PRAGMA index_list('' @ [DQ] @ ''t'' @ [DQ] @ '')'', stmt_params = []\<rparr>, None),
             (D1All \<lparr>stmt_sql = ''PRAGMA foreign_key_list('' @ [DQ] @ ''t'' @ [DQ] @ '')'', stmt_params = []\<rparr>, None)]))"
  by (simp add: getTable_def Let_def call_all_def call_first_def invoke_def exampleDb_def
      catch500_def bindE_def escapeIdentifier_def exampleResult_def primaryKeysOf_exampleColumns
      rowCountOf_def getProp_def)
     (simp add: exampleColumns_def)

lemma exampleObjectHeaders:
  "objectHeaders exampleHeadersSet exampleNumberToString exampleObject
     = Inr [(''Content-Type'', ''text/plain''), (''ETag'', [DQ] @ ''e1'' @ [DQ]),
            (''Content-Length'', ''5'')]"
proof -
  have n: "exampleNumberToString 5 = ''5''"
    by (simp add: exampleNumberToString_def digitsOfNat.simps)
  show ?thesis
    by (simp add: objectHeaders_def exampleHeadersSet_def exampleObject_def stringField_def
        field_def getProp_def objectPrototypeMembers_def n)
qed

lemma exampleGetObject:
  "createR2Routes exampleHeadersSet exampleNumberToString (Some exampleBucket) (GetObject ''a.txt'')
       ((), [])
     = (RawReply \<lparr>raw_status = 200,
                  raw_headers = [(''Content-Type'', ''text/plain''), (''ETag'', [DQ] @ ''e1'' @ [DQ]),
                                 (''Content-Length'', ''5'')],
                  raw_body = ''hello''\<rparr>,
        ((), [(R2Get ''a.txt'', None)]))"
  using r2GetObject_found(1) [where ?r2.0 = exampleBucket and key = "''a.txt''" and s = "()"
      and obj = exampleObject and bytes = "''hello''" and sa = "()" and l = "[]"
      and Headers_set = exampleHeadersSet and numberToString = exampleNumberToString,
      OF _ exampleObjectHeaders]
  by (simp add: exampleBucket_def)

text \<open>
  C9, as stated, fails in three ways. The table route of the API worker, which is not a bulk
  route, makes four calls on the database for one request. The Durable Object fetch route of
  the server makes three calls on the namespace and its stub, and answers with the response
  of the object, which is not serialised by the handler. The R2 object route answers with
  the bytes of the object, not with JSON.
\<close>

theorem get_table_calls_counterexample:
  "newCalls (0, []) (createD1Routes (\<lambda>_. None) (Some (exampleDb exampleColumns)) (GetTable ''t'') (0, []))
     = [(D1All \<lparr>stmt_sql = ''PRAGMA table_info('' @ [DQ] @ ''t'' @ [DQ] @ '')'', stmt_params = []\<rparr>, None),
        (D1First \<lparr>stmt_sql = ''SELECT COUNT(*) as count FROM '' @ [DQ] @ ''t'' @ [DQ], stmt_params = []\<rparr>, None),
        (D1All \<lparr>stmt_sql = ''PRAGMA index_list('' @ [DQ] @ ''t'' @ [DQ] @ '')'', stmt_params = []\<rparr>, None),
        (D1All \<lparr>stmt_sql = ''PRAGMA foreign_key_list('' @ [DQ] @ ''t'' @ [DQ] @ '')'', stmt_params = []\<rparr>, None)]
   \<and> length (newCalls (0, [])
         (createD1Routes (\<lambda>_. None) (Some (exampleDb exampleColumns)) (GetTable ''t'') (0, []))) = 4
   \<and> createDurableObjectRoutes (\<lambda>path base. Inr (base @ path)) Inr (Inr exampleNamespace)
         (Fetch ''abc'' ''/api/do/COUNTER/abc/fetch/status'' ''GET'' [] None) (0, [])
     = (RawReply teapot,
        (1, [(DOIdFromString ''abc'', None), (DOGet ''abc'', None),
             (DOFetch ''abc'' \<lparr>rq_url = ''http://do.internal/status'', rq_method = ''GET'',
                                rq_headers = [], rq_body = None\<rparr>, None)]))
   \<and> \<not> isJson (fst (createDurableObjectRoutes (\<lambda>path base. Inr (base @ path)) Inr
                        (Inr exampleNamespace)
                        (Fetch ''abc'' ''/api/do/COUNTER/abc/fetch/status'' ''GET'' [] None) (0, [])))
   \<and> \<not> isJson (fst (createR2Routes exampleHeadersSet exampleNumberToString (Some exampleBucket)
                        (GetObject ''a.txt'') ((), [])))"
  unfolding exampleTable exampleFetch exampleGetObject
  by (simp add: newCalls_def)

text \<open>
  C9, amended. Every REST route handler of the source other than the four kinds named below
  and the KV bulk-delete routes makes at most two calls on the binding for one request, and
  answers with a JSON object. The exceptions: the table route of the API worker makes four
  calls (columns, row count, indexes, foreign keys) and answers with a JSON object; the
  Durable Object fetch route of the server makes at most three calls, and when none throws
  it makes exactly three (\<^verbatim>\<open>idFromString\<close>, \<^verbatim>\<open>get\<close>, \<^verbatim>\<open>fetch\<close>) and answers with the response
  of the object as it is; the R2 object routes make one call and answer a stored object
  with its bytes, not JSON; and the log stream route makes no call and answers with an event
  stream. The health routes answer with a JSON object.
\<close>

theorem non_bulk_handlers_calls:
  "((\<forall>t. dreq \<noteq> GetTable t) \<longrightarrow>
      extends (s, l) (createD1Routes P dbo dreq (s, l)) \<and>
      length (newCalls (s, l) (createD1Routes P dbo dreq (s, l))) \<le> 2)
   \<and> isObject (body (fst (createD1Routes P dbo dreq (s, l))))
   \<and> extends (s, l) (createD1Routes P (Some db) (GetTable t) (s, l))
   \<and> length (newCalls (s, l) (createD1Routes P (Some db) (GetTable t) (s, l))) = 4
   \<and> ((\<forall>b. kreq \<noteq> KvBulkDelete b) \<longrightarrow>
      extends (s, l) (createKVRoutes maxArguments btoa kvo kreq (s, l)) \<and>
      length (newCalls (s, l) (createKVRoutes maxArguments btoa kvo kreq (s, l))) \<le> 2)
   \<and> isObject (body (fst (createKVRoutes maxArguments btoa kvo kreq (s, l))))
   \<and> extends (s, l) (createR2Routes Headers_set numberToString r2o rreq (s, l))
   \<and> length (newCalls (s, l) (createR2Routes Headers_set numberToString r2o rreq (s, l))) \<le> 2
   \<and> ((\<forall>key. rreq \<noteq> GetObject key) \<longrightarrow>
      isJson (fst (createR2Routes Headers_set numberToString r2o rreq (s, l))))
   \<and> (r2_get r2 key s = (Inr (Some (obj, bytes)), sa) \<and>
       objectHeaders Headers_set numberToString obj = Inr hs \<longrightarrow>
      createR2Routes Headers_set numberToString (Some r2) (GetObject key) (s, l)
        = (RawReply \<lparr>raw_status = 200, raw_headers = hs, raw_body = bytes\<rparr>,
           (sa, l @ [(R2Get key, None)]))
      \<and> server_createR2Routes Headers_set numberToString (Inr r2) (ServerGetObject key) (s, l)
        = (RawReply \<lparr>raw_status = 200, raw_headers = hs, raw_body = bytes\<rparr>,
           (sa, l @ [(R2Get key, None)])))
   \<and> extends (s, l) (createQueuesRoutes numberToString qo qreq (s, l))
   \<and> length (newCalls (s, l) (createQueuesRoutes numberToString qo qreq (s, l))) \<le> 2
   \<and> isObject (body (fst (createQueuesRoutes numberToString qo qreq (s, l))))
   \<and> snd (createLogsRoutes lreq (s, l)) = (s, l)
   \<and> (isJson (fst (createLogsRoutes lreq (s, l))) \<longleftrightarrow> lreq \<noteq> StreamLogs)
   \<and> extends (s, l) (server_createD1Routes getD1Database sdreq (s, l))
   \<and> length (newCalls (s, l) (server_createD1Routes getD1Database sdreq (s, l))) \<le> 2
   \<and> isObject (body (fst (server_createD1Routes getD1Database sdreq (s, l))))
   \<and> ((\<forall>b. skreq \<noteq> ServerKvBulkDelete b) \<longrightarrow>
      extends (s, l) (server_createKVRoutes toBase getKVNamespace skreq (s, l)) \<and>
      length (newCalls (s, l) (server_createKVRoutes toBase getKVNamespace skreq (s, l))) \<le> 2)
   \<and> isObject (body (fst (server_createKVRoutes toBase getKVNamespace skreq (s, l))))
   \<and> extends (s, l) (server_createR2Routes Headers_set numberToString getR2Bucket srreq (s, l))
   \<and> length (newCalls (s, l)
         (server_createR2Routes Headers_set numberToString getR2Bucket srreq (s, l))) \<le> 2
   \<and> ((\<forall>key. srreq \<noteq> ServerGetObject key) \<longrightarrow>
      isJson (fst (server_createR2Routes Headers_set numberToString getR2Bucket srreq (s, l))))
   \<and> extends (s, l)
        (createDurableObjectRoutes URL_new Request_new getDurableObjectNamespace doreq (s, l))
   \<and> length (newCalls (s, l)
         (createDurableObjectRoutes URL_new Request_new getDurableObjectNamespace doreq (s, l))) \<le> 3
   \<and> ((\<forall>idStr reqPath reqMethod headers rawBody.
         doreq \<noteq> Fetch idStr reqPath reqMethod headers rawBody) \<longrightarrow>
      length (newCalls (s, l)
         (createDurableObjectRoutes URL_new Request_new getDurableObjectNamespace doreq (s, l))) \<le> 2
      \<and> isJson (fst (createDurableObjectRoutes URL_new Request_new getDurableObjectNamespace
                        doreq (s, l))))
   \<and> (do_idFromString ns idStr s = (Inr doId, sa) \<and> do_get ns doId sa = (Inr u, sb) \<and>
       URL_new (pathAfterFetch reqPath) ''http://do.internal'' = Inr url \<and>
       Request_new \<lparr>rq_url = url, rq_method = reqMethod, rq_headers = headers,
                     rq_body = (if reqMethod \<noteq> ''GET'' \<and> reqMethod \<noteq> ''HEAD''
                                then rawBody else None)\<rparr> = Inr request \<and>
       do_fetch ns doId request sb = (Inr response, sc) \<longrightarrow>
       createDurableObjectRoutes URL_new Request_new (Inr ns)
           (Fetch idStr reqPath reqMethod headers rawBody) (s, l)
         = (RawReply response,
            (sc, l @ [(DOIdFromString idStr, None), (DOGet doId, None),
                      (DOFetch doId request, None)])))
   \<and> isObject (body (serverHealth running)) \<and> isObject (body wwwHealth)"
proof -
  note d = handled_calls [OF createD1Routes_handled [where req = dreq and w = "(s, l)"
        and P = P and dbo = dbo]]
  have c1: "(\<forall>t. dreq \<noteq> GetTable t) \<longrightarrow>
      extends (s, l) (createD1Routes P dbo dreq (s, l)) \<and>
      length (newCalls (s, l) (createD1Routes P dbo dreq (s, l))) \<le> 2"
    using d by auto
  have c2: "isObject (body (fst (createD1Routes P dbo dreq (s, l))))"
    using d by simp
  have c3: "extends (s, l) (createD1Routes P (Some db) (GetTable t) (s, l))
   \<and> length (newCalls (s, l) (createD1Routes P (Some db) (GetTable t) (s, l))) = 4"
    using getTable_calls [of s l db t] by simp
  note k = handled_calls [OF createKVRoutes_handled [where req = kreq and w = "(s, l)"
        and maxArguments = maxArguments and btoa = btoa and kvo = kvo]]
  have c4: "(\<forall>b. kreq \<noteq> KvBulkDelete b) \<longrightarrow>
      extends (s, l) (createKVRoutes maxArguments btoa kvo kreq (s, l)) \<and>
      length (newCalls (s, l) (createKVRoutes maxArguments btoa kvo kreq (s, l))) \<le> 2"
    using k by (cases kreq) auto
  have c5: "isObject (body (fst (createKVRoutes maxArguments btoa kvo kreq (s, l))))"
    using k by simp
  note r = handledR_calls [OF createR2Routes_handled [where req = rreq and w = "(s, l)"
        and Headers_set = Headers_set and numberToString = numberToString and ?r2o.0 = r2o]]
  have c6: "extends (s, l) (createR2Routes Headers_set numberToString r2o rreq (s, l))
   \<and> length (newCalls (s, l) (createR2Routes Headers_set numberToString r2o rreq (s, l))) \<le> 2"
    using r by simp
  have c7: "(\<forall>key. rreq \<noteq> GetObject key) \<longrightarrow>
      isJson (fst (createR2Routes Headers_set numberToString r2o rreq (s, l)))"
    by (intro impI) (rule createR2Routes_json)
  have c8: "r2_get r2 key s = (Inr (Some (obj, bytes)), sa) \<and>
       objectHeaders Headers_set numberToString obj = Inr hs \<longrightarrow>
      createR2Routes Headers_set numberToString (Some r2) (GetObject key) (s, l)
        = (RawReply \<lparr>raw_status = 200, raw_headers = hs, raw_body = bytes\<rparr>,
           (sa, l @ [(R2Get key, None)]))
      \<and> server_createR2Routes Headers_set numberToString (Inr r2) (ServerGetObject key) (s, l)
        = (RawReply \<lparr>raw_status = 200, raw_headers = hs, raw_body = bytes\<rparr>,
           (sa, l @ [(R2Get key, None)]))"
    by (intro impI conjI; elim conjE) (rule r2GetObject_found; assumption)+
  note q = handled_calls [OF createQueuesRoutes_handled [where req = qreq and w = "(s, l)"
        and numberToString = numberToString and qo = qo]]
  have c9: "extends (s, l) (createQueuesRoutes numberToString qo qreq (s, l))
   \<and> length (newCalls (s, l) (createQueuesRoutes numberToString qo qreq (s, l))) \<le> 2
   \<and> isObject (body (fst (createQueuesRoutes numberToString qo qreq (s, l))))"
    using q by simp
  have c10: "snd (createLogsRoutes lreq (s, l)) = (s, l)
   \<and> (isJson (fst (createLogsRoutes lreq (s, l))) \<longleftrightarrow> lreq \<noteq> StreamLogs)"
    by (cases lreq) (simp_all add: logsGet_def logsClear_def json_def)
  note sd = handled_calls [OF server_createD1Routes_handled [where req = sdreq and w = "(s, l)"
        and g = getD1Database]]
  have c11: "extends (s, l) (server_createD1Routes getD1Database sdreq (s, l))
   \<and> length (newCalls (s, l) (server_createD1Routes getD1Database sdreq (s, l))) \<le> 2
   \<and> isObject (body (fst (server_createD1Routes getD1Database sdreq (s, l))))"
    using sd by simp
  note sk = handled_calls [OF server_createKVRoutes_handled [where req = skreq and w = "(s, l)"
        and g = getKVNamespace and toBase = toBase]]
  have c12: "(\<forall>b. skreq \<noteq> ServerKvBulkDelete b) \<longrightarrow>
      extends (s, l) (server_createKVRoutes toBase getKVNamespace skreq (s, l)) \<and>
      length (newCalls (s, l) (server_createKVRoutes toBase getKVNamespace skreq (s, l))) \<le> 2"
    using sk by (cases skreq) auto
  have c13: "isObject (body (fst (server_createKVRoutes toBase getKVNamespace skreq (s, l))))"
    using sk by simp
  note sr = handledR_calls [OF server_createR2Routes_handled [where req = srreq and w = "(s, l)"
        and Headers_set = Headers_set and numberToString = numberToString and g = getR2Bucket]]
  have c14: "extends (s, l) (server_createR2Routes Headers_set numberToString getR2Bucket srreq (s, l))
   \<and> length (newCalls (s, l)
         (server_createR2Routes Headers_set numberToString getR2Bucket srreq (s, l))) \<le> 2"
    using sr by simp
  have c15: "(\<forall>key. srreq \<noteq> ServerGetObject key) \<longrightarrow>
      isJson (fst (server_createR2Routes Headers_set numberToString getR2Bucket srreq (s, l)))"
    by (intro impI) (rule server_createR2Routes_json)
  note dr = handledR_calls [OF createDurableObjectRoutes_handled [where req = doreq
        and w = "(s, l)" and URL_new = URL_new and Request_new = Request_new
        and g = getDurableObjectNamespace]]
  have c16: "extends (s, l)
        (createDurableObjectRoutes URL_new Request_new getDurableObjectNamespace doreq (s, l))
   \<and> length (newCalls (s, l)
         (createDurableObjectRoutes URL_new Request_new getDurableObjectNamespace doreq (s, l))) \<le> 3"
    using dr by (cases doreq) auto
  have c17: "(\<forall>idStr reqPath reqMethod headers rawBody.
         doreq \<noteq> Fetch idStr reqPath reqMethod headers rawBody) \<longrightarrow>
      length (newCalls (s, l)
         (createDurableObjectRoutes URL_new Request_new getDurableObjectNamespace doreq (s, l))) \<le> 2
      \<and> isJson (fst (createDurableObjectRoutes URL_new Request_new getDurableObjectNamespace
                        doreq (s, l)))"
    using dr createDurableObjectRoutes_json [of doreq URL_new Request_new getDurableObjectNamespace s l]
    by (cases doreq) auto
  have c18: "do_idFromString ns idStr s = (Inr doId, sa) \<and> do_get ns doId sa = (Inr u, sb) \<and>
       URL_new (pathAfterFetch reqPath) ''http://do.internal'' = Inr url \<and>
       Request_new \<lparr>rq_url = url, rq_method = reqMethod, rq_headers = headers,
                     rq_body = (if reqMethod \<noteq> ''GET'' \<and> reqMethod \<noteq> ''HEAD''
                                then rawBody else None)\<rparr> = Inr request \<and>
       do_fetch ns doId request sb = (Inr response, sc) \<longrightarrow>
       createDurableObjectRoutes URL_new Request_new (Inr ns)
           (Fetch idStr reqPath reqMethod headers rawBody) (s, l)
         = (RawReply response,
            (sc, l @ [(DOIdFromString idStr, None), (DOGet doId, None),
                      (DOFetch doId request, None)]))"
    by (intro impI, elim conjE) (rule doFetch_forwards)
  have c19: "isObject (body (serverHealth running)) \<and> isObject (body wwwHealth)"
    by (simp add: serverHealth_def wwwHealth_def json_def)
  from c1 c2 c3 c4 c5 c6 c7 c8 c9 c10 c11 c12 c13 c14 c15 c16 c17 c18 c19
  show ?thesis by (intro conjI) blast+
qed

theorem non_bulk_handlers_calls_witness:
  "length (newCalls (0, [])
     (createD1Routes (\<lambda>_. None) (Some (exampleDb exampleColumns))
        (PutRow ''t'' ''3'' (Inr [(''title'', JStr ''x'')])) (0, []))) = 2
   \<and> extends (0, [])
     (createD1Routes (\<lambda>_. None) (Some (exampleDb exampleColumns))
        (PutRow ''t'' ''3'' (Inr [(''title'', JStr ''x'')])) (0, []))
   \<and> createR2Routes exampleHeadersSet exampleNumberToString (Some exampleBucket)
        (GetObject ''a.txt'') ((), [])
     = (RawReply \<lparr>raw_status = 200,
                  raw_headers = [(''Content-Type'', ''text/plain''), (''ETag'', [DQ] @ ''e1'' @ [DQ]),
                                 (''Content-Length'', ''5'')],
                  raw_body = ''hello''\<rparr>,
        ((), [(R2Get ''a.txt'', None)]))
   \<and> isJson (fst (createR2Routes exampleHeadersSet exampleNumberToString (Some exampleBucket)
                    (GetObjectMeta ''a.txt'') ((), [])))"
proof -
  let ?put = "PutRow ''t'' ''3'' (Inr [(''title'', JStr ''x'')])"
  have h: "\<forall>t. ?put \<noteq> GetTable t" by simp
  note t = non_bulk_handlers_calls [where dreq = ?put and l = "[]" and s = 0
      and P = "\<lambda>_. None" and dbo = "Some (exampleDb exampleColumns)"]
  note a = t [THEN conjunct1, THEN mp, OF h]
  have n: "snd (snd (createD1Routes (\<lambda>_. None) (Some (exampleDb exampleColumns)) ?put (0, [])))
      = [(D1All \<lparr>stmt_sql = tableInfoSql ''t'', stmt_params = []\<rparr>, None),
         (D1Run \<lparr>stmt_sql = updateSql ''t'' (setClauseOf [(''title'', JStr ''x'')])
                              (pkCondition ''id''),
                  stmt_params = [JStr ''x'', JStr ''3'']\<rparr>, None)]"
    by (simp add: putRow_unfold [OF exampleDb_pragma] exampleResult_def primaryKeysOf_exampleColumns
        buildPrimaryKeyWhere_def startsWith_def updateEntriesOf_def exampleDb_run)
  have b: "length (newCalls (0, [])
     (createD1Routes (\<lambda>_. None) (Some (exampleDb exampleColumns)) ?put (0, []))) = 2"
    unfolding newCalls_def n by simp
  have g: "r2_get exampleBucket ''a.txt'' () = (Inr (Some (exampleObject, ''hello'')), ()) \<and>
       objectHeaders exampleHeadersSet exampleNumberToString exampleObject
         = Inr [(''Content-Type'', ''text/plain''), (''ETag'', [DQ] @ ''e1'' @ [DQ]),
                (''Content-Length'', ''5'')]"
    by (simp add: exampleBucket_def exampleObjectHeaders)
  note r = non_bulk_handlers_calls [where l = "[]" and s = "()" and ?r2.0 = exampleBucket
      and key = "''a.txt''" and obj = exampleObject and bytes = "''hello''" and sa = "()"
      and Headers_set = exampleHeadersSet and numberToString = exampleNumberToString
      and hs = "[(''Content-Type'', ''text/plain''), (''ETag'', [DQ] @ ''e1'' @ [DQ]),
                 (''Content-Length'', ''5'')]"
      and rreq = "GetObjectMeta ''a.txt''" and ?r2o.0 = "Some exampleBucket"]
  note c = r [THEN conjunct2, THEN conjunct2, THEN conjunct2, THEN conjunct2, THEN conjunct2,
              THEN conjunct2, THEN conjunct2, THEN conjunct2, THEN conjunct2, THEN conjunct1,
              THEN mp, OF g, THEN conjunct1]
  have m: "\<forall>key. GetObjectMeta ''a.txt'' \<noteq> GetObject key" by simp
  note e = r [THEN conjunct2, THEN conjunct2, THEN conjunct2, THEN conjunct2, THEN conjunct2,
              THEN conjunct2, THEN conjunct2, THEN conjunct2, THEN conjunct1, THEN mp, OF m]
  from a b c e show ?thesis by simp
qed

end
